theory Spec2Isabelle
  imports Main "HOL-Library.Word" "HOL-Library.AList"
begin

unbundle bit_operations_syntax

section \<open>Data model of the key manager (libkbfs/key_manager.go)\<close>

text \<open>
  Opaque values of the Go program (key material, identifiers) are natural numbers.
  \<open>KeyGen\<close> is Go's \<open>int\<close>; key generations stay far away from the 64-bit limits, so
  the model uses unbounded integers.
\<close>

type_synonym KeyGen = int
type_synonym UID = nat
type_synonym NormalizedUsername = string
type_synonym KID = nat
type_synonym CryptPublicKey = nat
type_synonym TLFCryptKey = nat
type_synonym TLFCryptKeyClientHalf = nat
type_synonym TLFCryptKeyServerHalf = nat
type_synonym TLFCryptKeyServerHalfID = nat
type_synonym TLFEphemeralPublicKey = nat
type_synonym TLFEphemeralPrivateKey = nat
type_synonym EncryptedTLFCryptKeyClientHalf = nat
type_synonym TLFPublicKey = nat
type_synonym TLFPrivateKey = nat
type_synonym PrivateMetadata = nat
type_synonym TlfHandle = nat
type_synonym ConflictInfo = nat

datatype tlf_ID = TlfID (id_bytes: nat) (IsPublic: bool)

text \<open>
  Go's \<open>error\<close> interface. The constructors are the error types that key_manager.go
  creates or inspects; \<open>ServiceError\<close> stands for any other failure of a collaborator
  and \<open>WithStack\<close> for the wrapping of github.com/pkg/errors, which \<open>Cause\<close> strips.
  \<open>IndexOutOfRange\<close> is the run-time panic of an out-of-range slice index.
\<close>

datatype error =
    InvalidKeyGenerationError tlf_ID KeyGen
  | NewKeyGenerationError tlf_ID KeyGen
  | KeyCacheMissError
  | TLFCryptKeyNotPerDeviceEncrypted
  | RekeyIncompleteError
  | ReadAccessError NormalizedUsername
  | DecryptionError
  | NoSecretKeyError
  | ErrorString string
  | ServiceError nat
  | WithStack error
  | IndexOutOfRange

fun Cause :: "error \<Rightarrow> error" where
  "Cause (WithStack e) = Cause e"
| "Cause e = e"

text \<open>\<open>EncryptedTLFCryptKeyClientAndEphemeral\<close>\<close>

record EncryptedTLFCryptKeyClientAndEphemeral =
  PubKey :: CryptPublicKey
  ClientHalf :: EncryptedTLFCryptKeyClientHalf
  EPubKey :: TLFEphemeralPublicKey

text \<open>
  \<open>UserDevicePublicKeys\<close> (\<open>map[UID]map[CryptPublicKey]bool\<close>) and
  \<open>UserDeviceKeyInfoMap\<close> (\<open>map[UID]map[CryptPublicKey]TLFCryptKeyInfo\<close>) are
  association lists; the key infos themselves are never inspected by the key manager.
  A set of users (\<open>map[UID]bool\<close>) is a list of UIDs. Go's \<open>range\<close> visits a map in
  no specified order; the model visits it in list order.
\<close>

type_synonym UserDevicePublicKeys = "(UID \<times> CryptPublicKey list) list"
type_synonym TLFCryptKeyInfo = nat
type_synonym DeviceKeyInfoMap = "(CryptPublicKey \<times> TLFCryptKeyInfo) list"
type_synonym UserDeviceKeyInfoMap = "(UID \<times> DeviceKeyInfoMap) list"

text \<open>\<open>userServerHalfRemovalInfo\<close>, as returned by \<open>revokeRemovedDevices\<close>.\<close>

record userServerHalfRemovalInfo =
  userRemoved :: bool
  deviceServerHalfIDs :: "(CryptPublicKey \<times> TLFCryptKeyServerHalfID list) list"

type_synonym ServerHalfRemovalInfo = "(UID \<times> userServerHalfRemovalInfo) list"

subsection \<open>The log of calls to collaborators\<close>

text \<open>
  Every call that leaves the key manager (key cache, identity service, key-halves
  server, crypto daemon, metadata server) and every call of a mutating method of the
  metadata object is recorded, in order, with the error it returned where the key
  manager looks at it.
\<close>

datatype event =
    EvKeyCacheGet tlf_ID KeyGen
  | EvKeyCachePut tlf_ID KeyGen TLFCryptKey
  | EvGetCurrentUserInfo
  | EvGetCryptPublicKeys UID
  | EvGetCurrentCryptPublicKey
  | EvDecryptClientHalf
  | EvDecryptClientHalfAny
  | EvGetServerHalf TLFCryptKeyServerHalfID CryptPublicKey
  | EvPutServerHalves "(TLFCryptKeyServerHalfID \<times> TLFCryptKeyServerHalf) list"
  | EvDeleteServerHalf UID KID TLFCryptKeyServerHalfID "error option"
  | EvFlushUser UID
  | EvResolveAgain
  | EvResolveAgainForUser UID
  | EvGetLatestHandleForTLF tlf_ID
  | EvIdentify "UID list"
  | EvMakeRandomTLFEphemeralKeys
  | EvMakeRandomTLFKeys
  | EvNotify
  | EvDecryptMDPrivateData
  | EvUpdateFromTlfHandle TlfHandle "error option"
  | EvPromoteReader UID "error option"
  | EvUpdateKeyGeneration KeyGen "error option"
  | EvRevokeRemovedDevices "error + ServerHalfRemovalInfo"
  | EvAddKeyGeneration "error option"
  | EvFinalizeRekey "error option"

type_synonym history = "event list"

subsection \<open>Collaborators\<close>

text \<open>
  The interfaces behind \<open>km.config\<close> and the methods of the metadata object are not
  part of key_manager.go. They are parameters of the model: records of functions. A
  collaborator may answer differently each time it is asked, so each of its functions
  also receives the log of the calls made so far.
\<close>

record KBPKI =
  GetCurrentUserInfo :: "history \<Rightarrow> error + (NormalizedUsername \<times> UID)"
  GetCryptPublicKeys :: "history \<Rightarrow> UID \<Rightarrow> error + CryptPublicKey list"
  GetCurrentCryptPublicKey :: "history \<Rightarrow> error + CryptPublicKey"
  identifyUserList :: "history \<Rightarrow> UID list \<Rightarrow> bool \<Rightarrow> error option"

record Crypto =
  DecryptTLFCryptKeyClientHalf ::
    "history \<Rightarrow> TLFEphemeralPublicKey \<Rightarrow> EncryptedTLFCryptKeyClientHalf
      \<Rightarrow> error + TLFCryptKeyClientHalf"
  DecryptTLFCryptKeyClientHalfAny ::
    "history \<Rightarrow> EncryptedTLFCryptKeyClientAndEphemeral list \<Rightarrow> bool
      \<Rightarrow> error + (TLFCryptKeyClientHalf \<times> int)"
  UnmaskTLFCryptKey :: "TLFCryptKeyServerHalf \<Rightarrow> TLFCryptKeyClientHalf \<Rightarrow> TLFCryptKey"
  MakeRandomTLFEphemeralKeys ::
    "history \<Rightarrow> TLFEphemeralPublicKey \<times> TLFEphemeralPrivateKey"
  MakeRandomTLFKeys :: "history \<Rightarrow> error + (TLFPublicKey \<times> TLFPrivateKey \<times> TLFCryptKey)"

record KeyOps =
  GetTLFCryptKeyServerHalf ::
    "history \<Rightarrow> TLFCryptKeyServerHalfID \<Rightarrow> CryptPublicKey \<Rightarrow> error + TLFCryptKeyServerHalf"
  PutTLFCryptKeyServerHalves ::
    "history \<Rightarrow> (TLFCryptKeyServerHalfID \<times> TLFCryptKeyServerHalf) list \<Rightarrow> error option"
  DeleteTLFCryptKeyServerHalf ::
    "history \<Rightarrow> UID \<Rightarrow> KID \<Rightarrow> TLFCryptKeyServerHalfID \<Rightarrow> error option"

text \<open>
  The key cache stores its entries in the state (below); the record holds the ways
  in which an implementation may fail: an error of \<open>GetTLFCryptKey\<close> other than the
  stored answer (one of them may be \<open>KeyCacheMissError\<close>, for an evicted entry) and an
  error of \<open>PutTLFCryptKey\<close>, which then stores nothing.
\<close>

record KeyCache =
  GetTLFCryptKey_fault :: "history \<Rightarrow> tlf_ID \<Rightarrow> KeyGen \<Rightarrow> error option"
  PutTLFCryptKey_fault :: "history \<Rightarrow> tlf_ID \<Rightarrow> KeyGen \<Rightarrow> TLFCryptKey \<Rightarrow> error option"

text \<open>
  Handles: \<open>ResolveAgain\<close>, \<open>ResolveAgainForUser\<close>, \<open>Equals\<close>,
  \<open>WithUpdatedConflictInfo\<close> and the membership queries of \<open>TlfHandle\<close>, and
  \<open>MDOps.GetLatestHandleForTLF\<close>, of which Rekey reads the conflict info only (it drops
  the error).
\<close>

record HandleOps =
  ResolveAgain :: "history \<Rightarrow> TlfHandle \<Rightarrow> error + TlfHandle"
  ResolveAgainForUser :: "history \<Rightarrow> TlfHandle \<Rightarrow> UID \<Rightarrow> error + TlfHandle"
  IsWriter :: "TlfHandle \<Rightarrow> UID \<Rightarrow> bool"
  IsReader :: "TlfHandle \<Rightarrow> UID \<Rightarrow> bool"
  HandleEquals :: "TlfHandle \<Rightarrow> TlfHandle \<Rightarrow> error + bool"
  GetLatestHandleForTLF :: "history \<Rightarrow> tlf_ID \<Rightarrow> ConflictInfo option"
  WithUpdatedConflictInfo :: "TlfHandle \<Rightarrow> ConflictInfo option \<Rightarrow> error + TlfHandle"
  ResolvedWriters :: "TlfHandle \<Rightarrow> UID list"
  ResolvedReaders :: "TlfHandle \<Rightarrow> UID list"

text \<open>
  The methods of \<open>KeyMetadata\<close> and \<open>RootMetadata\<close> on a metadata object of type
  \<open>'md\<close>. A mutating method returns its error together with the object as the call
  left it.
\<close>

record 'md Metadata =
  TlfID_of :: "'md \<Rightarrow> tlf_ID"
  LatestKeyGeneration :: "'md \<Rightarrow> KeyGen"
  GetTlfHandle :: "'md \<Rightarrow> TlfHandle"
  GetTLFCryptKeyParams ::
    "'md \<Rightarrow> KeyGen \<Rightarrow> UID \<Rightarrow> CryptPublicKey
      \<Rightarrow> error + (TLFEphemeralPublicKey \<times> EncryptedTLFCryptKeyClientHalf
                  \<times> TLFCryptKeyServerHalfID \<times> bool)"
  GetHistoricTLFCryptKey :: "'md \<Rightarrow> KeyGen \<Rightarrow> TLFCryptKey \<Rightarrow> error + TLFCryptKey"
  getUserDeviceKeyInfoMaps ::
    "'md \<Rightarrow> KeyGen \<Rightarrow> error + (UserDeviceKeyInfoMap \<times> UserDeviceKeyInfoMap)"
  StoresHistoricTLFCryptKeys :: "'md \<Rightarrow> bool"
  IsReadable :: "'md \<Rightarrow> bool"
  GetSerializedPrivateMetadata :: "'md \<Rightarrow> nat list"
  decryptMDPrivateData :: "history \<Rightarrow> 'md \<Rightarrow> UID \<Rightarrow> error + PrivateMetadata"
  set_data :: "'md \<Rightarrow> PrivateMetadata \<Rightarrow> 'md"
  set_TLFPrivateKey :: "'md \<Rightarrow> TLFPrivateKey \<Rightarrow> 'md"
  updateFromTlfHandle :: "'md \<Rightarrow> TlfHandle \<Rightarrow> error option \<times> 'md"
  promoteReader :: "'md \<Rightarrow> UID \<Rightarrow> error option \<times> 'md"
  md_updateKeyGeneration ::
    "'md \<Rightarrow> KeyGen \<Rightarrow> UserDevicePublicKeys \<Rightarrow> UserDevicePublicKeys
      \<Rightarrow> TLFEphemeralPublicKey \<Rightarrow> TLFEphemeralPrivateKey \<Rightarrow> TLFCryptKey
      \<Rightarrow> (error + (TLFCryptKeyServerHalfID \<times> TLFCryptKeyServerHalf) list) \<times> 'md"
  revokeRemovedDevices ::
    "'md \<Rightarrow> UserDevicePublicKeys \<Rightarrow> UserDevicePublicKeys
      \<Rightarrow> (error + ServerHalfRemovalInfo) \<times> 'md"
  AddKeyGeneration ::
    "'md \<Rightarrow> TLFCryptKey \<Rightarrow> TLFCryptKey \<Rightarrow> TLFPublicKey \<Rightarrow> error option \<times> 'md"
  finalizeRekey :: "'md \<Rightarrow> error option \<times> 'md"

text \<open>
  The world of one key manager: its configuration, the constants of the package that
  are declared outside key_manager.go, and the pure helpers it calls.
\<close>

record 'md env =
  kbpki :: KBPKI
  crypto :: Crypto
  keyOps :: KeyOps
  keyCache :: KeyCache
  handles :: HandleOps
  mdm :: "'md Metadata"
  FirstValidKeyGen :: KeyGen
  PublicKeyGen :: KeyGen
  PublicTLFCryptKey :: TLFCryptKey
  KID_of :: "CryptPublicKey \<Rightarrow> KID"
  makeRekeyReadError :: "'md \<Rightarrow> error \<Rightarrow> KeyGen \<Rightarrow> UID \<Rightarrow> NormalizedUsername \<Rightarrow> error"

text \<open>The state outside the metadata object: the key cache's entries and the log.\<close>

record kstate =
  kcache :: "(tlf_ID \<times> KeyGen) \<rightharpoonup> TLFCryptKey"
  trace :: history

definition record_event :: "event \<Rightarrow> kstate \<Rightarrow> kstate" where
  "record_event ev s = s\<lparr>trace := trace s @ [ev]\<rparr>"

section \<open>Calls to collaborators\<close>

definition KeyCache_GetTLFCryptKey ::
  "'md env \<Rightarrow> tlf_ID \<Rightarrow> KeyGen \<Rightarrow> kstate \<Rightarrow> (error + TLFCryptKey) \<times> kstate" where
  "KeyCache_GetTLFCryptKey env tlfID keyGen s =
     ((case GetTLFCryptKey_fault (keyCache env) (trace s) tlfID keyGen of
         Some e \<Rightarrow> Inl e
       | None \<Rightarrow>
           (case kcache s (tlfID, keyGen) of
              None \<Rightarrow> Inl KeyCacheMissError
            | Some k \<Rightarrow> Inr k)),
      record_event (EvKeyCacheGet tlfID keyGen) s)"

definition KeyCache_PutTLFCryptKey ::
  "'md env \<Rightarrow> tlf_ID \<Rightarrow> KeyGen \<Rightarrow> TLFCryptKey \<Rightarrow> kstate \<Rightarrow> error option \<times> kstate" where
  "KeyCache_PutTLFCryptKey env tlfID keyGen key s =
     (case PutTLFCryptKey_fault (keyCache env) (trace s) tlfID keyGen key of
        Some e \<Rightarrow> (Some e, record_event (EvKeyCachePut tlfID keyGen key) s)
      | None \<Rightarrow>
          (None, record_event (EvKeyCachePut tlfID keyGen key)
                   (s\<lparr>kcache := (kcache s)((tlfID, keyGen) \<mapsto> key)\<rparr>)))"

definition KBPKI_GetCurrentUserInfo ::
  "'md env \<Rightarrow> kstate \<Rightarrow> (error + (NormalizedUsername \<times> UID)) \<times> kstate" where
  "KBPKI_GetCurrentUserInfo env s =
     (GetCurrentUserInfo (kbpki env) (trace s), record_event EvGetCurrentUserInfo s)"

definition KBPKI_GetCryptPublicKeys ::
  "'md env \<Rightarrow> UID \<Rightarrow> kstate \<Rightarrow> (error + CryptPublicKey list) \<times> kstate" where
  "KBPKI_GetCryptPublicKeys env uid s =
     (GetCryptPublicKeys (kbpki env) (trace s) uid, record_event (EvGetCryptPublicKeys uid) s)"

definition KBPKI_GetCurrentCryptPublicKey ::
  "'md env \<Rightarrow> kstate \<Rightarrow> (error + CryptPublicKey) \<times> kstate" where
  "KBPKI_GetCurrentCryptPublicKey env s =
     (GetCurrentCryptPublicKey (kbpki env) (trace s), record_event EvGetCurrentCryptPublicKey s)"

definition Crypto_DecryptTLFCryptKeyClientHalf ::
  "'md env \<Rightarrow> TLFEphemeralPublicKey \<Rightarrow> EncryptedTLFCryptKeyClientHalf \<Rightarrow> kstate
    \<Rightarrow> (error + TLFCryptKeyClientHalf) \<times> kstate" where
  "Crypto_DecryptTLFCryptKeyClientHalf env ePublicKey encryptedClientHalf s =
     (DecryptTLFCryptKeyClientHalf (crypto env) (trace s) ePublicKey encryptedClientHalf,
      record_event EvDecryptClientHalf s)"

definition Crypto_DecryptTLFCryptKeyClientHalfAny ::
  "'md env \<Rightarrow> EncryptedTLFCryptKeyClientAndEphemeral list \<Rightarrow> bool \<Rightarrow> kstate
    \<Rightarrow> (error + (TLFCryptKeyClientHalf \<times> int)) \<times> kstate" where
  "Crypto_DecryptTLFCryptKeyClientHalfAny env keys promptPaper s =
     (DecryptTLFCryptKeyClientHalfAny (crypto env) (trace s) keys promptPaper,
      record_event EvDecryptClientHalfAny s)"

definition KeyOps_GetTLFCryptKeyServerHalf ::
  "'md env \<Rightarrow> TLFCryptKeyServerHalfID \<Rightarrow> CryptPublicKey \<Rightarrow> kstate
    \<Rightarrow> (error + TLFCryptKeyServerHalf) \<times> kstate" where
  "KeyOps_GetTLFCryptKeyServerHalf env serverHalfID cryptPublicKey s =
     (GetTLFCryptKeyServerHalf (keyOps env) (trace s) serverHalfID cryptPublicKey,
      record_event (EvGetServerHalf serverHalfID cryptPublicKey) s)"

section \<open>The key resolver\<close>

text \<open>\<open>getTLFCryptKeyFlags\<close> is a byte used as a bit set.\<close>

type_synonym getTLFCryptKeyFlags = "8 word"

definition getTLFCryptKeyAnyDevice :: getTLFCryptKeyFlags where
  "getTLFCryptKeyAnyDevice = 1"

definition getTLFCryptKeyDoCache :: getTLFCryptKeyFlags where
  "getTLFCryptKeyDoCache = 2"

definition getTLFCryptKeyPromptPaper :: getTLFCryptKeyFlags where
  "getTLFCryptKeyPromptPaper = 4"

text \<open>
  The loop of \<open>getTLFCryptKeyParams\<close> over the user's public keys (any-device case):
  it stops with the error when the metadata says the generation is not encrypted per
  device, skips a key on any other error or when no key info is found, and otherwise
  appends to the three slices.
\<close>

fun collectKeys ::
  "'md env \<Rightarrow> 'md \<Rightarrow> KeyGen \<Rightarrow> UID \<Rightarrow> (nat \<times> CryptPublicKey) list
    \<Rightarrow> EncryptedTLFCryptKeyClientAndEphemeral list \<times> TLFCryptKeyServerHalfID list \<times> nat list
    \<Rightarrow> error + (EncryptedTLFCryptKeyClientAndEphemeral list \<times> TLFCryptKeyServerHalfID list
                 \<times> nat list)" where
  "collectKeys env kmd keyGen uid [] acc = Inr acc"
| "collectKeys env kmd keyGen uid ((i, k) # rest) (keys, serverHalfIDs, publicKeyLookup) =
     (case GetTLFCryptKeyParams (mdm env) kmd keyGen uid k of
        Inl err \<Rightarrow>
          if err = TLFCryptKeyNotPerDeviceEncrypted then Inl err
          else collectKeys env kmd keyGen uid rest (keys, serverHalfIDs, publicKeyLookup)
      | Inr (ePublicKey, encryptedClientHalf, serverHalfID, found) \<Rightarrow>
          if \<not> found
          then collectKeys env kmd keyGen uid rest (keys, serverHalfIDs, publicKeyLookup)
          else collectKeys env kmd keyGen uid rest
                 (keys @ [\<lparr>PubKey = k, ClientHalf = encryptedClientHalf,
                            EPubKey = ePublicKey\<rparr>],
                  serverHalfIDs @ [serverHalfID],
                  publicKeyLookup @ [i]))"

definition getTLFCryptKeyParams ::
  "'md env \<Rightarrow> 'md \<Rightarrow> KeyGen \<Rightarrow> UID \<Rightarrow> NormalizedUsername \<Rightarrow> getTLFCryptKeyFlags \<Rightarrow> kstate
    \<Rightarrow> (error + (TLFCryptKeyClientHalf \<times> TLFCryptKeyServerHalfID \<times> CryptPublicKey)) \<times> kstate"
  where
  "getTLFCryptKeyParams env kmd keyGen uid username flags s =
     (if flags AND getTLFCryptKeyAnyDevice \<noteq> 0 then
        (case KBPKI_GetCryptPublicKeys env uid s of
           (Inl err, s1) \<Rightarrow> (Inl err, s1)
         | (Inr publicKeys, s1) \<Rightarrow>
             (case collectKeys env kmd keyGen uid (enumerate 0 publicKeys) ([], [], []) of
                Inl err \<Rightarrow> (Inl err, s1)
              | Inr (keys, serverHalfIDs, publicKeyLookup) \<Rightarrow>
                  if keys = [] then
                    (Inl (makeRekeyReadError env kmd
                            (ErrorString ''no valid public keys found'')
                            keyGen uid username), s1)
                  else
                    (case Crypto_DecryptTLFCryptKeyClientHalfAny env keys
                            (flags AND getTLFCryptKeyPromptPaper \<noteq> 0) s1 of
                       (Inl err, s2) \<Rightarrow>
                         if Cause err = DecryptionError \<or> Cause err = NoSecretKeyError
                         then (Inl (makeRekeyReadError env kmd err keyGen uid username), s2)
                         else (Inl err, s2)
                     | (Inr (clientHalf, index), s2) \<Rightarrow>
                         if index < 0 \<or> int (length serverHalfIDs) \<le> index
                         then (Inl IndexOutOfRange, s2)
                         else (Inr (clientHalf, serverHalfIDs ! nat index,
                                    publicKeys ! (publicKeyLookup ! nat index)), s2))))
      else
        (case KBPKI_GetCurrentCryptPublicKey env s of
           (Inl err, s1) \<Rightarrow> (Inl err, s1)
         | (Inr cryptPublicKey, s1) \<Rightarrow>
             (case GetTLFCryptKeyParams (mdm env) kmd keyGen uid cryptPublicKey of
                Inl err \<Rightarrow> (Inl err, s1)
              | Inr (ePublicKey, encryptedClientHalf, foundServerHalfID, found) \<Rightarrow>
                  if \<not> found then
                    (Inl (makeRekeyReadError env kmd
                            (ErrorString ''could not find params for uid and device key'')
                            keyGen uid username), s1)
                  else
                    (case Crypto_DecryptTLFCryptKeyClientHalf env ePublicKey
                            encryptedClientHalf s1 of
                       (Inl err, s2) \<Rightarrow> (Inl err, s2)
                     | (Inr clientHalf, s2) \<Rightarrow>
                         (Inr (clientHalf, foundServerHalfID, cryptPublicKey), s2)))))"

definition unmaskTLFCryptKey ::
  "'md env \<Rightarrow> TLFCryptKeyServerHalfID \<Rightarrow> CryptPublicKey \<Rightarrow> TLFCryptKeyClientHalf \<Rightarrow> kstate
    \<Rightarrow> (error + TLFCryptKey) \<times> kstate" where
  "unmaskTLFCryptKey env serverHalfID cryptPublicKey clientHalf s =
     (case KeyOps_GetTLFCryptKeyServerHalf env serverHalfID cryptPublicKey s of
        (Inl err, s1) \<Rightarrow> (Inl err, s1)
      | (Inr serverHalf, s1) \<Rightarrow>
          (Inr (UnmaskTLFCryptKey (crypto env) serverHalf clientHalf), s1))"

text \<open>
  The branch of \<open>getTLFCryptKey\<close> taken when the requested generation is not encrypted
  per device. First the latest generation's key: from the cache or, on a miss, from the
  per-device parameters of the latest generation.
\<close>

definition getLatestTLFCryptKey ::
  "'md env \<Rightarrow> 'md \<Rightarrow> UID \<Rightarrow> NormalizedUsername \<Rightarrow> getTLFCryptKeyFlags \<Rightarrow> kstate
    \<Rightarrow> (error + TLFCryptKey) \<times> kstate" where
  "getLatestTLFCryptKey env kmd uid username flags s =
     (let tlfID = TlfID_of (mdm env) kmd;
          currKeyGen = LatestKeyGeneration (mdm env) kmd
      in case KeyCache_GetTLFCryptKey env tlfID currKeyGen s of
           (Inr latestKey, s1) \<Rightarrow> (Inr latestKey, s1)
         | (Inl err, s1) \<Rightarrow>
             if err = KeyCacheMissError then
               (case getTLFCryptKeyParams env kmd currKeyGen uid username flags s1 of
                  (Inl err2, s2) \<Rightarrow> (Inl err2, s2)
                | (Inr (clientHalf, serverHalfID, cryptPublicKey), s2) \<Rightarrow>
                    unmaskTLFCryptKey env serverHalfID cryptPublicKey clientHalf s2)
             else (Inl err, s1))"

text \<open>Then the metadata walks the historic keys down to the requested generation.\<close>

definition getHistoricKeyViaLatest ::
  "'md env \<Rightarrow> 'md \<Rightarrow> KeyGen \<Rightarrow> UID \<Rightarrow> NormalizedUsername \<Rightarrow> getTLFCryptKeyFlags \<Rightarrow> kstate
    \<Rightarrow> (error + TLFCryptKey) \<times> kstate" where
  "getHistoricKeyViaLatest env kmd keyGen uid username flags s =
     (case getLatestTLFCryptKey env kmd uid username flags s of
        (Inl err, s1) \<Rightarrow> (Inl err, s1)
      | (Inr latestKey, s1) \<Rightarrow>
          (GetHistoricTLFCryptKey (mdm env) kmd keyGen latestKey, s1))"

definition getTLFCryptKey ::
  "'md env \<Rightarrow> 'md \<Rightarrow> KeyGen \<Rightarrow> getTLFCryptKeyFlags \<Rightarrow> kstate
    \<Rightarrow> (error + TLFCryptKey) \<times> kstate" where
  "getTLFCryptKey env kmd keyGen flags s =
     (let tlfID = TlfID_of (mdm env) kmd in
      if IsPublic tlfID then (Inr (PublicTLFCryptKey env), s)
      else if keyGen < FirstValidKeyGen env then
        (Inl (InvalidKeyGenerationError tlfID keyGen), s)
      else if keyGen > LatestKeyGeneration (mdm env) kmd then
        (Inl (NewKeyGenerationError tlfID keyGen), s)
      else
        (case KeyCache_GetTLFCryptKey env tlfID keyGen s of
           (Inr tlfCryptKey, s1) \<Rightarrow> (Inr tlfCryptKey, s1)
         | (Inl err, s1) \<Rightarrow>
             if err \<noteq> KeyCacheMissError then (Inl err, s1)
             else
               (case KBPKI_GetCurrentUserInfo env s1 of
                  (Inl err, s2) \<Rightarrow> (Inl err, s2)
                | (Inr (username, uid), s2) \<Rightarrow>
                    (case
                       (case getTLFCryptKeyParams env kmd keyGen uid username flags s2 of
                          (Inl err, s3) \<Rightarrow>
                            if err = TLFCryptKeyNotPerDeviceEncrypted
                            then getHistoricKeyViaLatest env kmd keyGen uid username flags s3
                            else (Inl err, s3)
                        | (Inr (clientHalf, serverHalfID, cryptPublicKey), s3) \<Rightarrow>
                            unmaskTLFCryptKey env serverHalfID cryptPublicKey clientHalf s3)
                     of
                       (Inl err, s4) \<Rightarrow> (Inl err, s4)
                     | (Inr tlfCryptKey, s4) \<Rightarrow>
                         if flags AND getTLFCryptKeyDoCache \<noteq> 0 then
                           (case KeyCache_PutTLFCryptKey env tlfID keyGen tlfCryptKey s4 of
                              (Some err, s5) \<Rightarrow> (Inl err, s5)
                            | (None, s5) \<Rightarrow> (Inr tlfCryptKey, s5))
                         else (Inr tlfCryptKey, s4)))))"

definition getTLFCryptKeyUsingCurrentDevice ::
  "'md env \<Rightarrow> 'md \<Rightarrow> KeyGen \<Rightarrow> bool \<Rightarrow> kstate \<Rightarrow> (error + TLFCryptKey) \<times> kstate" where
  "getTLFCryptKeyUsingCurrentDevice env kmd keyGen cache s =
     (let flags = (if cache then getTLFCryptKeyDoCache else 0)
      in getTLFCryptKey env kmd keyGen flags s)"

text \<open>
  \<open>GetTLFCryptKeyOfAllGenerations\<close>: the loop variable \<open>g\<close> and the slice \<open>keys\<close>
  are the arguments of the recursion; the result is the pair \<open>(keys, err)\<close>.
\<close>

function allGenerationsLoop ::
  "'md env \<Rightarrow> 'md \<Rightarrow> KeyGen \<Rightarrow> TLFCryptKey list \<Rightarrow> kstate
    \<Rightarrow> (TLFCryptKey list \<times> error option) \<times> kstate" where
  "allGenerationsLoop env kmd g keys s =
     (if g \<le> LatestKeyGeneration (mdm env) kmd then
        (case getTLFCryptKeyUsingCurrentDevice env kmd g True s of
           (Inl err, s1) \<Rightarrow> ((keys, Some err), s1)
         | (Inr key, s1) \<Rightarrow> allGenerationsLoop env kmd (g + 1) (keys @ [key]) s1)
      else ((keys, None), s))"
  by pat_completeness auto
termination
  by (relation "measure (\<lambda>(env, kmd, g, keys, s).
        nat (LatestKeyGeneration (mdm env) kmd + 1 - g))") auto

definition GetTLFCryptKeyOfAllGenerations ::
  "'md env \<Rightarrow> 'md \<Rightarrow> kstate \<Rightarrow> (TLFCryptKey list \<times> error option) \<times> kstate" where
  "GetTLFCryptKeyOfAllGenerations env kmd s =
     allGenerationsLoop env kmd (FirstValidKeyGen env) [] s"

definition GetTLFCryptKeyForEncryption ::
  "'md env \<Rightarrow> 'md \<Rightarrow> kstate \<Rightarrow> (error + TLFCryptKey) \<times> kstate" where
  "GetTLFCryptKeyForEncryption env kmd s =
     getTLFCryptKeyUsingCurrentDevice env kmd (LatestKeyGeneration (mdm env) kmd) False s"

section \<open>The rekey engine\<close>

subsection \<open>Calls to collaborators made by Rekey\<close>

definition Handle_ResolveAgain ::
  "'md env \<Rightarrow> TlfHandle \<Rightarrow> kstate \<Rightarrow> (error + TlfHandle) \<times> kstate" where
  "Handle_ResolveAgain env handle s =
     (ResolveAgain (handles env) (trace s) handle, record_event EvResolveAgain s)"

definition Handle_ResolveAgainForUser ::
  "'md env \<Rightarrow> TlfHandle \<Rightarrow> UID \<Rightarrow> kstate \<Rightarrow> (error + TlfHandle) \<times> kstate" where
  "Handle_ResolveAgainForUser env handle uid s =
     (ResolveAgainForUser (handles env) (trace s) handle uid,
      record_event (EvResolveAgainForUser uid) s)"

definition MDOps_GetLatestHandleForTLF ::
  "'md env \<Rightarrow> tlf_ID \<Rightarrow> kstate \<Rightarrow> ConflictInfo option \<times> kstate" where
  "MDOps_GetLatestHandleForTLF env tlfID s =
     (GetLatestHandleForTLF (handles env) (trace s) tlfID,
      record_event (EvGetLatestHandleForTLF tlfID) s)"

definition Crypto_MakeRandomTLFEphemeralKeys ::
  "'md env \<Rightarrow> kstate \<Rightarrow> (TLFEphemeralPublicKey \<times> TLFEphemeralPrivateKey) \<times> kstate" where
  "Crypto_MakeRandomTLFEphemeralKeys env s =
     (MakeRandomTLFEphemeralKeys (crypto env) (trace s),
      record_event EvMakeRandomTLFEphemeralKeys s)"

definition Crypto_MakeRandomTLFKeys ::
  "'md env \<Rightarrow> kstate \<Rightarrow> (error + (TLFPublicKey \<times> TLFPrivateKey \<times> TLFCryptKey)) \<times> kstate" where
  "Crypto_MakeRandomTLFKeys env s =
     (MakeRandomTLFKeys (crypto env) (trace s), record_event EvMakeRandomTLFKeys s)"

definition md_updateFromTlfHandle ::
  "'md env \<Rightarrow> TlfHandle \<Rightarrow> 'md \<Rightarrow> kstate \<Rightarrow> error option \<times> 'md \<times> kstate" where
  "md_updateFromTlfHandle env newHandle md s =
     (case updateFromTlfHandle (mdm env) md newHandle of
        (err, md') \<Rightarrow> (err, md', record_event (EvUpdateFromTlfHandle newHandle err) s))"

definition md_finalizeRekey ::
  "'md env \<Rightarrow> 'md \<Rightarrow> kstate \<Rightarrow> error option \<times> 'md \<times> kstate" where
  "md_finalizeRekey env md s =
     (case finalizeRekey (mdm env) md of
        (err, md') \<Rightarrow> (err, md', record_event (EvFinalizeRekey err) s))"

definition md_AddKeyGeneration ::
  "'md env \<Rightarrow> TLFCryptKey \<Rightarrow> TLFCryptKey \<Rightarrow> TLFPublicKey \<Rightarrow> 'md \<Rightarrow> kstate
    \<Rightarrow> error option \<times> 'md \<times> kstate" where
  "md_AddKeyGeneration env prevKey currKey pubKey md s =
     (case AddKeyGeneration (mdm env) md prevKey currKey pubKey of
        (err, md') \<Rightarrow> (err, md', record_event (EvAddKeyGeneration err) s))"

text \<open>The zero value \<open>kbfscrypto.TLFCryptKey{}\<close>.\<close>

definition TLFCryptKey_zero :: TLFCryptKey where
  "TLFCryptKey_zero = 0"

subsection \<open>Helpers of Rekey\<close>

text \<open>
  \<open>km.updateKeyGeneration\<close>: the metadata re-wraps the generation's key for the given
  device sets and the new server halves are pushed to the key server.
\<close>

definition updateKeyGeneration ::
  "'md env \<Rightarrow> KeyGen \<Rightarrow> UserDevicePublicKeys \<Rightarrow> UserDevicePublicKeys
    \<Rightarrow> TLFEphemeralPublicKey \<Rightarrow> TLFEphemeralPrivateKey \<Rightarrow> TLFCryptKey \<Rightarrow> 'md \<Rightarrow> kstate
    \<Rightarrow> error option \<times> 'md \<times> kstate" where
  "updateKeyGeneration env keyGen wKeys rKeys ePubKey ePrivKey tlfCryptKey md s =
     (case md_updateKeyGeneration (mdm env) md keyGen wKeys rKeys ePubKey ePrivKey tlfCryptKey of
        (Inl err, md') \<Rightarrow>
          (Some err, md', record_event (EvUpdateKeyGeneration keyGen (Some err)) s)
      | (Inr serverHalves, md') \<Rightarrow>
          (let s1 = record_event (EvUpdateKeyGeneration keyGen None) s
           in (PutTLFCryptKeyServerHalves (keyOps env) (trace s1) serverHalves, md',
               record_event (EvPutServerHalves serverHalves) s1)))"

fun usersWithNewDevices :: "UserDeviceKeyInfoMap \<Rightarrow> UserDevicePublicKeys \<Rightarrow> UID list" where
  "usersWithNewDevices keyInfoMap [] = []"
| "usersWithNewDevices keyInfoMap ((u, keys) # expectedKeys) =
     (case map_of keyInfoMap u of
        None \<Rightarrow> List.insert u (usersWithNewDevices keyInfoMap expectedKeys)
      | Some kids \<Rightarrow>
          if list_ex (\<lambda>k. map_of kids k = None) keys
          then List.insert u (usersWithNewDevices keyInfoMap expectedKeys)
          else usersWithNewDevices keyInfoMap expectedKeys)"

fun usersWithRemovedDevices ::
  "'md env \<Rightarrow> UserDeviceKeyInfoMap \<Rightarrow> UserDevicePublicKeys \<Rightarrow> UID list" where
  "usersWithRemovedDevices env [] expectedKeys = []"
| "usersWithRemovedDevices env ((u, keyInfos) # keyInfoMap) expectedKeys =
     (case map_of expectedKeys u of
        None \<Rightarrow> List.insert u (usersWithRemovedDevices env keyInfoMap expectedKeys)
      | Some keys \<Rightarrow>
          (let keyLookup = map (KID_of env) keys
           in if list_ex (\<lambda>(key, info). KID_of env key \<notin> set keyLookup) keyInfos
              then List.insert u (usersWithRemovedDevices env keyInfoMap expectedKeys)
              else usersWithRemovedDevices env keyInfoMap expectedKeys))"

definition identifyUIDSets ::
  "'md env \<Rightarrow> tlf_ID \<Rightarrow> UID list \<Rightarrow> UID list \<Rightarrow> kstate \<Rightarrow> error option \<times> kstate" where
  "identifyUIDSets env tlfID writersToIdentify readersToIdentify s =
     (let uids = writersToIdentify @ readersToIdentify
      in (identifyUserList (kbpki env) (trace s) uids (IsPublic tlfID),
          record_event (EvIdentify uids) s))"

fun generateKeyMapLoop ::
  "'md env \<Rightarrow> UID list \<Rightarrow> UserDevicePublicKeys \<Rightarrow> kstate
    \<Rightarrow> (error + UserDevicePublicKeys) \<times> kstate" where
  "generateKeyMapLoop env [] keyMap s = (Inr keyMap, s)"
| "generateKeyMapLoop env (w # users) keyMap s =
     (case KBPKI_GetCryptPublicKeys env w (record_event (EvFlushUser w) s) of
        (Inl err, s1) \<Rightarrow> (Inl err, s1)
      | (Inr publicKeys, s1) \<Rightarrow>
          generateKeyMapLoop env users (AList.update w (remdups publicKeys) keyMap) s1)"

definition generateKeyMapForUsers ::
  "'md env \<Rightarrow> UID list \<Rightarrow> kstate \<Rightarrow> (error + UserDevicePublicKeys) \<times> kstate" where
  "generateKeyMapForUsers env users s = generateKeyMapLoop env users [] s"

subsection \<open>Handle resolution (Rekey, up to the public-folder check)\<close>

text \<open>
  The result is \<open>(isWriter, handleChanged, resolvedHandle)\<close>. \<open>isWriter\<close> is read from
  the first resolution and is not recomputed when a non-writer's handle is replaced.
\<close>

definition resolveHandle ::
  "'md env \<Rightarrow> tlf_ID \<Rightarrow> TlfHandle \<Rightarrow> UID \<Rightarrow> kstate
    \<Rightarrow> (error + (bool \<times> bool \<times> TlfHandle)) \<times> kstate" where
  "resolveHandle env tlfID handle uid s =
     (case Handle_ResolveAgain env handle s of
        (Inl err, s1) \<Rightarrow> (Inl err, s1)
      | (Inr resolvedHandle0, s1) \<Rightarrow>
          (let isWriter = IsWriter (handles env) resolvedHandle0 uid in
           case (if \<not> IsPublic tlfID \<and> \<not> isWriter then
                   (if IsReader (handles env) handle uid then (Inr handle, s1)
                    else Handle_ResolveAgainForUser env handle uid s1)
                 else (Inr resolvedHandle0, s1)) of
             (Inl err, s2) \<Rightarrow> (Inl err, s2)
           | (Inr resolvedHandle1, s2) \<Rightarrow>
               (case HandleEquals (handles env) handle resolvedHandle1 of
                  Inl err \<Rightarrow> (Inl err, s2)
                | Inr eq \<Rightarrow>
                    if \<not> eq then
                      (case MDOps_GetLatestHandleForTLF env tlfID s2 of
                         (conflictInfo, s3) \<Rightarrow>
                           (case WithUpdatedConflictInfo (handles env) resolvedHandle1
                                   conflictInfo of
                              Inl err \<Rightarrow> (Inl err, s3)
                            | Inr resolvedHandle2 \<Rightarrow>
                                (Inr (isWriter, True, resolvedHandle2), s3)))
                    else (Inr (isWriter, False, resolvedHandle1), s2))))"

subsection \<open>The device delta against the current key bundle\<close>

record keyDelta =
  addNewReaderDevice :: bool
  addNewWriterDevice :: bool
  newReaderUsers :: "UID list"
  newWriterUsers :: "UID list"
  promotedReaders :: "UID list"
  addNewReaderDeviceForSelf :: bool
  incKeyGen :: bool

text \<open>The values of the variables when the block \<open>if !incKeyGen\<close> is skipped.\<close>

definition firstKeyGenDelta :: keyDelta where
  "firstKeyGenDelta =
     \<lparr>addNewReaderDevice = False, addNewWriterDevice = False, newReaderUsers = [],
      newWriterUsers = [], promotedReaders = [], addNewReaderDeviceForSelf = False,
      incKeyGen = True\<rparr>"

text \<open>
  The block \<open>if !incKeyGen { ... }\<close> of Rekey. \<open>List.union xs ys\<close> inserts the
  members of \<open>xs\<close> into \<open>ys\<close>, as the two loops over \<open>rRemoved\<close> and \<open>wRemoved\<close> do;
  a promoted reader is a removed reader that is among the new writers before the removed
  writers are added to them.
\<close>

definition computeKeyDelta ::
  "'md env \<Rightarrow> 'md \<Rightarrow> KeyGen \<Rightarrow> UID \<Rightarrow> UserDevicePublicKeys \<Rightarrow> UserDevicePublicKeys
    \<Rightarrow> kstate \<Rightarrow> (error + keyDelta) \<times> kstate" where
  "computeKeyDelta env md currKeyGen uid wKeys rKeys s =
     (case getUserDeviceKeyInfoMaps (mdm env) md currKeyGen of
        Inl err \<Rightarrow> (Inl err, s)
      | Inr (rDkim, wDkim) \<Rightarrow>
          (let newWriterUsers0 = usersWithNewDevices wDkim wKeys;
               newReaderUsers0 = usersWithNewDevices rDkim rKeys;
               wRemoved = usersWithRemovedDevices env wDkim wKeys;
               rRemoved = usersWithRemovedDevices env rDkim rKeys;
               delta =
                 \<lparr>addNewReaderDevice = (newReaderUsers0 \<noteq> []),
                  addNewWriterDevice = (newWriterUsers0 \<noteq> []),
                  newReaderUsers = List.union rRemoved newReaderUsers0,
                  newWriterUsers = List.union wRemoved newWriterUsers0,
                  promotedReaders = filter (\<lambda>u. u \<in> set newWriterUsers0) rRemoved,
                  addNewReaderDeviceForSelf = (uid \<in> set newReaderUsers0),
                  incKeyGen = (wRemoved \<noteq> [] \<or> rRemoved \<noteq> [])\<rparr>
           in case identifyUIDSets env (TlfID_of (mdm env) md) (newWriterUsers delta)
                     (newReaderUsers delta) s of
                (Some err, s1) \<Rightarrow> (Inl err, s1)
              | (None, s1) \<Rightarrow> (Inr delta, s1)))"

text \<open>
  The block \<open>if !isWriter { ... }\<close> that follows the no-op check: the scope of a
  reader's rekey. The result is the triple \<open>(wKeys, rKeys, newReaderUsers)\<close> that the
  rest of Rekey works with. \<open>rKeys[uid]\<close> of an absent user is the nil map.
\<close>

definition readerScope ::
  "bool \<Rightarrow> UID \<Rightarrow> keyDelta \<Rightarrow> UserDevicePublicKeys \<Rightarrow> UserDevicePublicKeys
    \<Rightarrow> error + (UserDevicePublicKeys \<times> UserDevicePublicKeys \<times> UID list)" where
  "readerScope isWriter uid delta wKeys rKeys =
     (if \<not> isWriter then
        (if uid \<in> set (newReaderUsers delta) \<and> uid \<notin> set (promotedReaders delta) then
           Inr ([],
                [(uid, case map_of rKeys uid of None \<Rightarrow> [] | Some keys \<Rightarrow> keys)],
                removeAll uid (newReaderUsers delta))
         else Inl RekeyIncompleteError)
      else Inr (wKeys, rKeys, newReaderUsers delta))"

subsection \<open>The mutations before the deferred calls are registered\<close>

fun promoteReaders ::
  "'md env \<Rightarrow> UID list \<Rightarrow> 'md \<Rightarrow> kstate \<Rightarrow> error option \<times> 'md \<times> kstate" where
  "promoteReaders env [] md s = (None, md, s)"
| "promoteReaders env (u # us) md s =
     (case promoteReader (mdm env) md u of
        (Some err, md1) \<Rightarrow> (Some err, md1, record_event (EvPromoteReader u (Some err)) s)
      | (None, md1) \<Rightarrow> promoteReaders env us md1 (record_event (EvPromoteReader u None) s))"

definition rekeyFlags :: "bool \<Rightarrow> getTLFCryptKeyFlags" where
  "rekeyFlags promptPaper =
     (if promptPaper then getTLFCryptKeyAnyDevice OR getTLFCryptKeyPromptPaper
      else getTLFCryptKeyAnyDevice)"

text \<open>
  The loop \<open>for keyGen := FirstValidKeyGen; keyGen <= currKeyGen; keyGen++\<close> that adds
  the new devices to every existing key bundle.
\<close>

function rewrapLoop ::
  "'md env \<Rightarrow> bool \<Rightarrow> UserDevicePublicKeys \<Rightarrow> UserDevicePublicKeys
    \<Rightarrow> TLFEphemeralPublicKey \<Rightarrow> TLFEphemeralPrivateKey \<Rightarrow> KeyGen \<Rightarrow> KeyGen \<Rightarrow> 'md \<Rightarrow> kstate
    \<Rightarrow> error option \<times> 'md \<times> kstate" where
  "rewrapLoop env promptPaper wKeys rKeys ePubKey ePrivKey keyGen currKeyGen md s =
     (if keyGen \<le> currKeyGen then
        (case getTLFCryptKey env md keyGen (rekeyFlags promptPaper) s of
           (Inl err, s1) \<Rightarrow> (Some err, md, s1)
         | (Inr currTlfCryptKey, s1) \<Rightarrow>
             (case updateKeyGeneration env keyGen wKeys rKeys ePubKey ePrivKey
                     currTlfCryptKey md s1 of
                (Some err, md1, s2) \<Rightarrow>
                  if err = TLFCryptKeyNotPerDeviceEncrypted
                  then rewrapLoop env promptPaper wKeys rKeys ePubKey ePrivKey
                         (keyGen + 1) currKeyGen md1 s2
                  else (Some err, md1, s2)
              | (None, md1, s2) \<Rightarrow>
                  rewrapLoop env promptPaper wKeys rKeys ePubKey ePrivKey
                    (keyGen + 1) currKeyGen md1 s2))
      else (None, md, s))"
  by pat_completeness auto
termination
  by (relation "measure (\<lambda>(env, promptPaper, wKeys, rKeys, ePubKey, ePrivKey, keyGen,
        currKeyGen, md, s). nat (currKeyGen + 1 - keyGen))") auto

definition decryptPrivateMD ::
  "'md env \<Rightarrow> UID \<Rightarrow> 'md \<Rightarrow> kstate \<Rightarrow> error option \<times> 'md \<times> kstate" where
  "decryptPrivateMD env uid md s =
     (if \<not> IsReadable (mdm env) md \<and> 0 < length (GetSerializedPrivateMetadata (mdm env) md)
      then
        (case decryptMDPrivateData (mdm env) (trace s) md uid of
           Inl err \<Rightarrow> (Some err, md, record_event EvDecryptMDPrivateData s)
         | Inr pmd \<Rightarrow> (None, set_data (mdm env) md pmd, record_event EvDecryptMDPrivateData s))
      else (None, md, s))"

subsection \<open>Revocation: deleting the server halves of removed devices\<close>

fun deleteServerHalfIDs ::
  "'md env \<Rightarrow> UID \<Rightarrow> CryptPublicKey \<Rightarrow> TLFCryptKeyServerHalfID list \<Rightarrow> kstate
    \<Rightarrow> error option \<times> kstate" where
  "deleteServerHalfIDs env uid key [] s = (None, s)"
| "deleteServerHalfIDs env uid key (serverHalfID # serverHalfIDs) s =
     (let err = DeleteTLFCryptKeyServerHalf (keyOps env) (trace s) uid (KID_of env key)
                  serverHalfID;
          s1 = record_event (EvDeleteServerHalf uid (KID_of env key) serverHalfID err) s
      in case err of
           Some e \<Rightarrow> (Some e, s1)
         | None \<Rightarrow> deleteServerHalfIDs env uid key serverHalfIDs s1)"

fun deleteDeviceServerHalves ::
  "'md env \<Rightarrow> UID \<Rightarrow> (CryptPublicKey \<times> TLFCryptKeyServerHalfID list) list \<Rightarrow> kstate
    \<Rightarrow> error option \<times> kstate" where
  "deleteDeviceServerHalves env uid [] s = (None, s)"
| "deleteDeviceServerHalves env uid ((key, serverHalfIDs) # devices) s =
     (case deleteServerHalfIDs env uid key serverHalfIDs s of
        (Some e, s1) \<Rightarrow> (Some e, s1)
      | (None, s1) \<Rightarrow> deleteDeviceServerHalves env uid devices s1)"

fun deleteRemovedServerHalves ::
  "'md env \<Rightarrow> ServerHalfRemovalInfo \<Rightarrow> kstate \<Rightarrow> error option \<times> kstate" where
  "deleteRemovedServerHalves env [] s = (None, s)"
| "deleteRemovedServerHalves env ((uid, userRemovalInfo) # allRemovalInfo) s =
     (case deleteDeviceServerHalves env uid (deviceServerHalfIDs userRemovalInfo) s of
        (Some e, s1) \<Rightarrow> (Some e, s1)
      | (None, s1) \<Rightarrow> deleteRemovedServerHalves env allRemovalInfo s1)"

definition revokeAndDelete ::
  "'md env \<Rightarrow> UserDevicePublicKeys \<Rightarrow> UserDevicePublicKeys \<Rightarrow> 'md \<Rightarrow> kstate
    \<Rightarrow> error option \<times> 'md \<times> kstate" where
  "revokeAndDelete env wKeys rKeys md s =
     (case revokeRemovedDevices (mdm env) md wKeys rKeys of
        (Inl err, md1) \<Rightarrow> (Some err, md1, record_event (EvRevokeRemovedDevices (Inl err)) s)
      | (Inr allRemovalInfo, md1) \<Rightarrow>
          (case deleteRemovedServerHalves env allRemovalInfo
                  (record_event (EvRevokeRemovedDevices (Inr allRemovalInfo)) s) of
             (err, s1) \<Rightarrow> (err, md1, s1)))"

subsection \<open>Rekey\<close>

text \<open>The three results of Rekey: \<open>(mdChanged, cryptKey, err)\<close>.\<close>

type_synonym rekeyResult = "bool \<times> TLFCryptKey option \<times> error option"

text \<open>
  The previous and the current key handed to \<open>AddKeyGeneration\<close>: both are the zero
  key unless the metadata stores historic keys; the previous key is fetched only when a
  generation exists already.
\<close>

definition historicKeysForNewGeneration ::
  "'md env \<Rightarrow> bool \<Rightarrow> KeyGen \<Rightarrow> TLFCryptKey \<Rightarrow> 'md \<Rightarrow> kstate
    \<Rightarrow> (error + (TLFCryptKey \<times> TLFCryptKey)) \<times> kstate" where
  "historicKeysForNewGeneration env promptPaper currKeyGen tlfCryptKey md s =
     (if StoresHistoricTLFCryptKeys (mdm env) md then
        (if FirstValidKeyGen env \<le> currKeyGen then
           (case getTLFCryptKey env md currKeyGen (rekeyFlags promptPaper) s of
              (Inl err, s1) \<Rightarrow> (Inl err, s1)
            | (Inr prevTLFCryptKey, s1) \<Rightarrow> (Inr (prevTLFCryptKey, tlfCryptKey), s1))
         else (Inr (TLFCryptKey_zero, tlfCryptKey), s))
      else (Inr (TLFCryptKey_zero, TLFCryptKey_zero), s))"

text \<open>
  The end of Rekey, from the statement \<open>if !isWriter\<close> after the deferred calls are
  registered to the last \<open>return\<close>; the deferred calls themselves are \<open>runDeferred\<close>.
\<close>

definition rekeyFinish ::
  "'md env \<Rightarrow> bool \<Rightarrow> KeyGen \<Rightarrow> bool \<Rightarrow> keyDelta \<Rightarrow> UID list
    \<Rightarrow> UserDevicePublicKeys \<Rightarrow> UserDevicePublicKeys
    \<Rightarrow> TLFEphemeralPublicKey \<Rightarrow> TLFEphemeralPrivateKey \<Rightarrow> 'md \<Rightarrow> kstate
    \<Rightarrow> rekeyResult \<times> 'md \<times> kstate" where
  "rekeyFinish env promptPaper currKeyGen isWriter delta newReaderUsers1 wKeys rKeys
      ePubKey ePrivKey md s =
     (if \<not> isWriter then
        (if newReaderUsers1 \<noteq> [] \<or> addNewWriterDevice delta \<or> incKeyGen delta
         then ((addNewReaderDeviceForSelf delta, None, Some RekeyIncompleteError), md, s)
         else ((True, None, None), md, s))
      else if \<not> incKeyGen delta then ((True, None, None), md, s)
      else
        (case (if FirstValidKeyGen env \<le> currKeyGen
               then revokeAndDelete env wKeys rKeys md (record_event EvNotify s)
               else (None, md, record_event EvNotify s)) of
           (Some err, md1, s1) \<Rightarrow> ((False, None, Some err), md1, s1)
         | (None, md1, s1) \<Rightarrow>
             (case Crypto_MakeRandomTLFKeys env s1 of
                (Inl err, s2) \<Rightarrow> ((False, None, Some err), md1, s2)
              | (Inr (pubKey, privKey, tlfCryptKey), s2) \<Rightarrow>
                  (case historicKeysForNewGeneration env promptPaper currKeyGen tlfCryptKey
                          md1 s2 of
                     (Inl err, s3) \<Rightarrow> ((False, None, Some err), md1, s3)
                   | (Inr (prevTLFCryptKey, currTLFCryptKey), s3) \<Rightarrow>
                       (case md_AddKeyGeneration env prevTLFCryptKey currTLFCryptKey pubKey
                               md1 s3 of
                          (Some err, md2, s4) \<Rightarrow> ((False, None, Some err), md2, s4)
                        | (None, md2, s4) \<Rightarrow>
                            (case updateKeyGeneration env (LatestKeyGeneration (mdm env) md2)
                                    wKeys rKeys ePubKey ePrivKey tlfCryptKey md2 s4 of
                               (Some err, md3, s5) \<Rightarrow> ((False, None, Some err), md3, s5)
                             | (None, md3, s5) \<Rightarrow>
                                 ((True, Some tlfCryptKey, None),
                                  set_TLFPrivateKey (mdm env) md3 privKey, s5)))))))"

text \<open>
  The two deferred functions, in the order in which Go runs them (last registered
  first): \<open>finalizeRekey\<close> when the metadata changed and the error is nil or
  \<open>RekeyIncompleteError\<close>, then \<open>updateFromTlfHandle\<close> when the error (as the first
  deferred function left it) is nil or \<open>RekeyIncompleteError\<close>.
\<close>

definition isNilOrRekeyIncomplete :: "error option \<Rightarrow> bool" where
  "isNilOrRekeyIncomplete err = (err = None \<or> err = Some RekeyIncompleteError)"

definition deferredFinalize ::
  "'md env \<Rightarrow> rekeyResult \<times> 'md \<times> kstate \<Rightarrow> rekeyResult \<times> 'md \<times> kstate" where
  "deferredFinalize env r =
     (case r of
        ((mdChanged, cryptKey, err), md, s) \<Rightarrow>
          if mdChanged \<and> isNilOrRekeyIncomplete err then
            (case md_finalizeRekey env md s of
               (Some finalizeErr, md1, s1) \<Rightarrow> ((False, None, Some finalizeErr), md1, s1)
             | (None, md1, s1) \<Rightarrow> ((mdChanged, cryptKey, err), md1, s1))
          else r)"

definition deferredUpdateHandle ::
  "'md env \<Rightarrow> TlfHandle \<Rightarrow> rekeyResult \<times> 'md \<times> kstate \<Rightarrow> rekeyResult \<times> 'md \<times> kstate" where
  "deferredUpdateHandle env resolvedHandle r =
     (case r of
        ((mdChanged, cryptKey, err), md, s) \<Rightarrow>
          if isNilOrRekeyIncomplete err then
            (case md_updateFromTlfHandle env resolvedHandle md s of
               (Some updateErr, md1, s1) \<Rightarrow> ((mdChanged, cryptKey, Some updateErr), md1, s1)
             | (None, md1, s1) \<Rightarrow> ((mdChanged, cryptKey, err), md1, s1))
          else r)"

definition runDeferred ::
  "'md env \<Rightarrow> TlfHandle \<Rightarrow> rekeyResult \<times> 'md \<times> kstate \<Rightarrow> rekeyResult \<times> 'md \<times> kstate" where
  "runDeferred env resolvedHandle r =
     deferredUpdateHandle env resolvedHandle (deferredFinalize env r)"

text \<open>
  Rekey for a private folder, from the line \<open>incKeyGen := currKeyGen < FirstValidKeyGen\<close>
  on. The error of \<open>MakeRandomTLFEphemeralKeys\<close> is never looked at by the source.
\<close>

definition rekeyPrivate ::
  "'md env \<Rightarrow> bool \<Rightarrow> KeyGen \<Rightarrow> NormalizedUsername \<Rightarrow> UID \<Rightarrow> bool \<Rightarrow> bool \<Rightarrow> TlfHandle
    \<Rightarrow> 'md \<Rightarrow> kstate \<Rightarrow> rekeyResult \<times> 'md \<times> kstate" where
  "rekeyPrivate env promptPaper currKeyGen username uid isWriter handleChanged resolvedHandle
      md s =
     (if \<not> isWriter \<and> currKeyGen < FirstValidKeyGen env then
        ((False, None, Some (ReadAccessError username)), md, s)
      else
        (case generateKeyMapForUsers env (ResolvedWriters (handles env) resolvedHandle) s of
           (Inl err, s1) \<Rightarrow> ((False, None, Some err), md, s1)
         | (Inr wKeys, s1) \<Rightarrow>
        (case generateKeyMapForUsers env (ResolvedReaders (handles env) resolvedHandle) s1 of
           (Inl err, s2) \<Rightarrow> ((False, None, Some err), md, s2)
         | (Inr rKeys, s2) \<Rightarrow>
        (case (if currKeyGen < FirstValidKeyGen env then (Inr firstKeyGenDelta, s2)
               else computeKeyDelta env md currKeyGen uid wKeys rKeys s2) of
           (Inl err, s3) \<Rightarrow> ((False, None, Some err), md, s3)
         | (Inr delta, s3) \<Rightarrow>
             if \<not> addNewReaderDevice delta \<and> \<not> addNewWriterDevice delta
                \<and> \<not> incKeyGen delta \<and> \<not> handleChanged
             then ((False, None, None), md, s3)
             else
        (case readerScope isWriter uid delta wKeys rKeys of
           Inl err \<Rightarrow> ((False, None, Some err), md, s3)
         | Inr (wKeys1, rKeys1, newReaderUsers1) \<Rightarrow>
        (case Crypto_MakeRandomTLFEphemeralKeys env s3 of
           ((ePubKey, ePrivKey), s4) \<Rightarrow>
        (case promoteReaders env (promotedReaders delta) md s4 of
           (Some err, md1, s5) \<Rightarrow> ((False, None, Some err), md1, s5)
         | (None, md1, s5) \<Rightarrow>
        (case (if addNewReaderDevice delta \<or> addNewWriterDevice delta
               then rewrapLoop env promptPaper wKeys1 rKeys1 ePubKey ePrivKey
                      (FirstValidKeyGen env) currKeyGen md1 s5
               else (None, md1, s5)) of
           (Some err, md2, s6) \<Rightarrow> ((False, None, Some err), md2, s6)
         | (None, md2, s6) \<Rightarrow>
        (case decryptPrivateMD env uid md2 s6 of
           (Some err, md3, s7) \<Rightarrow> ((False, None, Some err), md3, s7)
         | (None, md3, s7) \<Rightarrow>
             runDeferred env resolvedHandle
               (rekeyFinish env promptPaper currKeyGen isWriter delta newReaderUsers1
                  wKeys1 rKeys1 ePubKey ePrivKey md3 s7))))))))))"

definition rekeyPublic ::
  "'md env \<Rightarrow> bool \<Rightarrow> TlfHandle \<Rightarrow> 'md \<Rightarrow> kstate \<Rightarrow> rekeyResult \<times> 'md \<times> kstate" where
  "rekeyPublic env handleChanged resolvedHandle md s =
     (if \<not> handleChanged then ((False, None, None), md, s)
      else
        (case md_updateFromTlfHandle env resolvedHandle md s of
           (err, md1, s1) \<Rightarrow> ((True, None, err), md1, s1)))"

definition Rekey ::
  "'md env \<Rightarrow> 'md \<Rightarrow> bool \<Rightarrow> kstate \<Rightarrow> rekeyResult \<times> 'md \<times> kstate" where
  "Rekey env md promptPaper s =
     (let currKeyGen = LatestKeyGeneration (mdm env) md;
          tlfID = TlfID_of (mdm env) md
      in if IsPublic tlfID \<noteq> (currKeyGen = PublicKeyGen env) then
           ((False, None, Some (ErrorString ''isPublic does not match currKeyGen'')), md, s)
         else if promptPaper \<and> IsPublic tlfID then
           ((False, None, Some (ErrorString ''promptPaper set for public TLF'')), md, s)
         else
           (case KBPKI_GetCurrentUserInfo env s of
              (Inl err, s1) \<Rightarrow> ((False, None, Some err), md, s1)
            | (Inr (username, uid), s1) \<Rightarrow>
                (case resolveHandle env tlfID (GetTlfHandle (mdm env) md) uid s1 of
                   (Inl err, s2) \<Rightarrow> ((False, None, Some err), md, s2)
                 | (Inr (isWriter, handleChanged, resolvedHandle), s2) \<Rightarrow>
                     if IsPublic tlfID then rekeyPublic env handleChanged resolvedHandle md s2
                     else rekeyPrivate env promptPaper currKeyGen username uid isWriter
                            handleChanged resolvedHandle md s2)))"

section \<open>Milestones of a Rekey call\<close>

text \<open>
  The calls whose order the rekey protocol cares about: the revocation, the deletion of
  a server half, the appending of a key generation and the finalization. \<open>milestones\<close>
  keeps them, in order, from a log.
\<close>

fun milestone :: "event \<Rightarrow> bool" where
  "milestone (EvRevokeRemovedDevices r) = True"
| "milestone (EvDeleteServerHalf u k i e) = True"
| "milestone (EvAddKeyGeneration e) = True"
| "milestone (EvFinalizeRekey e) = True"
| "milestone _ = False"

definition milestones :: "history \<Rightarrow> history" where
  "milestones tr = filter milestone tr"

definition removalDeleteEvents :: "'md env \<Rightarrow> ServerHalfRemovalInfo \<Rightarrow> event list" where
  "removalDeleteEvents env allRemovalInfo =
     concat (map (\<lambda>(uid, userRemovalInfo).
        concat (map (\<lambda>(key, serverHalfIDs).
           map (\<lambda>serverHalfID. EvDeleteServerHalf uid (KID_of env key) serverHalfID None)
               serverHalfIDs)
         (deviceServerHalfIDs userRemovalInfo)))
      allRemovalInfo)"

fun is_delete :: "event \<Rightarrow> bool" where
  "is_delete (EvDeleteServerHalf u k i e) = True"
| "is_delete _ = False"

text \<open>
  The calls of mutating methods of the metadata object, kept in order from a log by
  \<open>md_mutations\<close>.
\<close>

fun md_mutation :: "event \<Rightarrow> bool" where
  "md_mutation (EvUpdateFromTlfHandle h e) = True"
| "md_mutation (EvPromoteReader u e) = True"
| "md_mutation (EvUpdateKeyGeneration g e) = True"
| "md_mutation (EvRevokeRemovedDevices r) = True"
| "md_mutation (EvAddKeyGeneration e) = True"
| "md_mutation (EvFinalizeRekey e) = True"
| "md_mutation EvDecryptMDPrivateData = True"
| "md_mutation _ = False"

definition md_mutations :: "history \<Rightarrow> history" where
  "md_mutations tr = filter md_mutation tr"

text \<open>
  What a Rekey call logs for its revocation step when it succeeds: nothing when there was
  no generation before the call, otherwise the revocation with its removal info followed
  by one successful deletion per server half ID of that info.
\<close>

definition revocation_milestones :: "'md env \<Rightarrow> KeyGen \<Rightarrow> event list \<Rightarrow> bool" where
  "revocation_milestones env currKeyGen R \<longleftrightarrow>
     (if FirstValidKeyGen env \<le> currKeyGen
      then \<exists>info. R = EvRevokeRemovedDevices (Inr info) # removalDeleteEvents env info
      else R = [])"

section \<open>What the theorems assume of the collaborators\<close>

text \<open>
  The metadata reports \<open>TLFCryptKeyNotPerDeviceEncrypted\<close> for historic generations
  only, never for the latest one, and no other collaborator returns that error.
\<close>

definition NotPerDeviceEncrypted_only_historic :: "'md env \<Rightarrow> 'md \<Rightarrow> bool" where
  "NotPerDeviceEncrypted_only_historic env kmd \<longleftrightarrow>
     (\<forall>uid k. GetTLFCryptKeyParams (mdm env) kmd (LatestKeyGeneration (mdm env) kmd) uid k
                \<noteq> Inl TLFCryptKeyNotPerDeviceEncrypted)
   \<and> (\<forall>g k. GetHistoricTLFCryptKey (mdm env) kmd g k \<noteq> Inl TLFCryptKeyNotPerDeviceEncrypted)
   \<and> (\<forall>h t g. GetTLFCryptKey_fault (keyCache env) h t g \<noteq> Some TLFCryptKeyNotPerDeviceEncrypted)
   \<and> (\<forall>h t g k. PutTLFCryptKey_fault (keyCache env) h t g k
                  \<noteq> Some TLFCryptKeyNotPerDeviceEncrypted)
   \<and> (\<forall>h. GetCurrentUserInfo (kbpki env) h \<noteq> Inl TLFCryptKeyNotPerDeviceEncrypted)
   \<and> (\<forall>h u. GetCryptPublicKeys (kbpki env) h u \<noteq> Inl TLFCryptKeyNotPerDeviceEncrypted)
   \<and> (\<forall>h. GetCurrentCryptPublicKey (kbpki env) h \<noteq> Inl TLFCryptKeyNotPerDeviceEncrypted)
   \<and> (\<forall>h e c. DecryptTLFCryptKeyClientHalf (crypto env) h e c
                \<noteq> Inl TLFCryptKeyNotPerDeviceEncrypted)
   \<and> (\<forall>h ks p. DecryptTLFCryptKeyClientHalfAny (crypto env) h ks p
                 \<noteq> Inl TLFCryptKeyNotPerDeviceEncrypted)
   \<and> (\<forall>h i k. GetTLFCryptKeyServerHalf (keyOps env) h i k
                \<noteq> Inl TLFCryptKeyNotPerDeviceEncrypted)
   \<and> (\<forall>e g u n. makeRekeyReadError env kmd e g u n \<noteq> TLFCryptKeyNotPerDeviceEncrypted)"

text \<open>
  \<open>RekeyIncompleteError\<close> is Rekey's own signal: the metadata methods that Rekey calls
  once the metadata may have changed, and the push of server halves, do not return it.
\<close>

definition RekeyIncomplete_not_from_metadata :: "'md env \<Rightarrow> bool" where
  "RekeyIncomplete_not_from_metadata env \<longleftrightarrow>
     (\<forall>md h. fst (updateFromTlfHandle (mdm env) md h) \<noteq> Some RekeyIncompleteError)
   \<and> (\<forall>md. fst (finalizeRekey (mdm env) md) \<noteq> Some RekeyIncompleteError)
   \<and> (\<forall>md g wKeys rKeys ePub ePriv k.
          fst (md_updateKeyGeneration (mdm env) md g wKeys rKeys ePub ePriv k)
            \<noteq> Inl RekeyIncompleteError)
   \<and> (\<forall>h halves. PutTLFCryptKeyServerHalves (keyOps env) h halves
          \<noteq> Some RekeyIncompleteError)"

section \<open>A small world for running the model\<close>

text \<open>
  A concrete metadata object and concrete collaborators, used to run the definitions
  above on explicit inputs. Users: alice (UID 1, device 11), bob (UID 2, device 21),
  charlie (UID 3, devices 31 and 32). Handle 0 has alice as its writer and bob and
  charlie as readers; handle 1 has alice and bob as writers and charlie as reader. The
  folder key of generation \<open>g\<close> is \<open>1000 + g\<close>; a device's key info is its server half
  ID, the server half is equal to the ID, and unmasking adds the two halves.
\<close>

record RootMetadata =
  rmd_tlfID :: tlf_ID
  rmd_latest :: KeyGen
  rmd_handle :: TlfHandle
  rmd_writers :: UserDeviceKeyInfoMap
  rmd_readers :: UserDeviceKeyInfoMap
  rmd_v3 :: bool

definition test_GetTLFCryptKeyParams ::
  "RootMetadata \<Rightarrow> KeyGen \<Rightarrow> UID \<Rightarrow> CryptPublicKey
    \<Rightarrow> error + (TLFEphemeralPublicKey \<times> EncryptedTLFCryptKeyClientHalf
                \<times> TLFCryptKeyServerHalfID \<times> bool)" where
  "test_GetTLFCryptKeyParams md g u k =
     (if rmd_v3 md \<and> g < rmd_latest md then Inl TLFCryptKeyNotPerDeviceEncrypted
      else
        (case map_of (rmd_writers md @ rmd_readers md) u of
           None \<Rightarrow> Inr (0, 0, 0, False)
         | Some kids \<Rightarrow>
             (case map_of kids k of
                None \<Rightarrow> Inr (0, 0, 0, False)
              | Some info \<Rightarrow> Inr (9, 1000 + nat g - info, info, True))))"

definition test_revokeRemovedDevices ::
  "RootMetadata \<Rightarrow> UserDevicePublicKeys \<Rightarrow> UserDevicePublicKeys
    \<Rightarrow> (error + ServerHalfRemovalInfo) \<times> RootMetadata" where
  "test_revokeRemovedDevices md wKeys rKeys =
     (Inr (map (\<lambda>(u, kids).
                  (u, \<lparr>userRemoved = True,
                       deviceServerHalfIDs = map (\<lambda>(k, info). (k, [info])) kids\<rparr>))
             (filter (\<lambda>(u, kids). map_of rKeys u = None) (rmd_readers md))),
      md\<lparr>rmd_readers := filter (\<lambda>(u, kids). map_of rKeys u \<noteq> None) (rmd_readers md)\<rparr>)"

definition test_promoteReader :: "RootMetadata \<Rightarrow> UID \<Rightarrow> error option \<times> RootMetadata" where
  "test_promoteReader md u =
     (case map_of (rmd_readers md) u of
        None \<Rightarrow> (Some (ErrorString ''not a reader''), md)
      | Some kids \<Rightarrow>
          (None, md\<lparr>rmd_writers := rmd_writers md @ [(u, kids)],
                     rmd_readers := AList.delete u (rmd_readers md)\<rparr>))"

definition test_metadata :: "RootMetadata Metadata" where
  "test_metadata =
     \<lparr>TlfID_of = rmd_tlfID,
      LatestKeyGeneration = rmd_latest,
      GetTlfHandle = rmd_handle,
      GetTLFCryptKeyParams = test_GetTLFCryptKeyParams,
      GetHistoricTLFCryptKey =
        (\<lambda>md g latestKey.
           if latestKey = 1000 + nat (rmd_latest md) then Inr (1000 + nat g)
           else Inl DecryptionError),
      getUserDeviceKeyInfoMaps = (\<lambda>md g. Inr (rmd_readers md, rmd_writers md)),
      StoresHistoricTLFCryptKeys = rmd_v3,
      IsReadable = (\<lambda>md. True),
      GetSerializedPrivateMetadata = (\<lambda>md. []),
      decryptMDPrivateData = (\<lambda>h md u. Inr 0),
      set_data = (\<lambda>md pmd. md),
      set_TLFPrivateKey = (\<lambda>md k. md),
      updateFromTlfHandle = (\<lambda>md h. (None, md\<lparr>rmd_handle := h\<rparr>)),
      promoteReader = test_promoteReader,
      md_updateKeyGeneration = (\<lambda>md g wKeys rKeys ePub ePriv key. (Inr [], md)),
      revokeRemovedDevices = test_revokeRemovedDevices,
      AddKeyGeneration = (\<lambda>md prev curr pub. (None, md\<lparr>rmd_latest := rmd_latest md + 1\<rparr>)),
      finalizeRekey = (\<lambda>md. (None, md))\<rparr>"

definition test_devices :: "UID \<Rightarrow> CryptPublicKey list" where
  "test_devices u = (if u = 1 then [11] else if u = 2 then [21] else if u = 3 then [31] else [])"

definition test_kbpki :: KBPKI where
  "test_kbpki =
     \<lparr>GetCurrentUserInfo = (\<lambda>h. Inr (''alice'', 1)),
      GetCryptPublicKeys = (\<lambda>h u. Inr (test_devices u)),
      GetCurrentCryptPublicKey = (\<lambda>h. Inr 11),
      identifyUserList = (\<lambda>h uids public. None)\<rparr>"

definition test_crypto :: Crypto where
  "test_crypto =
     \<lparr>DecryptTLFCryptKeyClientHalf = (\<lambda>h ePub c. Inr c),
      DecryptTLFCryptKeyClientHalfAny =
        (\<lambda>h keys promptPaper.
           case keys of [] \<Rightarrow> Inl DecryptionError | k # ks \<Rightarrow> Inr (ClientHalf k, 0)),
      UnmaskTLFCryptKey = (\<lambda>serverHalf clientHalf. serverHalf + clientHalf),
      MakeRandomTLFEphemeralKeys = (\<lambda>h. (7, 8)),
      MakeRandomTLFKeys = (\<lambda>h. Inr (5, 6, 4242))\<rparr>"

definition test_keyOps :: KeyOps where
  "test_keyOps =
     \<lparr>GetTLFCryptKeyServerHalf = (\<lambda>h serverHalfID k. Inr serverHalfID),
      PutTLFCryptKeyServerHalves = (\<lambda>h halves. None),
      DeleteTLFCryptKeyServerHalf = (\<lambda>h u kid serverHalfID. None)\<rparr>"

definition test_keyCache :: KeyCache where
  "test_keyCache =
     \<lparr>GetTLFCryptKey_fault = (\<lambda>h t g. None),
      PutTLFCryptKey_fault = (\<lambda>h t g k. None)\<rparr>"

definition test_handles :: HandleOps where
  "test_handles =
     \<lparr>ResolveAgain = (\<lambda>h handle. Inr handle),
      ResolveAgainForUser = (\<lambda>h handle u. Inr handle),
      IsWriter = (\<lambda>handle u. u = 1 \<or> (handle = 1 \<and> u = 2)),
      IsReader = (\<lambda>handle u. u = 3 \<or> (handle = 0 \<and> u = 2)),
      HandleEquals = (\<lambda>a b. Inr (a = b)),
      GetLatestHandleForTLF = (\<lambda>h t. None),
      WithUpdatedConflictInfo = (\<lambda>handle info. Inr handle),
      ResolvedWriters = (\<lambda>handle. if handle = 1 then [1, 2] else [1]),
      ResolvedReaders = (\<lambda>handle. if handle = 1 then [3] else [2, 3])\<rparr>"

definition test_env :: "RootMetadata env" where
  "test_env =
     \<lparr>kbpki = test_kbpki, crypto = test_crypto, keyOps = test_keyOps,
      keyCache = test_keyCache, handles = test_handles, mdm = test_metadata,
      FirstValidKeyGen = 1, PublicKeyGen = - 1, PublicTLFCryptKey = 999,
      KID_of = (\<lambda>k. k),
      makeRekeyReadError = (\<lambda>md err g u n. ErrorString ''rekey read error'')\<rparr>"

text \<open>The same world with charlie, a reader, as the logged-in user (on device 31).\<close>

definition test_env_charlie :: "RootMetadata env" where
  "test_env_charlie =
     test_env\<lparr>kbpki := test_kbpki\<lparr>GetCurrentUserInfo := (\<lambda>h. Inr (''charlie'', 3)),
                                     GetCurrentCryptPublicKey := (\<lambda>h. Inr 31)\<rparr>\<rparr>"

text \<open>
  A private folder at generation 2 (with and without historic keys), a private folder
  without any generation, and a public folder.
\<close>

definition test_md :: RootMetadata where
  "test_md =
     \<lparr>rmd_tlfID = TlfID 1 False, rmd_latest = 2, rmd_handle = 0,
      rmd_writers = [(1, [(11, 3)])],
      rmd_readers = [(2, [(21, 4)]), (3, [(31, 5)])],
      rmd_v3 = False\<rparr>"

definition test_md_v3 :: RootMetadata where
  "test_md_v3 = test_md\<lparr>rmd_v3 := True\<rparr>"

definition test_md_new :: RootMetadata where
  "test_md_new = test_md\<lparr>rmd_latest := 0, rmd_writers := [], rmd_readers := []\<rparr>"

definition test_md_public :: RootMetadata where
  "test_md_public =
     \<lparr>rmd_tlfID = TlfID 2 True, rmd_latest = - 1, rmd_handle = 0,
      rmd_writers = [], rmd_readers = [], rmd_v3 = False\<rparr>"

definition empty_kstate :: kstate where
  "empty_kstate = \<lparr>kcache = Map.empty, trace = []\<rparr>"

text \<open>
  The folder at generation 2 with a fourth reader, dave (UID 4, device 41), who is not
  in the handle any more; the folder with handle 1, where bob is a writer but his device
  is still in the reader bundle; and a world whose \<open>finalizeRekey\<close> always fails.
\<close>

definition test_md_dave :: RootMetadata where
  "test_md_dave = test_md\<lparr>rmd_readers := [(2, [(21, 4)]), (3, [(31, 5)]), (4, [(41, 6)])]\<rparr>"

definition test_md_promote :: RootMetadata where
  "test_md_promote = test_md\<lparr>rmd_handle := 1\<rparr>"

definition test_env_finalize_fails :: "RootMetadata env" where
  "test_env_finalize_fails =
     test_env\<lparr>mdm := test_metadata\<lparr>finalizeRekey := (\<lambda>md. (Some (ServiceError 7), md))\<rparr>\<rparr>"

text \<open>
  The folder with charlie's revoked device 32 still in the reader bundle; the world seen
  by charlie once bob has added a device 22; and that world with the key server down.
\<close>

definition test_md_revoked :: RootMetadata where
  "test_md_revoked = test_md\<lparr>rmd_readers := [(2, [(21, 4)]), (3, [(31, 5), (32, 8)])]\<rparr>"

definition test_env_charlie_bob22 :: "RootMetadata env" where
  "test_env_charlie_bob22 =
     test_env_charlie\<lparr>kbpki := (kbpki test_env_charlie)
        \<lparr>GetCryptPublicKeys := (\<lambda>h u. Inr (if u = 2 then [21, 22] else test_devices u))\<rparr>\<rparr>"

definition test_env_charlie_bob22_down :: "RootMetadata env" where
  "test_env_charlie_bob22_down =
     test_env_charlie_bob22\<lparr>keyOps := test_keyOps
        \<lparr>GetTLFCryptKeyServerHalf := (\<lambda>h serverHalfID k. Inl (ServiceError 5))\<rparr>\<rparr>"

text \<open>
  The world \<open>test_env\<close> with a key server that refuses every deletion of a server half.
\<close>

definition test_env_delete_fails :: "RootMetadata env" where
  "test_env_delete_fails =
     test_env\<lparr>keyOps := test_keyOps
        \<lparr>DeleteTLFCryptKeyServerHalf := (\<lambda>h u kid serverHalfID. Some (ServiceError 5))\<rparr>\<rparr>"

text \<open>
  The folder with handle 1 (bob promoted to writer, his device still in the reader
  bundle) and charlie's revoked device 32 still in the reader bundle; and the world seen
  by charlie once he has added a device 33 of his own.
\<close>

definition test_md_promote_revoked :: RootMetadata where
  "test_md_promote_revoked = test_md_revoked\<lparr>rmd_handle := 1\<rparr>"

definition test_env_charlie_33 :: "RootMetadata env" where
  "test_env_charlie_33 =
     test_env_charlie\<lparr>kbpki := (kbpki test_env_charlie)
        \<lparr>GetCryptPublicKeys := (\<lambda>h u. Inr (if u = 3 then [31, 33] else test_devices u))\<rparr>\<rparr>"

section \<open>Facts about the key resolver\<close>

lemmas test_defs = test_env_def test_md_def test_md_v3_def test_md_new_def test_md_public_def
  test_metadata_def test_kbpki_def test_crypto_def test_keyOps_def test_keyCache_def
  test_handles_def empty_kstate_def test_devices_def test_GetTLFCryptKeyParams_def
  test_revokeRemovedDevices_def test_promoteReader_def test_env_charlie_def

lemma kcache_record_event [simp]: "kcache (record_event ev s) = kcache s"
  by (simp add: record_event_def)

lemma trace_record_event [simp]: "trace (record_event ev s) = trace s @ [ev]"
  by (simp add: record_event_def)

lemmas resolver_call_defs =
  KBPKI_GetCurrentUserInfo_def KBPKI_GetCryptPublicKeys_def KBPKI_GetCurrentCryptPublicKey_def
  Crypto_DecryptTLFCryptKeyClientHalf_def Crypto_DecryptTLFCryptKeyClientHalfAny_def
  KeyOps_GetTLFCryptKeyServerHalf_def

lemma getTLFCryptKeyParams_kcache:
  "getTLFCryptKeyParams env kmd keyGen uid username flags s = (r, s') \<Longrightarrow> kcache s' = kcache s"
  unfolding getTLFCryptKeyParams_def resolver_call_defs
  by (auto split: if_splits sum.splits prod.splits)

lemma unmaskTLFCryptKey_kcache:
  "unmaskTLFCryptKey env i k c s = (r, s') \<Longrightarrow> kcache s' = kcache s"
  unfolding unmaskTLFCryptKey_def resolver_call_defs
  by (auto split: sum.splits)

lemma KeyCache_GetTLFCryptKey_kcache:
  "KeyCache_GetTLFCryptKey env t g s = (r, s') \<Longrightarrow>
     kcache s' = kcache s \<and> (\<forall>k. r = Inr k \<longrightarrow> kcache s (t, g) = Some k)"
  unfolding KeyCache_GetTLFCryptKey_def by (auto split: option.splits)

lemma getLatestTLFCryptKey_kcache:
  "getLatestTLFCryptKey env kmd uid username flags s = (r, s') \<Longrightarrow> kcache s' = kcache s"
  unfolding getLatestTLFCryptKey_def Let_def
  by (auto split: if_splits sum.splits prod.splits
      dest!: getTLFCryptKeyParams_kcache unmaskTLFCryptKey_kcache KeyCache_GetTLFCryptKey_kcache)

lemma getHistoricKeyViaLatest_kcache:
  "getHistoricKeyViaLatest env kmd keyGen uid username flags s = (r, s') \<Longrightarrow> kcache s' = kcache s"
  unfolding getHistoricKeyViaLatest_def
  by (auto split: sum.splits prod.splits dest!: getLatestTLFCryptKey_kcache)

lemma collectKeys_error:
  "collectKeys env kmd keyGen uid iks acc = Inl e \<Longrightarrow>
     e = TLFCryptKeyNotPerDeviceEncrypted
   \<and> (\<exists>k. GetTLFCryptKeyParams (mdm env) kmd keyGen uid k = Inl TLFCryptKeyNotPerDeviceEncrypted)"
proof (induction env kmd keyGen uid iks acc rule: collectKeys.induct)
  case (1 env kmd keyGen uid acc)
  then show ?case by simp
next
  case (2 env kmd keyGen uid i k rest keys serverHalfIDs publicKeyLookup)
  then show ?case
    by (auto split: sum.splits if_splits prod.splits)
qed

lemma getTLFCryptKeyParams_latest_not_NPDE:
  assumes ok: "NotPerDeviceEncrypted_only_historic env kmd"
    and run: "getTLFCryptKeyParams env kmd (LatestKeyGeneration (mdm env) kmd) uid username
                flags s = (r, s')"
  shows "r \<noteq> Inl TLFCryptKeyNotPerDeviceEncrypted"
  using run ok
  unfolding getTLFCryptKeyParams_def resolver_call_defs NotPerDeviceEncrypted_only_historic_def
  by (auto split: if_splits sum.splits prod.splits dest!: collectKeys_error)

lemma unmaskTLFCryptKey_not_NPDE:
  assumes ok: "NotPerDeviceEncrypted_only_historic env kmd"
    and run: "unmaskTLFCryptKey env i k c s = (r, s')"
  shows "r \<noteq> Inl TLFCryptKeyNotPerDeviceEncrypted"
  using run ok
  unfolding unmaskTLFCryptKey_def resolver_call_defs NotPerDeviceEncrypted_only_historic_def
  by (auto split: sum.splits)

lemma getLatestTLFCryptKey_not_NPDE:
  assumes ok: "NotPerDeviceEncrypted_only_historic env kmd"
    and run: "getLatestTLFCryptKey env kmd uid username flags s = (r, s')"
  shows "r \<noteq> Inl TLFCryptKeyNotPerDeviceEncrypted"
proof -
  have fault: "\<And>h t g. GetTLFCryptKey_fault (keyCache env) h t g
                 \<noteq> Some TLFCryptKeyNotPerDeviceEncrypted"
    using ok by (simp add: NotPerDeviceEncrypted_only_historic_def)
  show ?thesis
    using run fault
    unfolding getLatestTLFCryptKey_def Let_def KeyCache_GetTLFCryptKey_def
    by (auto split: if_splits sum.splits prod.splits option.splits
        dest: getTLFCryptKeyParams_latest_not_NPDE[OF ok] unmaskTLFCryptKey_not_NPDE[OF ok])
qed

lemma getHistoricKeyViaLatest_not_NPDE:
  assumes ok: "NotPerDeviceEncrypted_only_historic env kmd"
    and run: "getHistoricKeyViaLatest env kmd keyGen uid username flags s = (r, s')"
  shows "r \<noteq> Inl TLFCryptKeyNotPerDeviceEncrypted"
proof -
  have hist: "\<And>g k. GetHistoricTLFCryptKey (mdm env) kmd g k
                 \<noteq> Inl TLFCryptKeyNotPerDeviceEncrypted"
    using ok by (simp add: NotPerDeviceEncrypted_only_historic_def)
  show ?thesis
    using run hist
    unfolding getHistoricKeyViaLatest_def
    by (auto split: sum.splits prod.splits dest: getLatestTLFCryptKey_not_NPDE[OF ok])
qed

lemma getTLFCryptKey_not_NPDE:
  assumes ok: "NotPerDeviceEncrypted_only_historic env kmd"
    and run: "getTLFCryptKey env kmd keyGen flags s = (r, s')"
  shows "r \<noteq> Inl TLFCryptKeyNotPerDeviceEncrypted"
proof -
  have fault: "\<And>h t g. GetTLFCryptKey_fault (keyCache env) h t g
                 \<noteq> Some TLFCryptKeyNotPerDeviceEncrypted"
    and pfault: "\<And>h t g k. PutTLFCryptKey_fault (keyCache env) h t g k
                 \<noteq> Some TLFCryptKeyNotPerDeviceEncrypted"
    and user: "\<And>h. GetCurrentUserInfo (kbpki env) h \<noteq> Inl TLFCryptKeyNotPerDeviceEncrypted"
    using ok by (simp_all add: NotPerDeviceEncrypted_only_historic_def)
  show ?thesis
    using run fault pfault user
    unfolding getTLFCryptKey_def Let_def KeyCache_GetTLFCryptKey_def KeyCache_PutTLFCryptKey_def
      KBPKI_GetCurrentUserInfo_def
    by (auto split: if_splits sum.splits prod.splits option.splits
        dest: getHistoricKeyViaLatest_not_NPDE[OF ok] unmaskTLFCryptKey_not_NPDE[OF ok])
qed

lemma getTLFCryptKey_historic_path:
  assumes run: "getTLFCryptKey env kmd keyGen flags s = (r, s')"
    and priv: "\<not> IsPublic (TlfID_of (mdm env) kmd)"
    and valid: "FirstValidKeyGen env \<le> keyGen" "keyGen \<le> LatestKeyGeneration (mdm env) kmd"
    and miss: "KeyCache_GetTLFCryptKey env (TlfID_of (mdm env) kmd) keyGen s
                 = (Inl KeyCacheMissError, s1)"
    and user: "KBPKI_GetCurrentUserInfo env s1 = (Inr (username, uid), s2)"
    and npde: "getTLFCryptKeyParams env kmd keyGen uid username flags s2
                 = (Inl TLFCryptKeyNotPerDeviceEncrypted, s3)"
  shows "case getLatestTLFCryptKey env kmd uid username flags s3 of
           (Inl e, s4) \<Rightarrow> r = Inl e \<and> s' = s4
         | (Inr latestKey, s4) \<Rightarrow>
             (case GetHistoricTLFCryptKey (mdm env) kmd keyGen latestKey of
                Inl e \<Rightarrow> r = Inl e \<and> s' = s4
              | Inr k \<Rightarrow>
                  if flags AND getTLFCryptKeyDoCache \<noteq> 0
                  then (case KeyCache_PutTLFCryptKey env (TlfID_of (mdm env) kmd) keyGen k s4 of
                          (Some e, s5) \<Rightarrow> r = Inl e \<and> s' = s5
                        | (None, s5) \<Rightarrow> r = Inr k \<and> s' = s5)
                  else r = Inr k \<and> s' = s4)"
  using run priv valid miss user npde
  unfolding getTLFCryptKey_def Let_def getHistoricKeyViaLatest_def
  by (auto split: if_splits sum.splits prod.splits option.splits)

lemma allGenerationsLoop_threaded:
  "allGenerationsLoop env kmd g keys0 s = ((keys, err), s') \<Longrightarrow>
   \<exists>new ss. keys = keys0 @ new \<and> length ss = length new + 1 \<and> ss ! 0 = s
     \<and> (\<forall>i < length new.
            getTLFCryptKeyUsingCurrentDevice env kmd (g + int i) True (ss ! i)
              = (Inr (new ! i), ss ! Suc i))
     \<and> (err = None \<longrightarrow>
            int (length new) = max 0 (LatestKeyGeneration (mdm env) kmd + 1 - g)
          \<and> s' = ss ! length new)
     \<and> (\<forall>e. err = Some e \<longrightarrow>
            g + int (length new) \<le> LatestKeyGeneration (mdm env) kmd
          \<and> getTLFCryptKeyUsingCurrentDevice env kmd (g + int (length new)) True
               (ss ! length new) = (Inl e, s'))"
proof (induction env kmd g keys0 s arbitrary: keys err s' rule: allGenerationsLoop.induct)
  case (1 env kmd g keys0 s)
  show ?case
  proof (cases "g \<le> LatestKeyGeneration (mdm env) kmd")
    case False
    with "1.prems" have "keys = keys0" "err = None" "s' = s" by simp_all
    with False show ?thesis by (intro exI[of _ "[]"] exI[of _ "[s]"]) simp
  next
    case True
    obtain r s1 where call: "getTLFCryptKeyUsingCurrentDevice env kmd g True s = (r, s1)"
      by (cases "getTLFCryptKeyUsingCurrentDevice env kmd g True s") auto
    show ?thesis
    proof (cases r)
      case (Inl e)
      with True call "1.prems" have "keys = keys0" "err = Some e" "s' = s1" by auto
      with True call Inl show ?thesis by (intro exI[of _ "[]"] exI[of _ "[s]"]) simp
    next
      case (Inr key)
      with True call "1.prems"
      have rec: "allGenerationsLoop env kmd (g + 1) (keys0 @ [key]) s1 = ((keys, err), s')"
        by auto
      from "1.IH"[OF True call[symmetric, unfolded Inr] refl rec]
      obtain new ss where new: "keys = (keys0 @ [key]) @ new"
        and len: "length ss = length new + 1" and start: "ss ! 0 = s1"
        and each: "\<forall>i < length new.
            getTLFCryptKeyUsingCurrentDevice env kmd (g + 1 + int i) True (ss ! i)
              = (Inr (new ! i), ss ! Suc i)"
        and ok: "err = None \<longrightarrow>
            int (length new) = max 0 (LatestKeyGeneration (mdm env) kmd + 1 - (g + 1))
          \<and> s' = ss ! length new"
        and bad: "\<forall>e. err = Some e \<longrightarrow>
            g + 1 + int (length new) \<le> LatestKeyGeneration (mdm env) kmd
          \<and> getTLFCryptKeyUsingCurrentDevice env kmd (g + 1 + int (length new)) True
               (ss ! length new) = (Inl e, s')"
        by blast
      let ?new = "key # new" and ?ss = "s # ss"
      have a: "keys = keys0 @ ?new" using new by simp
      have b: "length ?ss = length ?new + 1" using len by simp
      have c: "?ss ! 0 = s" by simp
      have d: "\<forall>i < length ?new.
            getTLFCryptKeyUsingCurrentDevice env kmd (g + int i) True (?ss ! i)
              = (Inr (?new ! i), ?ss ! Suc i)"
      proof (intro allI impI)
        fix i assume i: "i < length ?new"
        show "getTLFCryptKeyUsingCurrentDevice env kmd (g + int i) True (?ss ! i)
              = (Inr (?new ! i), ?ss ! Suc i)"
        proof (cases i)
          case 0
          with call Inr start show ?thesis by simp
        next
          case (Suc j)
          with i have j: "j < length new" by simp
          have eq: "g + int i = g + 1 + int j" using Suc by simp
          show ?thesis unfolding eq using each[rule_format, OF j] Suc by simp
        qed
      qed
      have e: "err = None \<longrightarrow>
            int (length ?new) = max 0 (LatestKeyGeneration (mdm env) kmd + 1 - g)
          \<and> s' = ?ss ! length ?new"
        using ok True by auto
      have eq: "g + int (length ?new) = g + 1 + int (length new)" by simp
      have f: "\<forall>e. err = Some e \<longrightarrow>
            g + int (length ?new) \<le> LatestKeyGeneration (mdm env) kmd
          \<and> getTLFCryptKeyUsingCurrentDevice env kmd (g + int (length ?new)) True
               (?ss ! length ?new) = (Inl e, s')"
        unfolding eq using bad by simp
      from a b c d e f show ?thesis by blast
    qed
  qed
qed

section \<open>Properties of the key resolver\<close>

text \<open>
  C7: for a public folder, whatever the generation and the flags, the resolver returns
  the public sentinel key and leaves the state as it was: no call is logged (so neither
  the key cache nor the identity service is consulted) and the cache is unchanged.
\<close>

theorem getTLFCryptKey_public_sentinel:
  assumes "IsPublic (TlfID_of (mdm env) kmd)"
  shows "getTLFCryptKey env kmd keyGen flags s = (Inr (PublicTLFCryptKey env), s)"
  using assms by (simp add: getTLFCryptKey_def)

theorem getTLFCryptKey_public_sentinel_witness:
  "IsPublic (TlfID_of (mdm test_env) test_md_public)
   \<and> getTLFCryptKey test_env test_md_public 7
        (getTLFCryptKeyAnyDevice OR getTLFCryptKeyDoCache) empty_kstate
       = (Inr 999, empty_kstate)"
proof -
  have pub: "IsPublic (TlfID_of (mdm test_env) test_md_public)"
    by (simp add: test_defs)
  have "PublicTLFCryptKey test_env = 999" by (simp add: test_defs)
  with getTLFCryptKey_public_sentinel[OF pub, of 7
      "getTLFCryptKeyAnyDevice OR getTLFCryptKeyDoCache" empty_kstate] pub
  show ?thesis by simp
qed

text \<open>
  C10: GetTLFCryptKeyOfAllGenerations runs the resolver (current device, caching) once
  per generation, in ascending order from FirstValidKeyGen, each call starting from the
  state the previous one left. The states \<open>ss\<close> are those of the loop: the first is the
  state of the call, and the key at index \<open>i\<close> is the resolver's answer for generation
  \<open>FirstValidKeyGen + i\<close> from state \<open>ss ! i\<close>, leaving state \<open>ss ! (i + 1)\<close>. When no
  error is returned there is one key per generation up to the latest one and the final
  state is the last of these states. When an error is returned, the keys are those of
  the generations below the failing one, and the error and the final state are the
  resolver's for that generation from the state reached. For a public folder, whose
  latest generation is PublicKeyGen and lies below FirstValidKeyGen, the result is the
  empty list, no error, and the state is untouched.
\<close>

theorem GetTLFCryptKeyOfAllGenerations_keys:
  assumes "GetTLFCryptKeyOfAllGenerations env kmd s = ((keys, err), s')"
  shows "(\<exists>ss. length ss = length keys + 1 \<and> ss ! 0 = s
          \<and> (\<forall>i < length keys.
                getTLFCryptKeyUsingCurrentDevice env kmd (FirstValidKeyGen env + int i) True
                  (ss ! i) = (Inr (keys ! i), ss ! Suc i))
          \<and> (err = None \<longrightarrow>
                int (length keys)
                  = max 0 (LatestKeyGeneration (mdm env) kmd + 1 - FirstValidKeyGen env)
              \<and> s' = ss ! length keys)
          \<and> (\<forall>e. err = Some e \<longrightarrow>
                FirstValidKeyGen env + int (length keys) \<le> LatestKeyGeneration (mdm env) kmd
              \<and> getTLFCryptKeyUsingCurrentDevice env kmd
                   (FirstValidKeyGen env + int (length keys)) True (ss ! length keys)
                  = (Inl e, s')))
       \<and> (LatestKeyGeneration (mdm env) kmd = PublicKeyGen env
            \<and> PublicKeyGen env < FirstValidKeyGen env
          \<longrightarrow> keys = [] \<and> err = None \<and> s' = s)"
proof -
  from assms have run: "allGenerationsLoop env kmd (FirstValidKeyGen env) [] s = ((keys, err), s')"
    by (simp add: GetTLFCryptKeyOfAllGenerations_def)
  from allGenerationsLoop_threaded[OF run] have main:
    "\<exists>ss. length ss = length keys + 1 \<and> ss ! 0 = s
          \<and> (\<forall>i < length keys.
                getTLFCryptKeyUsingCurrentDevice env kmd (FirstValidKeyGen env + int i) True
                  (ss ! i) = (Inr (keys ! i), ss ! Suc i))
          \<and> (err = None \<longrightarrow>
                int (length keys)
                  = max 0 (LatestKeyGeneration (mdm env) kmd + 1 - FirstValidKeyGen env)
              \<and> s' = ss ! length keys)
          \<and> (\<forall>e. err = Some e \<longrightarrow>
                FirstValidKeyGen env + int (length keys) \<le> LatestKeyGeneration (mdm env) kmd
              \<and> getTLFCryptKeyUsingCurrentDevice env kmd
                   (FirstValidKeyGen env + int (length keys)) True (ss ! length keys)
                  = (Inl e, s'))"
    by auto
  have "LatestKeyGeneration (mdm env) kmd = PublicKeyGen env
            \<and> PublicKeyGen env < FirstValidKeyGen env
          \<longrightarrow> keys = [] \<and> err = None \<and> s' = s"
    using run by auto
  with main show ?thesis by blast
qed

theorem GetTLFCryptKeyOfAllGenerations_keys_witness:
  "fst (GetTLFCryptKeyOfAllGenerations test_env test_md empty_kstate) = ([1001, 1002], None)
   \<and> LatestKeyGeneration (mdm test_env) test_md + 1 - FirstValidKeyGen test_env = 2
   \<and> fst (getTLFCryptKeyUsingCurrentDevice test_env test_md
             (FirstValidKeyGen test_env) True empty_kstate) = Inr 1001
   \<and> fst (getTLFCryptKeyUsingCurrentDevice test_env test_md
             (FirstValidKeyGen test_env + 1) True
             (snd (getTLFCryptKeyUsingCurrentDevice test_env test_md
                     (FirstValidKeyGen test_env) True empty_kstate))) = Inr 1002
   \<and> GetTLFCryptKeyOfAllGenerations test_env test_md_public empty_kstate
       = (([], None), empty_kstate)"
proof -
  let ?g = "FirstValidKeyGen test_env"
  have val: "fst (GetTLFCryptKeyOfAllGenerations test_env test_md empty_kstate)
               = ([1001, 1002], None)"
    by code_simp
  then obtain s' where run:
    "GetTLFCryptKeyOfAllGenerations test_env test_md empty_kstate = (([1001, 1002], None), s')"
    by (cases "GetTLFCryptKeyOfAllGenerations test_env test_md empty_kstate") auto
  from GetTLFCryptKeyOfAllGenerations_keys[OF run]
  obtain ss where start: "ss ! 0 = empty_kstate"
    and each: "\<forall>i < length [1001, 1002::nat].
            getTLFCryptKeyUsingCurrentDevice test_env test_md (?g + int i) True (ss ! i)
              = (Inr ([1001, 1002] ! i), ss ! Suc i)"
    by blast
  have first: "getTLFCryptKeyUsingCurrentDevice test_env test_md ?g True empty_kstate
                 = (Inr 1001, ss ! 1)"
    using each[rule_format, of 0] start by simp
  have second: "getTLFCryptKeyUsingCurrentDevice test_env test_md (?g + 1) True (ss ! 1)
                 = (Inr 1002, ss ! 2)"
    using each[rule_format, of 1] by (simp add: numeral_2_eq_2)
  from first have s1: "ss ! 1 = snd (getTLFCryptKeyUsingCurrentDevice test_env test_md ?g True
                                       empty_kstate)"
    by simp
  obtain keys err s'' where pubrun:
    "GetTLFCryptKeyOfAllGenerations test_env test_md_public empty_kstate = ((keys, err), s'')"
    by (metis surj_pair)
  have "LatestKeyGeneration (mdm test_env) test_md_public = PublicKeyGen test_env
        \<and> PublicKeyGen test_env < FirstValidKeyGen test_env"
    by (simp add: test_defs)
  with GetTLFCryptKeyOfAllGenerations_keys[OF pubrun]
  have "keys = [] \<and> err = None \<and> s'' = empty_kstate" by blast
  with pubrun have pub: "GetTLFCryptKeyOfAllGenerations test_env test_md_public empty_kstate
       = (([], None), empty_kstate)" by simp
  have "LatestKeyGeneration (mdm test_env) test_md + 1 - FirstValidKeyGen test_env = 2"
    by (simp add: test_defs)
  with val first second[unfolded s1] pub show ?thesis by simp
qed

text \<open>
  C6 (as the code has it): a call of the resolver changes the key cache only when the
  DoCache flag is set and it returns a key, and then by storing exactly that key under
  the requested (folder, generation); on every error return the cache is as before. For
  a private folder a successful call with DoCache leaves the returned key in the cache
  under (folder, generation): put there by this call, or found there by the cache probe.
  The public sentinel and a key found by the probe are returned before the cache write
  is reached, so a successful call with DoCache need not insert anything.
\<close>

theorem getTLFCryptKey_cache_writes:
  assumes "getTLFCryptKey env kmd keyGen flags s = (r, s')"
  shows "(\<forall>e. r = Inl e \<longrightarrow> kcache s' = kcache s)
       \<and> (kcache s' \<noteq> kcache s \<longrightarrow>
            flags AND getTLFCryptKeyDoCache \<noteq> 0
          \<and> (\<exists>k. r = Inr k
                \<and> kcache s' = (kcache s)((TlfID_of (mdm env) kmd, keyGen) \<mapsto> k)))
       \<and> (\<forall>k. r = Inr k \<and> flags AND getTLFCryptKeyDoCache \<noteq> 0
               \<and> \<not> IsPublic (TlfID_of (mdm env) kmd)
             \<longrightarrow> kcache s' (TlfID_of (mdm env) kmd, keyGen) = Some k)"
  using assms
  unfolding getTLFCryptKey_def Let_def KeyCache_PutTLFCryptKey_def KBPKI_GetCurrentUserInfo_def
  by (auto split: if_splits sum.splits prod.splits option.splits
      dest!: getTLFCryptKeyParams_kcache unmaskTLFCryptKey_kcache KeyCache_GetTLFCryptKey_kcache
             getHistoricKeyViaLatest_kcache)

theorem getTLFCryptKey_cache_writes_witness:
  "fst (getTLFCryptKey test_env test_md 1 getTLFCryptKeyDoCache empty_kstate) = Inr 1001
   \<and> getTLFCryptKeyDoCache AND getTLFCryptKeyDoCache \<noteq> 0
   \<and> \<not> IsPublic (TlfID_of (mdm test_env) test_md)
   \<and> kcache (snd (getTLFCryptKey test_env test_md 1 getTLFCryptKeyDoCache empty_kstate))
        (TlfID_of (mdm test_env) test_md, 1) = Some 1001
   \<and> kcache empty_kstate (TlfID_of (mdm test_env) test_md, 1) = None"
proof -
  have val: "fst (getTLFCryptKey test_env test_md 1 getTLFCryptKeyDoCache empty_kstate)
               = Inr 1001"
    by code_simp
  then obtain s' where run:
    "getTLFCryptKey test_env test_md 1 getTLFCryptKeyDoCache empty_kstate = (Inr 1001, s')"
    by (cases "getTLFCryptKey test_env test_md 1 getTLFCryptKeyDoCache empty_kstate") auto
  have flag: "getTLFCryptKeyDoCache AND getTLFCryptKeyDoCache \<noteq> 0"
    by (simp add: getTLFCryptKeyDoCache_def)
  have priv: "\<not> IsPublic (TlfID_of (mdm test_env) test_md)"
    by (simp add: test_defs)
  from getTLFCryptKey_cache_writes[OF run] flag priv
  have "kcache s' (TlfID_of (mdm test_env) test_md, 1) = Some 1001" by blast
  moreover have "kcache empty_kstate (TlfID_of (mdm test_env) test_md, 1) = None"
    by (simp add: empty_kstate_def)
  ultimately show ?thesis using val run flag priv by simp
qed

text \<open>
  C6 as stated fails: with DoCache set, the call on a public folder returns the sentinel
  and the call on a cached generation returns the cached key, and neither logs a
  \<open>PutTLFCryptKey\<close> call; after the first the cache has no entry for the folder.
\<close>

theorem getTLFCryptKey_no_insert_counterexample:
  "getTLFCryptKeyDoCache AND getTLFCryptKeyDoCache \<noteq> 0
   \<and> getTLFCryptKey test_env test_md_public 1 getTLFCryptKeyDoCache empty_kstate
       = (Inr 999, empty_kstate)
   \<and> kcache empty_kstate (TlfID_of (mdm test_env) test_md_public, 1) = None
   \<and> fst (getTLFCryptKey test_env test_md 1 getTLFCryptKeyDoCache
            (empty_kstate\<lparr>kcache := [(TlfID 1 False, 1) \<mapsto> 1001]\<rparr>)) = Inr 1001
   \<and> trace (snd (getTLFCryptKey test_env test_md 1 getTLFCryptKeyDoCache
            (empty_kstate\<lparr>kcache := [(TlfID 1 False, 1) \<mapsto> 1001]\<rparr>)))
       = [EvKeyCacheGet (TlfID 1 False) 1]"
  by (simp add: getTLFCryptKeyDoCache_def getTLFCryptKey_def test_defs
      KeyCache_GetTLFCryptKey_def record_event_def Let_def)

text \<open>
  C4: when the metadata reports \<open>TLFCryptKeyNotPerDeviceEncrypted\<close> for historic
  generations only and no other collaborator returns that error, the resolver never
  returns it. When the per-device parameters of the requested generation report it, the
  resolver fetches the latest generation's key (from the cache or by unwrapping and
  unmasking at the latest generation) and its result is that of the walk down the
  historic keys: the walk's key (cached if DoCache is set), or the error of the fetch,
  of the walk, or of the cache write.
\<close>

theorem getTLFCryptKey_NotPerDeviceEncrypted_internal:
  assumes ok: "NotPerDeviceEncrypted_only_historic env kmd"
    and run: "getTLFCryptKey env kmd keyGen flags s = (r, s')"
  shows "r \<noteq> Inl TLFCryptKeyNotPerDeviceEncrypted
       \<and> (\<forall>s1 username uid s2 s3.
            \<not> IsPublic (TlfID_of (mdm env) kmd)
          \<and> FirstValidKeyGen env \<le> keyGen \<and> keyGen \<le> LatestKeyGeneration (mdm env) kmd
          \<and> KeyCache_GetTLFCryptKey env (TlfID_of (mdm env) kmd) keyGen s
              = (Inl KeyCacheMissError, s1)
          \<and> KBPKI_GetCurrentUserInfo env s1 = (Inr (username, uid), s2)
          \<and> getTLFCryptKeyParams env kmd keyGen uid username flags s2
              = (Inl TLFCryptKeyNotPerDeviceEncrypted, s3)
          \<longrightarrow>
            (case getLatestTLFCryptKey env kmd uid username flags s3 of
               (Inl e, s4) \<Rightarrow> r = Inl e \<and> s' = s4
             | (Inr latestKey, s4) \<Rightarrow>
                 (case GetHistoricTLFCryptKey (mdm env) kmd keyGen latestKey of
                    Inl e \<Rightarrow> r = Inl e \<and> s' = s4
                  | Inr k \<Rightarrow>
                      if flags AND getTLFCryptKeyDoCache \<noteq> 0
                      then (case KeyCache_PutTLFCryptKey env (TlfID_of (mdm env) kmd)
                                   keyGen k s4 of
                              (Some e, s5) \<Rightarrow> r = Inl e \<and> s' = s5
                            | (None, s5) \<Rightarrow> r = Inr k \<and> s' = s5)
                      else r = Inr k \<and> s' = s4)))"
proof (intro conjI allI impI)
  show "r \<noteq> Inl TLFCryptKeyNotPerDeviceEncrypted"
    by (rule getTLFCryptKey_not_NPDE[OF ok run])
next
  fix s1 username uid s2 s3
  assume a: "\<not> IsPublic (TlfID_of (mdm env) kmd)
          \<and> FirstValidKeyGen env \<le> keyGen \<and> keyGen \<le> LatestKeyGeneration (mdm env) kmd
          \<and> KeyCache_GetTLFCryptKey env (TlfID_of (mdm env) kmd) keyGen s
              = (Inl KeyCacheMissError, s1)
          \<and> KBPKI_GetCurrentUserInfo env s1 = (Inr (username, uid), s2)
          \<and> getTLFCryptKeyParams env kmd keyGen uid username flags s2
              = (Inl TLFCryptKeyNotPerDeviceEncrypted, s3)"
  show "case getLatestTLFCryptKey env kmd uid username flags s3 of
               (Inl e, s4) \<Rightarrow> r = Inl e \<and> s' = s4
             | (Inr latestKey, s4) \<Rightarrow>
                 (case GetHistoricTLFCryptKey (mdm env) kmd keyGen latestKey of
                    Inl e \<Rightarrow> r = Inl e \<and> s' = s4
                  | Inr k \<Rightarrow>
                      if flags AND getTLFCryptKeyDoCache \<noteq> 0
                      then (case KeyCache_PutTLFCryptKey env (TlfID_of (mdm env) kmd)
                                   keyGen k s4 of
                              (Some e, s5) \<Rightarrow> r = Inl e \<and> s' = s5
                            | (None, s5) \<Rightarrow> r = Inr k \<and> s' = s5)
                      else r = Inr k \<and> s' = s4)"
    by (rule getTLFCryptKey_historic_path[OF run, of s1 username uid s2 s3])
       (use a in simp_all)
qed

theorem getTLFCryptKey_NotPerDeviceEncrypted_internal_witness:
  "NotPerDeviceEncrypted_only_historic test_env test_md_v3
   \<and> fst (getTLFCryptKeyParams test_env test_md_v3 1 1 ''alice'' 0
            (snd (KBPKI_GetCurrentUserInfo test_env
               (snd (KeyCache_GetTLFCryptKey test_env (TlfID 1 False) 1 empty_kstate)))))
       = Inl TLFCryptKeyNotPerDeviceEncrypted
   \<and> fst (getTLFCryptKey test_env test_md_v3 1 0 empty_kstate) = Inr 1001
   \<and> fst (getTLFCryptKey test_env test_md_v3 1 0 empty_kstate)
       \<noteq> Inl TLFCryptKeyNotPerDeviceEncrypted"
proof -
  have ok: "NotPerDeviceEncrypted_only_historic test_env test_md_v3"
    by (auto simp add: NotPerDeviceEncrypted_only_historic_def test_defs
        split: option.splits list.splits)
  obtain r s' where run: "getTLFCryptKey test_env test_md_v3 1 0 empty_kstate = (r, s')"
    by (metis surj_pair)
  from getTLFCryptKey_NotPerDeviceEncrypted_internal[OF ok run]
  have "r \<noteq> Inl TLFCryptKeyNotPerDeviceEncrypted" by blast
  with run have ne: "fst (getTLFCryptKey test_env test_md_v3 1 0 empty_kstate)
       \<noteq> Inl TLFCryptKeyNotPerDeviceEncrypted" by simp
  have p: "fst (getTLFCryptKeyParams test_env test_md_v3 1 1 ''alice'' 0
            (snd (KBPKI_GetCurrentUserInfo test_env
               (snd (KeyCache_GetTLFCryptKey test_env (TlfID 1 False) 1 empty_kstate)))))
       = Inl TLFCryptKeyNotPerDeviceEncrypted"
    by code_simp
  have v: "fst (getTLFCryptKey test_env test_md_v3 1 0 empty_kstate) = Inr 1001"
    by code_simp
  from ok p v ne show ?thesis by blast
qed

section \<open>Facts about the rekey engine\<close>

lemma milestones_append [simp]: "milestones (xs @ ys) = milestones xs @ milestones ys"
  by (simp add: milestones_def)

lemma milestones_Cons [simp]:
  "milestones (ev # tr) = (if milestone ev then ev # milestones tr else milestones tr)"
  by (simp add: milestones_def)

lemma milestones_Nil [simp]: "milestones [] = []"
  by (simp add: milestones_def)

lemma getTLFCryptKeyParams_quiet:
  "getTLFCryptKeyParams env kmd keyGen uid username flags s = (r, s')
   \<Longrightarrow> milestones (trace s') = milestones (trace s)"
  unfolding getTLFCryptKeyParams_def resolver_call_defs
  by (auto split: if_splits sum.splits prod.splits)

lemma unmaskTLFCryptKey_quiet:
  "unmaskTLFCryptKey env i k c s = (r, s') \<Longrightarrow> milestones (trace s') = milestones (trace s)"
  unfolding unmaskTLFCryptKey_def resolver_call_defs
  by (auto split: sum.splits)

lemma KeyCache_GetTLFCryptKey_quiet:
  "KeyCache_GetTLFCryptKey env t g s = (r, s') \<Longrightarrow> milestones (trace s') = milestones (trace s)"
  unfolding KeyCache_GetTLFCryptKey_def by auto

lemma getLatestTLFCryptKey_quiet:
  "getLatestTLFCryptKey env kmd uid username flags s = (r, s')
   \<Longrightarrow> milestones (trace s') = milestones (trace s)"
  unfolding getLatestTLFCryptKey_def Let_def
  by (auto split: if_splits sum.splits prod.splits
      dest!: getTLFCryptKeyParams_quiet unmaskTLFCryptKey_quiet KeyCache_GetTLFCryptKey_quiet)

lemma getHistoricKeyViaLatest_quiet:
  "getHistoricKeyViaLatest env kmd keyGen uid username flags s = (r, s')
   \<Longrightarrow> milestones (trace s') = milestones (trace s)"
  unfolding getHistoricKeyViaLatest_def
  by (auto split: sum.splits prod.splits dest!: getLatestTLFCryptKey_quiet)

lemma getTLFCryptKey_quiet:
  "getTLFCryptKey env kmd keyGen flags s = (r, s')
   \<Longrightarrow> milestones (trace s') = milestones (trace s)"
  unfolding getTLFCryptKey_def Let_def KeyCache_PutTLFCryptKey_def KBPKI_GetCurrentUserInfo_def
  by (auto split: if_splits sum.splits prod.splits option.splits
      dest!: getTLFCryptKeyParams_quiet unmaskTLFCryptKey_quiet KeyCache_GetTLFCryptKey_quiet
             getHistoricKeyViaLatest_quiet)

lemma resolveHandle_quiet:
  "resolveHandle env tlfID handle uid s = (r, s')
   \<Longrightarrow> milestones (trace s') = milestones (trace s)"
  unfolding resolveHandle_def Let_def Handle_ResolveAgain_def Handle_ResolveAgainForUser_def
    MDOps_GetLatestHandleForTLF_def
  by (auto split: if_splits sum.splits prod.splits)

lemma generateKeyMapLoop_quiet:
  "generateKeyMapLoop env users keyMap s = (r, s')
   \<Longrightarrow> milestones (trace s') = milestones (trace s)"
proof (induction env users keyMap s rule: generateKeyMapLoop.induct)
  case (1 env keyMap s)
  then show ?case by simp
next
  case (2 env w users keyMap s)
  then show ?case
    by (auto simp: KBPKI_GetCryptPublicKeys_def split: sum.splits prod.splits)
qed

lemma generateKeyMapForUsers_quiet:
  "generateKeyMapForUsers env users s = (r, s')
   \<Longrightarrow> milestones (trace s') = milestones (trace s)"
  unfolding generateKeyMapForUsers_def by (rule generateKeyMapLoop_quiet)

lemma computeKeyDelta_quiet:
  "computeKeyDelta env md currKeyGen uid wKeys rKeys s = (r, s')
   \<Longrightarrow> milestones (trace s') = milestones (trace s)"
  unfolding computeKeyDelta_def Let_def identifyUIDSets_def
  by (auto split: sum.splits prod.splits option.splits)

lemma promoteReaders_quiet:
  "promoteReaders env us md s = (r, md', s')
   \<Longrightarrow> milestones (trace s') = milestones (trace s)"
proof (induction env us md s rule: promoteReaders.induct)
  case (1 env md s)
  then show ?case by simp
next
  case (2 env u us md s)
  then show ?case by (auto split: prod.splits option.splits)
qed

lemma updateKeyGeneration_quiet:
  "updateKeyGeneration env keyGen wKeys rKeys ePubKey ePrivKey k md s = (r, md', s')
   \<Longrightarrow> milestones (trace s') = milestones (trace s)"
  unfolding updateKeyGeneration_def Let_def
  by (auto split: sum.splits prod.splits)

lemma rewrapLoop_quiet:
  "rewrapLoop env promptPaper wKeys rKeys ePubKey ePrivKey keyGen currKeyGen md s = (r, md', s')
   \<Longrightarrow> milestones (trace s') = milestones (trace s)"
proof (induction env promptPaper wKeys rKeys ePubKey ePrivKey keyGen currKeyGen md s
       rule: rewrapLoop.induct)
  case (1 env promptPaper wKeys rKeys ePubKey ePrivKey keyGen currKeyGen md s)
  show ?case
  proof (cases "keyGen \<le> currKeyGen")
    case False
    with "1.prems" show ?thesis by simp
  next
    case True
    obtain r1 s1 where g: "getTLFCryptKey env md keyGen (rekeyFlags promptPaper) s = (r1, s1)"
      by (metis surj_pair)
    note q1 = getTLFCryptKey_quiet[OF g]
    show ?thesis
    proof (cases r1)
      case (Inl e)
      with True g "1.prems" q1 show ?thesis by simp
    next
      case (Inr key)
      obtain e md1 s2 where u:
        "updateKeyGeneration env keyGen wKeys rKeys ePubKey ePrivKey key md s1 = (e, md1, s2)"
        by (metis surj_pair)
      note q2 = updateKeyGeneration_quiet[OF u]
      show ?thesis
      proof (cases "e = None \<or> e = Some TLFCryptKeyNotPerDeviceEncrypted")
        case False
        with True g Inr u "1.prems" q1 q2 show ?thesis by (auto split: option.splits)
      next
        case again: True
        with True g Inr u "1.prems"
        have rec: "rewrapLoop env promptPaper wKeys rKeys ePubKey ePrivKey (keyGen + 1)
                     currKeyGen md1 s2 = (r, md', s')"
          by (auto split: option.splits)
        have "milestones (trace s') = milestones (trace s2)"
          using again "1.IH" True g Inr u rec by auto
        then show ?thesis using q1 q2 by simp
      qed
    qed
  qed
qed

lemma decryptPrivateMD_quiet:
  "decryptPrivateMD env uid md s = (r, md', s')
   \<Longrightarrow> milestones (trace s') = milestones (trace s)"
  unfolding decryptPrivateMD_def
  by (auto split: if_splits sum.splits)

lemma historicKeysForNewGeneration_quiet:
  "historicKeysForNewGeneration env promptPaper currKeyGen k md s = (r, s')
   \<Longrightarrow> milestones (trace s') = milestones (trace s)"
  unfolding historicKeysForNewGeneration_def
  by (auto split: if_splits sum.splits prod.splits dest!: getTLFCryptKey_quiet)

lemma deleteServerHalfIDs_events:
  "deleteServerHalfIDs env uid key ids s = (err, s') \<Longrightarrow>
   \<exists>evs. trace s' = trace s @ evs \<and> list_all is_delete evs
     \<and> (err = None \<longrightarrow>
          evs = map (\<lambda>i. EvDeleteServerHalf uid (KID_of env key) i None) ids)"
proof (induction env uid key ids s rule: deleteServerHalfIDs.induct)
  case (1 env uid key s)
  then show ?case by simp
next
  case (2 env uid key serverHalfID serverHalfIDs s)
  let ?e = "DeleteTLFCryptKeyServerHalf (keyOps env) (trace s) uid (KID_of env key) serverHalfID"
  let ?s1 = "record_event (EvDeleteServerHalf uid (KID_of env key) serverHalfID ?e) s"
  show ?case
  proof (cases ?e)
    case (Some e)
    with "2.prems" have "err = Some e" "s' = ?s1" by (auto simp add: Let_def)
    then show ?thesis using Some by simp
  next
    case None
    with "2.prems" have rec: "deleteServerHalfIDs env uid key serverHalfIDs ?s1 = (err, s')"
      by (simp add: Let_def)
    from "2.IH"[OF refl refl None rec] obtain evs where
      "trace s' = trace ?s1 @ evs" "list_all is_delete evs"
      "err = None \<longrightarrow> evs = map (\<lambda>i. EvDeleteServerHalf uid (KID_of env key) i None) serverHalfIDs"
      by blast
    then show ?thesis using None
      by (intro exI[of _ "EvDeleteServerHalf uid (KID_of env key) serverHalfID None # evs"]) simp
  qed
qed

lemma deleteDeviceServerHalves_events:
  "deleteDeviceServerHalves env uid devices s = (err, s') \<Longrightarrow>
   \<exists>evs. trace s' = trace s @ evs \<and> list_all is_delete evs
     \<and> (err = None \<longrightarrow>
          evs = concat (map (\<lambda>(key, serverHalfIDs).
                  map (\<lambda>i. EvDeleteServerHalf uid (KID_of env key) i None) serverHalfIDs)
                devices))"
proof (induction env uid devices s rule: deleteDeviceServerHalves.induct)
  case (1 env uid s)
  then show ?case by simp
next
  case (2 env uid key serverHalfIDs devices s)
  obtain e1 s1 where d: "deleteServerHalfIDs env uid key serverHalfIDs s = (e1, s1)"
    by (metis surj_pair)
  from deleteServerHalfIDs_events[OF d] obtain evs1 where
    e1: "trace s1 = trace s @ evs1" "list_all is_delete evs1"
      "e1 = None \<longrightarrow> evs1 = map (\<lambda>i. EvDeleteServerHalf uid (KID_of env key) i None) serverHalfIDs"
    by blast
  show ?case
  proof (cases e1)
    case (Some e)
    with "2.prems" d have "err = Some e" "s' = s1" by simp_all
    with e1 show ?thesis by auto
  next
    case None
    with "2.prems" d have rec: "deleteDeviceServerHalves env uid devices s1 = (err, s')"
      by simp
    from "2.IH"[OF d[symmetric, unfolded None] refl rec] obtain evs where
      "trace s' = trace s1 @ evs" "list_all is_delete evs"
      "err = None \<longrightarrow> evs = concat (map (\<lambda>(key, serverHalfIDs).
                  map (\<lambda>i. EvDeleteServerHalf uid (KID_of env key) i None) serverHalfIDs)
                devices)"
      by blast
    with e1 None show ?thesis
      by (intro exI[of _ "evs1 @ evs"]) simp
  qed
qed

lemma deleteRemovedServerHalves_events:
  "deleteRemovedServerHalves env allRemovalInfo s = (err, s') \<Longrightarrow>
   \<exists>evs. trace s' = trace s @ evs \<and> list_all is_delete evs
     \<and> (err = None \<longrightarrow> evs = removalDeleteEvents env allRemovalInfo)"
proof (induction env allRemovalInfo s rule: deleteRemovedServerHalves.induct)
  case (1 env s)
  then show ?case by (simp add: removalDeleteEvents_def)
next
  case (2 env uid userRemovalInfo allRemovalInfo s)
  obtain e1 s1 where d:
    "deleteDeviceServerHalves env uid (deviceServerHalfIDs userRemovalInfo) s = (e1, s1)"
    by (metis surj_pair)
  from deleteDeviceServerHalves_events[OF d] obtain evs1 where
    e1: "trace s1 = trace s @ evs1" "list_all is_delete evs1"
      "e1 = None \<longrightarrow> evs1 = concat (map (\<lambda>(key, serverHalfIDs).
                  map (\<lambda>i. EvDeleteServerHalf uid (KID_of env key) i None) serverHalfIDs)
                (deviceServerHalfIDs userRemovalInfo))"
    by blast
  show ?case
  proof (cases e1)
    case (Some e)
    with "2.prems" d have "err = Some e" "s' = s1" by simp_all
    with e1 show ?thesis by auto
  next
    case None
    with "2.prems" d have rec: "deleteRemovedServerHalves env allRemovalInfo s1 = (err, s')"
      by simp
    from "2.IH"[OF d[symmetric, unfolded None] refl rec] obtain evs where
      "trace s' = trace s1 @ evs" "list_all is_delete evs"
      "err = None \<longrightarrow> evs = removalDeleteEvents env allRemovalInfo"
      by blast
    with e1 None show ?thesis
      by (intro exI[of _ "evs1 @ evs"]) (simp add: removalDeleteEvents_def)
  qed
qed

lemma milestones_deletes: "list_all is_delete evs \<Longrightarrow> milestones evs = evs"
proof (induction evs)
  case Nil
  then show ?case by simp
next
  case (Cons e evs)
  then show ?case by (cases e) simp_all
qed

lemma revokeAndDelete_milestones:
  assumes "revokeAndDelete env wKeys rKeys md s = (err, md1, s')"
  shows "\<exists>res evs. milestones (trace s') = milestones (trace s) @ EvRevokeRemovedDevices res # evs
           \<and> list_all is_delete evs
           \<and> (err = None \<longrightarrow> (\<exists>info. res = Inr info \<and> evs = removalDeleteEvents env info))"
proof -
  obtain res md2 where r: "revokeRemovedDevices (mdm env) md wKeys rKeys = (res, md2)"
    by (metis surj_pair)
  show ?thesis
  proof (cases res)
    case (Inl e)
    with assms r have "err = Some e" "s' = record_event (EvRevokeRemovedDevices (Inl e)) s"
      by (simp_all add: revokeAndDelete_def)
    then show ?thesis by (intro exI[of _ "Inl e"] exI[of _ "[]"]) simp
  next
    case (Inr info)
    with assms r have d: "deleteRemovedServerHalves env info
                (record_event (EvRevokeRemovedDevices (Inr info)) s) = (err, s')"
      by (simp add: revokeAndDelete_def split: prod.splits)
    from deleteRemovedServerHalves_events[OF d] obtain evs where
      e: "trace s' = trace (record_event (EvRevokeRemovedDevices (Inr info)) s) @ evs"
         "list_all is_delete evs" "err = None \<longrightarrow> evs = removalDeleteEvents env info"
      by blast
    show ?thesis
      using e milestones_deletes[OF e(2)]
      by (intro exI[of _ "Inr info"] exI[of _ evs]) simp
  qed
qed

lemma deletes_no_add_fin:
  "list_all is_delete evs \<Longrightarrow>
     EvAddKeyGeneration x \<notin> set evs \<and> EvFinalizeRekey y \<notin> set evs"
  by (induction evs) auto

lemma removalDeleteEvents_deletes: "list_all is_delete (removalDeleteEvents env info)"
  by (auto simp: removalDeleteEvents_def list_all_iff)

lemma md_AddKeyGeneration_milestones:
  "md_AddKeyGeneration env p c k md s = (err, md1, s1) \<Longrightarrow>
     milestones (trace s1) = milestones (trace s) @ [EvAddKeyGeneration err]"
  by (auto simp: md_AddKeyGeneration_def split: prod.splits)

lemma Crypto_MakeRandomTLFKeys_quiet:
  "Crypto_MakeRandomTLFKeys env s = (r, s1) \<Longrightarrow> milestones (trace s1) = milestones (trace s)"
  by (auto simp: Crypto_MakeRandomTLFKeys_def)

lemma rekeyFinish_milestones:
  assumes run: "rekeyFinish env pp cur isWriter delta nru wK rK eP ePr md s = ((c, ck, e), md1, s1)"
  shows "\<exists>M. milestones (trace s1) = milestones (trace s) @ M
     \<and> (\<forall>y. EvFinalizeRekey y \<notin> set M)
     \<and> (\<forall>x. EvAddKeyGeneration x \<in> set M \<longrightarrow>
            (\<exists>R. M = R @ [EvAddKeyGeneration x] \<and> revocation_milestones env cur R))
     \<and> (\<forall>k. ck = Some k \<longrightarrow> c \<and> e = None \<and> EvAddKeyGeneration None \<in> set M)
     \<and> (e = None \<longrightarrow> c \<and> ((ck \<noteq> None) = incKeyGen delta)
                      \<and> (EvAddKeyGeneration None \<in> set M \<longrightarrow> ck \<noteq> None))"
proof (cases "isWriter \<and> incKeyGen delta")
  case False
  with run have "s1 = s" "ck = None" "e = None \<longrightarrow> c \<and> \<not> incKeyGen delta"
    by (auto simp: rekeyFinish_def split: if_splits)
  then show ?thesis by (intro exI[of _ "[]"]) simp
next
  case True
  let ?s0 = "record_event EvNotify s"
  obtain e1 md2 s2 where rv:
    "(if FirstValidKeyGen env \<le> cur then revokeAndDelete env wK rK md ?s0
      else (None, md, ?s0)) = (e1, md2, s2)"
    by (metis surj_pair)
  have "\<exists>R. milestones (trace s2) = milestones (trace s) @ R
          \<and> (\<forall>x. EvAddKeyGeneration x \<notin> set R) \<and> (\<forall>y. EvFinalizeRekey y \<notin> set R)
          \<and> (e1 = None \<longrightarrow> revocation_milestones env cur R)"
  proof (cases "FirstValidKeyGen env \<le> cur")
    case False
    with rv have "s2 = ?s0" "e1 = None" by simp_all
    then show ?thesis using False
      by (intro exI[of _ "[]"]) (simp add: revocation_milestones_def)
  next
    case fv: True
    with rv have "revokeAndDelete env wK rK md ?s0 = (e1, md2, s2)" by simp
    from revokeAndDelete_milestones[OF this] obtain res evs where
      m: "milestones (trace s2) = milestones (trace ?s0) @ EvRevokeRemovedDevices res # evs"
      and d: "list_all is_delete evs"
      and ok: "e1 = None \<longrightarrow> (\<exists>info. res = Inr info \<and> evs = removalDeleteEvents env info)"
      by blast
    show ?thesis
      using m deletes_no_add_fin[OF d] ok fv
      by (intro exI[of _ "EvRevokeRemovedDevices res # evs"])
         (auto simp: revocation_milestones_def)
  qed
  then obtain R where
    R: "milestones (trace s2) = milestones (trace s) @ R"
    and Rna: "\<forall>x. EvAddKeyGeneration x \<notin> set R" and Rnf: "\<forall>y. EvFinalizeRekey y \<notin> set R"
    and Rok: "e1 = None \<longrightarrow> revocation_milestones env cur R"
    by blast
  show ?thesis
  proof (cases e1)
    case (Some err)
    with run True rv have "s1 = s2" "ck = None" "e = Some err"
      by (auto simp: rekeyFinish_def)
    with R Rna Rnf show ?thesis by (intro exI[of _ R]) simp
  next
    case None
    obtain r3 s3 where mk: "Crypto_MakeRandomTLFKeys env s2 = (r3, s3)" by (metis surj_pair)
    note q3 = Crypto_MakeRandomTLFKeys_quiet[OF mk]
    show ?thesis
    proof (cases r3)
      case (Inl err)
      with run True rv None mk have "s1 = s3" "ck = None" "e = Some err"
        by (auto simp: rekeyFinish_def)
      with R Rna Rnf q3 show ?thesis by (intro exI[of _ R]) simp
    next
      case (Inr keys)
      obtain pubKey privKey tlfCryptKey where keys: "keys = (pubKey, privKey, tlfCryptKey)"
        by (cases keys) auto
      obtain r4 s4 where hk:
        "historicKeysForNewGeneration env pp cur tlfCryptKey md2 s3 = (r4, s4)"
        by (metis surj_pair)
      note q4 = historicKeysForNewGeneration_quiet[OF hk]
      show ?thesis
      proof (cases r4)
        case (Inl err)
        with run True rv None mk Inr keys hk have "s1 = s4" "ck = None" "e = Some err"
          by (auto simp: rekeyFinish_def)
        with R Rna Rnf q3 q4 show ?thesis by (intro exI[of _ R]) simp
      next
        case hist: (Inr pc)
        obtain prevKey currKey where pc: "pc = (prevKey, currKey)" by (cases pc) auto
        obtain e5 md5 s5 where ad:
          "md_AddKeyGeneration env prevKey currKey pubKey md2 s4 = (e5, md5, s5)"
          by (metis surj_pair)
        note q5 = md_AddKeyGeneration_milestones[OF ad]
        have M5: "milestones (trace s5) = milestones (trace s) @ (R @ [EvAddKeyGeneration e5])"
          using R q3 q4 q5 by simp
        show ?thesis
        proof (cases e5)
          case (Some err)
          with run True rv None mk Inr keys hk hist pc ad
          have "s1 = s5" "ck = None" "e = Some err"
            by (auto simp: rekeyFinish_def)
          with M5 Rna Rnf Rok None Some show ?thesis
            by (intro exI[of _ "R @ [EvAddKeyGeneration e5]"]) auto
        next
          case added: None
          obtain e6 md6 s6 where up:
            "updateKeyGeneration env (LatestKeyGeneration (mdm env) md5) wK rK eP ePr
               tlfCryptKey md5 s5 = (e6, md6, s6)"
            by (metis surj_pair)
          note q6 = updateKeyGeneration_quiet[OF up]
          from run True rv None mk Inr keys hk hist pc ad added up
          have res: "s1 = s6" "(e6 = None \<longrightarrow> c \<and> ck = Some tlfCryptKey \<and> e = None)"
               "(e6 \<noteq> None \<longrightarrow> ck = None \<and> e = e6)"
            by (auto simp: rekeyFinish_def split: option.splits)
          show ?thesis
            using M5 q6 res Rna Rnf Rok None added True
            by (intro exI[of _ "R @ [EvAddKeyGeneration e5]"]) auto
        qed
      qed
    qed
  qed
qed

lemma runDeferred_milestones:
  assumes run: "runDeferred env rh ((c, ck, e), md1, s1) = ((c', ck', e'), md', s')"
  shows "\<exists>F. milestones (trace s') = milestones (trace s1) @ F
     \<and> (F = [] \<or> (\<exists>y. F = [EvFinalizeRekey y] \<and> c \<and> isNilOrRekeyIncomplete e))
     \<and> (\<forall>fe. EvFinalizeRekey (Some fe) \<in> set F \<longrightarrow>
            \<not> c' \<and> ck' = None
          \<and> (fe \<noteq> RekeyIncompleteError \<longrightarrow>
                e' = Some fe \<and> finalizeRekey (mdm env) md1 = (Some fe, md')))
     \<and> (e' = None \<longrightarrow> e = None \<and> c' = c \<and> ck' = ck)
     \<and> (ck' \<noteq> None \<longrightarrow> ck' = ck)"
proof (cases "c \<and> isNilOrRekeyIncomplete e")
  case False
  then have df: "deferredFinalize env ((c, ck, e), md1, s1) = ((c, ck, e), md1, s1)"
    by (auto simp: deferredFinalize_def)
  with run have "deferredUpdateHandle env rh ((c, ck, e), md1, s1) = ((c', ck', e'), md', s')"
    by (simp add: runDeferred_def)
  then have "milestones (trace s') = milestones (trace s1)" "ck' = ck" "c' = c"
      "e' = None \<longrightarrow> e = None"
    by (auto simp: deferredUpdateHandle_def md_updateFromTlfHandle_def
        split: if_splits prod.splits option.splits)
  then show ?thesis by (intro exI[of _ "[]"]) simp
next
  case True
  obtain y md2 where fin: "finalizeRekey (mdm env) md1 = (y, md2)" by (metis surj_pair)
  let ?s2 = "record_event (EvFinalizeRekey y) s1"
  show ?thesis
  proof (cases y)
    case None
    with True fin have df: "deferredFinalize env ((c, ck, e), md1, s1) = ((c, ck, e), md2, ?s2)"
      by (auto simp: deferredFinalize_def md_finalizeRekey_def)
    with run have "deferredUpdateHandle env rh ((c, ck, e), md2, ?s2) = ((c', ck', e'), md', s')"
      by (simp add: runDeferred_def)
    then have "milestones (trace s') = milestones (trace ?s2)" "ck' = ck" "c' = c"
        "e' = None \<longrightarrow> e = None"
      by (auto simp: deferredUpdateHandle_def md_updateFromTlfHandle_def
          split: if_splits prod.splits option.splits)
    then show ?thesis using None True
      by (intro exI[of _ "[EvFinalizeRekey y]"]) simp
  next
    case (Some fe)
    with True fin have df:
      "deferredFinalize env ((c, ck, e), md1, s1) = ((False, None, Some fe), md2, ?s2)"
      by (auto simp: deferredFinalize_def md_finalizeRekey_def)
    with run have du:
      "deferredUpdateHandle env rh ((False, None, Some fe), md2, ?s2) = ((c', ck', e'), md', s')"
      by (simp add: runDeferred_def)
    then have "milestones (trace s') = milestones (trace ?s2)" "ck' = None" "\<not> c'"
        "e' \<noteq> None" "fe \<noteq> RekeyIncompleteError \<longrightarrow> e' = Some fe \<and> md' = md2"
      by (auto simp: deferredUpdateHandle_def md_updateFromTlfHandle_def
          isNilOrRekeyIncomplete_def
          split: if_splits prod.splits option.splits)
    then show ?thesis using Some True fin
      by (intro exI[of _ "[EvFinalizeRekey y]"]) auto
  qed
qed

lemma Crypto_MakeRandomTLFEphemeralKeys_quiet:
  "Crypto_MakeRandomTLFEphemeralKeys env s = (r, s1)
   \<Longrightarrow> milestones (trace s1) = milestones (trace s)"
  by (auto simp: Crypto_MakeRandomTLFEphemeralKeys_def)

lemma rekeyPrivate_cases:
  assumes run: "rekeyPrivate env pp cur username uid isWriter hc rh md s = ((c, ck, e), md', s')"
  shows "(milestones (trace s') = milestones (trace s) \<and> ck = None \<and> \<not> c
          \<and> (e = None \<longrightarrow> \<not> c
               \<and> (\<exists>wKeys s1 rKeys s2 delta s3.
                    generateKeyMapForUsers env (ResolvedWriters (handles env) rh) s
                      = (Inr wKeys, s1)
                  \<and> generateKeyMapForUsers env (ResolvedReaders (handles env) rh) s1
                      = (Inr rKeys, s2)
                  \<and> (if cur < FirstValidKeyGen env then (Inr firstKeyGenDelta, s2)
                      else computeKeyDelta env md cur uid wKeys rKeys s2) = (Inr delta, s3)
                  \<and> \<not> incKeyGen delta \<and> md' = md \<and> s' = s3)))
       \<or> (\<exists>wKeys s1 rKeys s2 delta s3 wK1 rK1 nru eP ePr md3 s7.
             generateKeyMapForUsers env (ResolvedWriters (handles env) rh) s = (Inr wKeys, s1)
           \<and> generateKeyMapForUsers env (ResolvedReaders (handles env) rh) s1 = (Inr rKeys, s2)
           \<and> (if cur < FirstValidKeyGen env then (Inr firstKeyGenDelta, s2)
               else computeKeyDelta env md cur uid wKeys rKeys s2) = (Inr delta, s3)
           \<and> readerScope isWriter uid delta wKeys rKeys = Inr (wK1, rK1, nru)
           \<and> milestones (trace s7) = milestones (trace s)
           \<and> runDeferred env rh
                (rekeyFinish env pp cur isWriter delta nru wK1 rK1 eP ePr md3 s7)
               = ((c, ck, e), md', s'))"
proof (cases "\<not> isWriter \<and> cur < FirstValidKeyGen env")
  case True
  with run show ?thesis by (auto simp: rekeyPrivate_def)
next
  case notfirst: False
  obtain rw s1 where gw:
    "generateKeyMapForUsers env (ResolvedWriters (handles env) rh) s = (rw, s1)"
    by (metis surj_pair)
  note q1 = generateKeyMapForUsers_quiet[OF gw]
  show ?thesis
  proof (cases rw)
    case (Inl err)
    with run notfirst gw q1 show ?thesis by (auto simp: rekeyPrivate_def)
  next
    case wk: (Inr wKeys)
    obtain rr s2 where gr:
      "generateKeyMapForUsers env (ResolvedReaders (handles env) rh) s1 = (rr, s2)"
      by (metis surj_pair)
    note q2 = generateKeyMapForUsers_quiet[OF gr]
    show ?thesis
    proof (cases rr)
      case (Inl err)
      with run notfirst gw wk gr q1 q2 show ?thesis by (auto simp: rekeyPrivate_def)
    next
      case rk: (Inr rKeys)
      obtain rd s3 where cd:
        "(if cur < FirstValidKeyGen env then (Inr firstKeyGenDelta, s2)
          else computeKeyDelta env md cur uid wKeys rKeys s2) = (rd, s3)"
        by (metis surj_pair)
      have q3: "milestones (trace s3) = milestones (trace s2)"
      proof (cases "cur < FirstValidKeyGen env")
        case True
        with cd show ?thesis by simp
      next
        case False
        with cd have "computeKeyDelta env md cur uid wKeys rKeys s2 = (rd, s3)"
          by (simp only: if_False)
        then show ?thesis by (rule computeKeyDelta_quiet)
      qed
      show ?thesis
      proof (cases rd)
        case (Inl err)
        with run notfirst gw wk gr rk cd q1 q2 q3 show ?thesis
          by (auto simp: rekeyPrivate_def)
      next
        case dl: (Inr delta)
        show ?thesis
        proof (cases "\<not> addNewReaderDevice delta \<and> \<not> addNewWriterDevice delta
                \<and> \<not> incKeyGen delta \<and> \<not> hc")
          case True
          with run notfirst gw wk gr rk cd dl
          have "s' = s3" "ck = None" "e = None" "\<not> c" "md' = md"
            by (auto simp: rekeyPrivate_def)
          with q1 q2 q3 gw wk gr rk cd dl True show ?thesis by auto
        next
          case work: False
          show ?thesis
          proof (cases "readerScope isWriter uid delta wKeys rKeys")
            case (Inl err)
            with run notfirst gw wk gr rk cd dl work
            have "s' = s3" "ck = None" "e = Some err" "\<not> c"
              by (auto simp: rekeyPrivate_def)
            with q1 q2 q3 show ?thesis by auto
          next
            case sc: (Inr scope)
            obtain wK1 rK1 nru where scope: "scope = (wK1, rK1, nru)" by (cases scope) auto
            obtain eP ePr s4 where ek:
              "Crypto_MakeRandomTLFEphemeralKeys env s3 = ((eP, ePr), s4)"
              by (metis surj_pair)
            note q4 = Crypto_MakeRandomTLFEphemeralKeys_quiet[OF ek]
            obtain e5 md5 s5 where pr:
              "promoteReaders env (promotedReaders delta) md s4 = (e5, md5, s5)"
              by (metis surj_pair)
            note q5 = promoteReaders_quiet[OF pr]
            show ?thesis
            proof (cases e5)
              case (Some err)
              with run notfirst gw wk gr rk cd dl work sc scope ek pr
              have "s' = s5" "ck = None" "e = Some err" "\<not> c"
                by (auto simp: rekeyPrivate_def)
              with q1 q2 q3 q4 q5 show ?thesis by auto
            next
              case p5: None
              obtain e6 md6 s6 where rw6:
                "(if addNewReaderDevice delta \<or> addNewWriterDevice delta
                  then rewrapLoop env pp wK1 rK1 eP ePr (FirstValidKeyGen env) cur md5 s5
                  else (None, md5, s5)) = (e6, md6, s6)"
                by (metis surj_pair)
              have q6: "milestones (trace s6) = milestones (trace s5)"
              proof (cases "addNewReaderDevice delta \<or> addNewWriterDevice delta")
                case True
                with rw6 have "rewrapLoop env pp wK1 rK1 eP ePr (FirstValidKeyGen env) cur
                                 md5 s5 = (e6, md6, s6)"
                  by (simp only: if_True)
                then show ?thesis by (rule rewrapLoop_quiet)
              next
                case False
                with rw6 show ?thesis by simp
              qed
              show ?thesis
              proof (cases e6)
                case (Some err)
                with run notfirst gw wk gr rk cd dl work sc scope ek pr p5 rw6
                have "s' = s6" "ck = None" "e = Some err" "\<not> c"
                  by (auto simp: rekeyPrivate_def)
                with q1 q2 q3 q4 q5 q6 show ?thesis by auto
              next
                case p6: None
                obtain e7 md7 s7 where dc: "decryptPrivateMD env uid md6 s6 = (e7, md7, s7)"
                  by (metis surj_pair)
                note q7 = decryptPrivateMD_quiet[OF dc]
                show ?thesis
                proof (cases e7)
                  case (Some err)
                  with run notfirst gw wk gr rk cd dl work sc scope ek pr p5 rw6 p6 dc
                  have "s' = s7" "ck = None" "e = Some err" "\<not> c"
                    by (auto simp: rekeyPrivate_def)
                  with q1 q2 q3 q4 q5 q6 q7 show ?thesis by auto
                next
                  case p7: None
                  with run notfirst gw wk gr rk cd dl work sc scope ek pr p5 rw6 p6 dc
                  have fin: "runDeferred env rh
                      (rekeyFinish env pp cur isWriter delta nru wK1 rK1 eP ePr md7 s7)
                       = ((c, ck, e), md', s')"
                    by (auto simp: rekeyPrivate_def)
                  have "milestones (trace s7) = milestones (trace s)"
                    using q1 q2 q3 q4 q5 q6 q7 by simp
                  with fin gw wk gr rk cd dl sc scope show ?thesis by blast
                qed
              qed
            qed
          qed
        qed
      qed
    qed
  qed
qed

lemma KBPKI_GetCurrentUserInfo_quiet:
  "KBPKI_GetCurrentUserInfo env s = (r, s1) \<Longrightarrow> milestones (trace s1) = milestones (trace s)"
  by (auto simp: KBPKI_GetCurrentUserInfo_def)

lemma rekeyPublic_quiet:
  "rekeyPublic env hc rh md s = ((c, ck, e), md', s')
   \<Longrightarrow> milestones (trace s') = milestones (trace s) \<and> ck = None"
  by (auto simp: rekeyPublic_def md_updateFromTlfHandle_def split: if_splits prod.splits)

lemma Rekey_cases:
  assumes run: "Rekey env md pp s = ((c, ck, e), md', s')"
  shows "(milestones (trace s') = milestones (trace s) \<and> ck = None)
       \<or> (\<exists>isWriter delta nru wK1 rK1 eP ePr md3 s7 rh.
             milestones (trace s7) = milestones (trace s)
           \<and> runDeferred env rh
                (rekeyFinish env pp (LatestKeyGeneration (mdm env) md) isWriter delta nru
                   wK1 rK1 eP ePr md3 s7)
               = ((c, ck, e), md', s'))"
proof -
  let ?cur = "LatestKeyGeneration (mdm env) md"
  let ?tlf = "TlfID_of (mdm env) md"
  show ?thesis
  proof (cases "IsPublic ?tlf \<noteq> (?cur = PublicKeyGen env) \<or> (pp \<and> IsPublic ?tlf)")
    case True
    with run show ?thesis by (auto simp: Rekey_def Let_def split: if_splits)
  next
    case pre: False
    obtain ru s1 where u: "KBPKI_GetCurrentUserInfo env s = (ru, s1)" by (metis surj_pair)
    note q1 = KBPKI_GetCurrentUserInfo_quiet[OF u]
    show ?thesis
    proof (cases ru)
      case (Inl err)
      with run pre u q1 show ?thesis by (auto simp: Rekey_def Let_def)
    next
      case usr: (Inr nu)
      obtain username uid where nu: "nu = (username, uid)" by (cases nu) auto
      obtain rh0 s2 where h:
        "resolveHandle env ?tlf (GetTlfHandle (mdm env) md) uid s1 = (rh0, s2)"
        by (metis surj_pair)
      note q2 = resolveHandle_quiet[OF h]
      show ?thesis
      proof (cases rh0)
        case (Inl err)
        with run pre u usr nu h q1 q2 show ?thesis by (auto simp: Rekey_def Let_def)
      next
        case hd: (Inr t)
        obtain isWriter hc rh where t: "t = (isWriter, hc, rh)" by (cases t) auto
        show ?thesis
        proof (cases "IsPublic ?tlf")
          case True
          with run pre u usr nu h hd t
          have "rekeyPublic env hc rh md s2 = ((c, ck, e), md', s')"
            by (auto simp: Rekey_def Let_def)
          from rekeyPublic_quiet[OF this] q1 q2 show ?thesis by simp
        next
          case False
          with run pre u usr nu h hd t
          have rp: "rekeyPrivate env pp ?cur username uid isWriter hc rh md s2
                      = ((c, ck, e), md', s')"
            by (auto simp: Rekey_def Let_def)
          from rekeyPrivate_cases[OF rp] q1 q2 show ?thesis
            by (elim disjE exE conjE) (simp, metis)
        qed
      qed
    qed
  qed
qed

lemma set_milestones: "set (milestones tr) = {ev \<in> set tr. milestone ev}"
  by (simp add: milestones_def)

lemma Rekey_milestones:
  assumes run: "Rekey env md pp s = ((c, ck, e), md', s')"
  shows "\<exists>M. milestones (trace s') = milestones (trace s) @ M
     \<and> (\<forall>x. EvAddKeyGeneration x \<in> set M \<longrightarrow>
           (\<exists>R F. M = R @ [EvAddKeyGeneration x] @ F
              \<and> (F = [] \<or> (\<exists>y. F = [EvFinalizeRekey y]))
              \<and> revocation_milestones env (LatestKeyGeneration (mdm env) md) R))
     \<and> (\<forall>fe. EvFinalizeRekey (Some fe) \<in> set M \<longrightarrow>
           \<not> c \<and> ck = None
         \<and> (fe \<noteq> RekeyIncompleteError \<longrightarrow>
               e = Some fe \<and> (\<exists>mdBody. finalizeRekey (mdm env) mdBody = (Some fe, md'))))"
proof -
  from Rekey_cases[OF run] show ?thesis
  proof
    assume "milestones (trace s') = milestones (trace s) \<and> ck = None"
    then show ?thesis by (intro exI[of _ "[]"]) simp
  next
    assume "\<exists>isWriter delta nru wK1 rK1 eP ePr md3 s7 rh.
             milestones (trace s7) = milestones (trace s)
           \<and> runDeferred env rh
                (rekeyFinish env pp (LatestKeyGeneration (mdm env) md) isWriter delta nru
                   wK1 rK1 eP ePr md3 s7)
               = ((c, ck, e), md', s')"
    then obtain isWriter delta nru wK1 rK1 eP ePr md3 s7 rh where
      q: "milestones (trace s7) = milestones (trace s)"
      and rd: "runDeferred env rh
                (rekeyFinish env pp (LatestKeyGeneration (mdm env) md) isWriter delta nru
                   wK1 rK1 eP ePr md3 s7)
               = ((c, ck, e), md', s')"
      by blast
    obtain c0 ck0 e0 md0 s0 where
      rf: "rekeyFinish env pp (LatestKeyGeneration (mdm env) md) isWriter delta nru
             wK1 rK1 eP ePr md3 s7 = ((c0, ck0, e0), md0, s0)"
      by (metis surj_pair)
    from rekeyFinish_milestones[OF rf] obtain M0 where
      m0: "milestones (trace s0) = milestones (trace s7) @ M0"
      and nofin: "\<forall>y. EvFinalizeRekey y \<notin> set M0"
      and add: "\<forall>x. EvAddKeyGeneration x \<in> set M0 \<longrightarrow>
            (\<exists>R. M0 = R @ [EvAddKeyGeneration x]
               \<and> revocation_milestones env (LatestKeyGeneration (mdm env) md) R)"
      by blast
    from runDeferred_milestones[OF rd[unfolded rf]] obtain F where
      f: "milestones (trace s') = milestones (trace s0) @ F"
      and fshape: "F = [] \<or> (\<exists>y. F = [EvFinalizeRekey y] \<and> c0 \<and> isNilOrRekeyIncomplete e0)"
      and ffail: "\<forall>fe. EvFinalizeRekey (Some fe) \<in> set F \<longrightarrow>
            \<not> c \<and> ck = None
          \<and> (fe \<noteq> RekeyIncompleteError \<longrightarrow>
                e = Some fe \<and> finalizeRekey (mdm env) md0 = (Some fe, md'))"
      by blast
    have tot: "milestones (trace s') = milestones (trace s) @ (M0 @ F)"
      using q m0 f by simp
    have a: "\<forall>x. EvAddKeyGeneration x \<in> set (M0 @ F) \<longrightarrow>
           (\<exists>R F'. M0 @ F = R @ [EvAddKeyGeneration x] @ F'
              \<and> (F' = [] \<or> (\<exists>y. F' = [EvFinalizeRekey y]))
              \<and> revocation_milestones env (LatestKeyGeneration (mdm env) md) R)"
    proof (intro allI impI)
      fix x assume "EvAddKeyGeneration x \<in> set (M0 @ F)"
      with fshape have "EvAddKeyGeneration x \<in> set M0" by auto
      with add obtain R where "M0 = R @ [EvAddKeyGeneration x]"
        "revocation_milestones env (LatestKeyGeneration (mdm env) md) R" by blast
      with fshape show "\<exists>R F'. M0 @ F = R @ [EvAddKeyGeneration x] @ F'
              \<and> (F' = [] \<or> (\<exists>y. F' = [EvFinalizeRekey y]))
              \<and> revocation_milestones env (LatestKeyGeneration (mdm env) md) R"
        by (intro exI[of _ R] exI[of _ F]) auto
    qed
    have b: "\<forall>fe. EvFinalizeRekey (Some fe) \<in> set (M0 @ F) \<longrightarrow>
           \<not> c \<and> ck = None
         \<and> (fe \<noteq> RekeyIncompleteError \<longrightarrow>
               e = Some fe \<and> (\<exists>mdBody. finalizeRekey (mdm env) mdBody = (Some fe, md')))"
      using nofin ffail by auto
    from tot a b show ?thesis by blast
  qed
qed

lemma usersWithRemovedDevices_mem:
  "(u \<in> set (usersWithRemovedDevices env keyInfoMap expectedKeys))
     = (\<exists>keyInfos. (u, keyInfos) \<in> set keyInfoMap
          \<and> (map_of expectedKeys u = None
             \<or> (\<exists>keys key info. map_of expectedKeys u = Some keys
                   \<and> (key, info) \<in> set keyInfos
                   \<and> KID_of env key \<notin> KID_of env ` set keys)))"
proof (induction keyInfoMap)
  case Nil
  show ?case by simp
next
  case (Cons p keyInfoMap)
  let ?gone = "\<lambda>keyInfos. map_of expectedKeys u = None
             \<or> (\<exists>keys key info. map_of expectedKeys u = Some keys
                   \<and> (key, info) \<in> set keyInfos
                   \<and> KID_of env key \<notin> KID_of env ` set keys)"
  obtain v infos where p: "p = (v, infos)" by (cases p)
  from Cons have IH: "(u \<in> set (usersWithRemovedDevices env keyInfoMap expectedKeys))
     = (\<exists>keyInfos. (u, keyInfos) \<in> set keyInfoMap \<and> ?gone keyInfos)" .
  have rhs: "(\<exists>keyInfos. (u, keyInfos) \<in> set (p # keyInfoMap) \<and> ?gone keyInfos)
       = ((u = v \<and> ?gone infos) \<or> (\<exists>keyInfos. (u, keyInfos) \<in> set keyInfoMap \<and> ?gone keyInfos))"
    unfolding p by (simp only: set_simps insert_iff prod.inject) blast
  have lhs: "(u \<in> set (usersWithRemovedDevices env (p # keyInfoMap) expectedKeys))
       = ((u = v \<and> ?gone infos) \<or> u \<in> set (usersWithRemovedDevices env keyInfoMap expectedKeys))"
  proof (cases "map_of expectedKeys v")
    case None
    then show ?thesis unfolding p by auto
  next
    case (Some keys)
    have ex: "list_ex (\<lambda>(key, info). KID_of env key \<notin> KID_of env ` set keys) infos
              = (\<exists>key info. (key, info) \<in> set infos \<and> KID_of env key \<notin> KID_of env ` set keys)"
      by (auto simp: list_ex_iff)
    let ?E = "\<exists>key info. (key, info) \<in> set infos \<and> KID_of env key \<notin> KID_of env ` set keys"
    have step: "usersWithRemovedDevices env ((v, infos) # keyInfoMap) expectedKeys
                  = (if ?E then List.insert v (usersWithRemovedDevices env keyInfoMap expectedKeys)
                     else usersWithRemovedDevices env keyInfoMap expectedKeys)"
      using Some by (simp add: Let_def ex)
    show ?thesis
    proof (cases "u = v")
      case False
      then show ?thesis unfolding p step by simp
    next
      case True
      show ?thesis
      proof (cases ?E)
        case E: True
        have g: "?gone infos" unfolding True using Some E by blast
        have L: "u \<in> set (usersWithRemovedDevices env ((v, infos) # keyInfoMap) expectedKeys)"
          unfolding step True by (simp only: E if_True List.set_insert insertI1)
        show ?thesis unfolding p using L g True by blast
      next
        case E: False
        have ng: "\<not> ?gone infos" unfolding True using Some E by simp
        have L: "usersWithRemovedDevices env ((v, infos) # keyInfoMap) expectedKeys
                   = usersWithRemovedDevices env keyInfoMap expectedKeys"
          unfolding step by (simp only: E if_False)
        show ?thesis unfolding p L using ng by blast
      qed
    qed
  qed
  show ?case unfolding lhs rhs IH ..
qed

lemma usersWithRemovedDevices_nonempty:
  "(usersWithRemovedDevices env keyInfoMap expectedKeys \<noteq> [])
     = (\<exists>u keyInfos. (u, keyInfos) \<in> set keyInfoMap
          \<and> (map_of expectedKeys u = None
             \<or> (\<exists>keys key info. map_of expectedKeys u = Some keys
                   \<and> (key, info) \<in> set keyInfos
                   \<and> KID_of env key \<notin> KID_of env ` set keys)))"
proof -
  have "(usersWithRemovedDevices env keyInfoMap expectedKeys \<noteq> [])
          = (\<exists>u. u \<in> set (usersWithRemovedDevices env keyInfoMap expectedKeys))"
    by (cases "usersWithRemovedDevices env keyInfoMap expectedKeys") auto
  then show ?thesis unfolding usersWithRemovedDevices_mem by simp
qed

lemma rekeyFinish_add_needs_writer:
  assumes run: "rekeyFinish env pp cur isWriter delta nru wK rK eP ePr md s = ((c, ck, e), md1, s1)"
    and ms: "milestones (trace s1) = milestones (trace s) @ M"
  shows "(ck \<noteq> None \<or> M \<noteq> []) \<longrightarrow> isWriter \<and> incKeyGen delta"
proof (cases "isWriter \<and> incKeyGen delta")
  case True
  then show ?thesis by simp
next
  case False
  with run have "s1 = s" "ck = None"
    by (auto simp: rekeyFinish_def split: if_splits)
  with ms show ?thesis by simp
qed

lemma computeKeyDelta_incKeyGen:
  assumes "computeKeyDelta env md cur uid wKeys rKeys s = (Inr delta, s')"
    and "getUserDeviceKeyInfoMaps (mdm env) md cur = Inr (rDkim, wDkim)"
  shows "incKeyGen delta
           = (usersWithRemovedDevices env wDkim wKeys \<noteq> []
              \<or> usersWithRemovedDevices env rDkim rKeys \<noteq> [])"
  using assms
  unfolding computeKeyDelta_def Let_def
  by (auto split: prod.splits option.splits)

lemma rekeyFinish_changed_incomplete:
  assumes run: "rekeyFinish env pp cur isWriter delta nru wK rK eP ePr md s
                  = ((True, ck, Some RekeyIncompleteError), md1, s1)"
  shows "\<not> isWriter \<and> addNewReaderDeviceForSelf delta"
proof (cases isWriter)
  case False
  with run show ?thesis by (auto simp: rekeyFinish_def split: if_splits)
next
  case True
  show ?thesis
  proof (cases "incKeyGen delta")
    case False
    with True run show ?thesis by (auto simp: rekeyFinish_def)
  next
    case inc: True
    from run True inc have False
      unfolding rekeyFinish_def
      by (simp split: prod.splits option.splits sum.splits if_splits)
    then show ?thesis ..
  qed
qed

lemma computeKeyDelta_self:
  assumes "computeKeyDelta env md cur uid wKeys rKeys s = (Inr delta, s')"
    and "getUserDeviceKeyInfoMaps (mdm env) md cur = Inr (rDkim, wDkim)"
  shows "addNewReaderDeviceForSelf delta = (uid \<in> set (usersWithNewDevices rDkim rKeys))"
  using assms
  unfolding computeKeyDelta_def Let_def
  by (auto split: prod.splits option.splits)

lemma resolveHandle_isWriter:
  assumes "resolveHandle env tlfID handle uid s = (Inr (isWriter, hc, rh), s')"
    and "Handle_ResolveAgain env handle s = (Inr reresolved, s1)"
  shows "isWriter = IsWriter (handles env) reresolved uid"
  using assms unfolding resolveHandle_def Let_def
  by (auto split: if_splits sum.splits prod.splits)

lemma md_mutations_append [simp]:
  "md_mutations (xs @ ys) = md_mutations xs @ md_mutations ys"
  by (simp add: md_mutations_def)

lemma md_mutations_Cons [simp]:
  "md_mutations (ev # tr) = (if md_mutation ev then ev # md_mutations tr else md_mutations tr)"
  by (simp add: md_mutations_def)

lemma md_mutations_Nil [simp]: "md_mutations [] = []"
  by (simp add: md_mutations_def)

lemma KBPKI_GetCurrentUserInfo_no_mutation:
  "KBPKI_GetCurrentUserInfo env s = (r, s1) \<Longrightarrow> md_mutations (trace s1) = md_mutations (trace s)"
  by (auto simp: KBPKI_GetCurrentUserInfo_def)

lemma resolveHandle_no_mutation:
  "resolveHandle env tlfID handle uid s = (r, s')
   \<Longrightarrow> md_mutations (trace s') = md_mutations (trace s)"
  unfolding resolveHandle_def Let_def Handle_ResolveAgain_def Handle_ResolveAgainForUser_def
    MDOps_GetLatestHandleForTLF_def
  by (auto split: if_splits sum.splits prod.splits)

lemma generateKeyMapLoop_no_mutation:
  "generateKeyMapLoop env users keyMap s = (r, s')
   \<Longrightarrow> md_mutations (trace s') = md_mutations (trace s)"
proof (induction env users keyMap s rule: generateKeyMapLoop.induct)
  case (1 env keyMap s)
  then show ?case by simp
next
  case (2 env w users keyMap s)
  then show ?case
    by (auto simp: KBPKI_GetCryptPublicKeys_def split: sum.splits prod.splits)
qed

lemma generateKeyMapForUsers_no_mutation:
  "generateKeyMapForUsers env users s = (r, s')
   \<Longrightarrow> md_mutations (trace s') = md_mutations (trace s)"
  unfolding generateKeyMapForUsers_def by (rule generateKeyMapLoop_no_mutation)

lemma computeKeyDelta_no_mutation:
  "computeKeyDelta env md currKeyGen uid wKeys rKeys s = (r, s')
   \<Longrightarrow> md_mutations (trace s') = md_mutations (trace s)"
  unfolding computeKeyDelta_def Let_def identifyUIDSets_def
  by (auto split: sum.splits prod.splits option.splits)

lemma updateKeyGeneration_error:
  assumes "updateKeyGeneration env g wK rK eP ePr k md s = (Some err, md1, s1)"
    and "RekeyIncomplete_not_from_metadata env"
  shows "err \<noteq> RekeyIncompleteError"
proof -
  obtain r md2 where u: "md_updateKeyGeneration (mdm env) md g wK rK eP ePr k = (r, md2)"
    by (metis surj_pair)
  from assms(2) have a: "fst (md_updateKeyGeneration (mdm env) md g wK rK eP ePr k)
            \<noteq> Inl RekeyIncompleteError"
    and b: "\<And>h halves. PutTLFCryptKeyServerHalves (keyOps env) h halves
          \<noteq> Some RekeyIncompleteError"
    by (simp_all add: RekeyIncomplete_not_from_metadata_def)
  show ?thesis
    using assms(1) u a b[of "trace (record_event (EvUpdateKeyGeneration g None) s)"]
    by (cases r) (auto simp: updateKeyGeneration_def Let_def)
qed

lemma rekeyFinish_in_domain:
  assumes run: "rekeyFinish env pp cur isWriter delta nru wK rK eP ePr md s = ((c, ck, e), md1, s1)"
    and hyp: "RekeyIncomplete_not_from_metadata env"
    and dom: "isNilOrRekeyIncomplete e"
    and ms: "milestones (trace s1) = milestones (trace s) @ M"
  shows "((ck \<noteq> None) = (EvAddKeyGeneration None \<in> set M))
       \<and> (\<forall>k. ck = Some k \<longrightarrow>
             (\<exists>h pubKey privKey. MakeRandomTLFKeys (crypto env) h = Inr (pubKey, privKey, k)))"
proof (cases "isWriter \<and> incKeyGen delta")
  case False
  with run have "s1 = s" "ck = None"
    by (auto simp: rekeyFinish_def split: if_splits)
  with ms show ?thesis by simp
next
  case True
  let ?s0 = "record_event EvNotify s"
  obtain e1 md2 s2 where rv:
    "(if FirstValidKeyGen env \<le> cur then revokeAndDelete env wK rK md ?s0
      else (None, md, ?s0)) = (e1, md2, s2)"
    by (metis surj_pair)
  have "\<exists>R. milestones (trace s2) = milestones (trace s) @ R
          \<and> (\<forall>x. EvAddKeyGeneration x \<notin> set R)"
  proof (cases "FirstValidKeyGen env \<le> cur")
    case False
    with rv have "s2 = ?s0" by simp
    then show ?thesis by (intro exI[of _ "[]"]) simp
  next
    case fv: True
    with rv have "revokeAndDelete env wK rK md ?s0 = (e1, md2, s2)" by simp
    from revokeAndDelete_milestones[OF this] obtain res evs where
      m: "milestones (trace s2) = milestones (trace ?s0) @ EvRevokeRemovedDevices res # evs"
      and d: "list_all is_delete evs"
      by blast
    show ?thesis
      using m deletes_no_add_fin[OF d]
      by (intro exI[of _ "EvRevokeRemovedDevices res # evs"]) auto
  qed
  then obtain R where
    R: "milestones (trace s2) = milestones (trace s) @ R"
    and Rna: "\<forall>x. EvAddKeyGeneration x \<notin> set R"
    by blast
  show ?thesis
  proof (cases e1)
    case (Some err)
    with run True rv have "s1 = s2" "ck = None"
      by (auto simp: rekeyFinish_def)
    with R Rna ms show ?thesis by simp
  next
    case None
    obtain r3 s3 where mk: "Crypto_MakeRandomTLFKeys env s2 = (r3, s3)" by (metis surj_pair)
    note q3 = Crypto_MakeRandomTLFKeys_quiet[OF mk]
    show ?thesis
    proof (cases r3)
      case (Inl err)
      with run True rv None mk have "s1 = s3" "ck = None"
        by (auto simp: rekeyFinish_def)
      with R Rna q3 ms show ?thesis by simp
    next
      case (Inr keys)
      obtain pubKey privKey tlfCryptKey where keys: "keys = (pubKey, privKey, tlfCryptKey)"
        by (cases keys) auto
      from mk Inr keys have prov:
        "MakeRandomTLFKeys (crypto env) (trace s2) = Inr (pubKey, privKey, tlfCryptKey)"
        by (simp add: Crypto_MakeRandomTLFKeys_def)
      obtain r4 s4 where hk:
        "historicKeysForNewGeneration env pp cur tlfCryptKey md2 s3 = (r4, s4)"
        by (metis surj_pair)
      note q4 = historicKeysForNewGeneration_quiet[OF hk]
      show ?thesis
      proof (cases r4)
        case (Inl err)
        with run True rv None mk Inr keys hk have "s1 = s4" "ck = None"
          by (auto simp: rekeyFinish_def)
        with R Rna q3 q4 ms show ?thesis by simp
      next
        case hist: (Inr pc)
        obtain prevKey currKey where pc: "pc = (prevKey, currKey)" by (cases pc) auto
        obtain e5 md5 s5 where ad:
          "md_AddKeyGeneration env prevKey currKey pubKey md2 s4 = (e5, md5, s5)"
          by (metis surj_pair)
        note q5 = md_AddKeyGeneration_milestones[OF ad]
        have M5: "milestones (trace s5) = milestones (trace s) @ (R @ [EvAddKeyGeneration e5])"
          using R q3 q4 q5 by simp
        show ?thesis
        proof (cases e5)
          case (Some err)
          with run True rv None mk Inr keys hk hist pc ad
          have "s1 = s5" "ck = None"
            by (auto simp: rekeyFinish_def)
          with M5 Rna Some ms show ?thesis by auto
        next
          case added: None
          obtain e6 md6 s6 where up:
            "updateKeyGeneration env (LatestKeyGeneration (mdm env) md5) wK rK eP ePr
               tlfCryptKey md5 s5 = (e6, md6, s6)"
            by (metis surj_pair)
          note q6 = updateKeyGeneration_quiet[OF up]
          from run True rv None mk Inr keys hk hist pc ad added up
          have res: "s1 = s6" "(e6 = None \<longrightarrow> ck = Some tlfCryptKey)"
               "(e6 \<noteq> None \<longrightarrow> ck = None \<and> e = e6)"
            by (auto simp: rekeyFinish_def split: option.splits)
          have "e6 = None"
          proof (rule ccontr)
            assume "e6 \<noteq> None"
            then obtain err where err: "e6 = Some err" by auto
            from updateKeyGeneration_error[OF up[unfolded err] hyp]
            have "err \<noteq> RekeyIncompleteError" .
            with res err dom show False by (simp add: isNilOrRekeyIncomplete_def)
          qed
          with res have ck: "ck = Some tlfCryptKey" by simp
          have "M = R @ [EvAddKeyGeneration None]"
            using M5 q6 res ms added by simp
          with ck prov show ?thesis by auto
        qed
      qed
    qed
  qed
qed

lemma runDeferred_in_domain:
  assumes run: "runDeferred env rh ((c, ck, e), md1, s1) = ((c', ck', e'), md', s')"
    and dom: "isNilOrRekeyIncomplete e'"
  shows "(RekeyIncomplete_not_from_metadata env \<longrightarrow> c' = c \<and> ck' = ck \<and> e' = e)
       \<and> (c' \<longrightarrow> milestones (trace s') = milestones (trace s1) @ [EvFinalizeRekey None])"
proof -
  have h1: "x \<noteq> Some RekeyIncompleteError"
    if "RekeyIncomplete_not_from_metadata env" "updateFromTlfHandle (mdm env) md h = (x, md2)"
    for md h x md2
  proof -
    from that(1) have "fst (updateFromTlfHandle (mdm env) md h) \<noteq> Some RekeyIncompleteError"
      unfolding RekeyIncomplete_not_from_metadata_def by blast
    with that(2) show ?thesis by simp
  qed
  have h2: "x \<noteq> Some RekeyIncompleteError"
    if "RekeyIncomplete_not_from_metadata env" "finalizeRekey (mdm env) md = (x, md2)"
    for md x md2
  proof -
    from that(1) have "fst (finalizeRekey (mdm env) md) \<noteq> Some RekeyIncompleteError"
      unfolding RekeyIncomplete_not_from_metadata_def by blast
    with that(2) show ?thesis by simp
  qed
  obtain y md2 where fin: "finalizeRekey (mdm env) md1 = (y, md2)" by (metis surj_pair)
  obtain x md3 where up1: "updateFromTlfHandle (mdm env) md1 rh = (x, md3)" by (metis surj_pair)
  obtain x2 md4 where up2: "updateFromTlfHandle (mdm env) md2 rh = (x2, md4)" by (metis surj_pair)
  show ?thesis
    using run dom fin up1 up2 h1[OF _ up1] h1[OF _ up2] h2[OF _ fin]
    by (auto simp: runDeferred_def deferredFinalize_def deferredUpdateHandle_def
        md_finalizeRekey_def md_updateFromTlfHandle_def isNilOrRekeyIncomplete_def
        split: if_splits option.splits)
qed

lemma rekeyPublic_result:
  assumes "rekeyPublic env hc rh md s = ((c, ck, e), md', s')"
  shows "ck = None \<and> milestones (trace s') = milestones (trace s)
       \<and> (\<not> c \<longrightarrow> e = None \<and> md' = md \<and> s' = s)
       \<and> (c \<longrightarrow> trace s' = trace s @ [EvUpdateFromTlfHandle rh e])"
  using assms
  by (auto simp: rekeyPublic_def md_updateFromTlfHandle_def split: if_splits prod.splits)

section \<open>Properties of the rekey engine\<close>

text \<open>
  C5: the revocation, the deletions of server halves, the new key generation and the
  finalization are the milestones of a Rekey call. In a call that reaches
  AddKeyGeneration the milestones are, in this order: when a generation existed before
  the call, revokeRemovedDevices returning its removal info and one successful
  DeleteTLFCryptKeyServerHalf for every server half ID of that info; then
  AddKeyGeneration; then at most finalizeRekey. So every deletion has completed before
  the new generation is appended, and none follows it.
\<close>

theorem Rekey_deletions_before_new_generation:
  assumes "Rekey env md promptPaper s = (res, md', s')"
  shows "\<exists>M. milestones (trace s') = milestones (trace s) @ M
     \<and> (\<forall>x. EvAddKeyGeneration x \<in> set M \<longrightarrow>
           (\<exists>R F. M = R @ [EvAddKeyGeneration x] @ F
              \<and> (F = [] \<or> (\<exists>y. F = [EvFinalizeRekey y]))
              \<and> (if FirstValidKeyGen env \<le> LatestKeyGeneration (mdm env) md
                  then \<exists>allRemovalInfo.
                         R = EvRevokeRemovedDevices (Inr allRemovalInfo)
                               # removalDeleteEvents env allRemovalInfo
                  else R = [])))"
proof -
  obtain c ck e where res: "res = (c, ck, e)" by (cases res) auto
  from Rekey_milestones[OF assms[unfolded res]] show ?thesis
    unfolding revocation_milestones_def by blast
qed

theorem Rekey_deletions_before_new_generation_witness:
  "milestones (trace (snd (snd (Rekey test_env test_md_dave False empty_kstate))))
     = [EvRevokeRemovedDevices (Inr [(4, \<lparr>userRemoved = True,
                                          deviceServerHalfIDs = [(41, [6])]\<rparr>)]),
        EvDeleteServerHalf 4 41 6 None, EvAddKeyGeneration None, EvFinalizeRekey None]
   \<and> removalDeleteEvents test_env
        [(4, \<lparr>userRemoved = True, deviceServerHalfIDs = [(41, [6])]\<rparr>)]
       = [EvDeleteServerHalf 4 41 6 None]
   \<and> FirstValidKeyGen test_env \<le> LatestKeyGeneration (mdm test_env) test_md_dave
   \<and> (\<exists>R F allRemovalInfo.
         milestones (trace (snd (snd (Rekey test_env test_md_dave False empty_kstate))))
           = R @ [EvAddKeyGeneration None] @ F
       \<and> R = EvRevokeRemovedDevices (Inr allRemovalInfo)
               # removalDeleteEvents test_env allRemovalInfo)"
proof -
  let ?run = "Rekey test_env test_md_dave False empty_kstate"
  have val: "milestones (trace (snd (snd ?run)))
     = [EvRevokeRemovedDevices (Inr [(4, \<lparr>userRemoved = True,
                                          deviceServerHalfIDs = [(41, [6])]\<rparr>)]),
        EvDeleteServerHalf 4 41 6 None, EvAddKeyGeneration None, EvFinalizeRekey None]"
    unfolding test_md_dave_def by code_simp
  have del: "removalDeleteEvents test_env
        [(4, \<lparr>userRemoved = True, deviceServerHalfIDs = [(41, [6])]\<rparr>)]
       = [EvDeleteServerHalf 4 41 6 None]"
    by (simp add: removalDeleteEvents_def test_defs)
  have fv: "FirstValidKeyGen test_env \<le> LatestKeyGeneration (mdm test_env) test_md_dave"
    by (simp add: test_defs test_md_dave_def)
  obtain res md' s' where run: "?run = (res, md', s')" by (metis prod_cases3)
  from Rekey_deletions_before_new_generation[OF run] obtain M where
    m: "milestones (trace s') = milestones (trace empty_kstate) @ M"
    and sh: "\<forall>x. EvAddKeyGeneration x \<in> set M \<longrightarrow>
           (\<exists>R F. M = R @ [EvAddKeyGeneration x] @ F
              \<and> (F = [] \<or> (\<exists>y. F = [EvFinalizeRekey y]))
              \<and> (if FirstValidKeyGen test_env \<le> LatestKeyGeneration (mdm test_env) test_md_dave
                  then \<exists>allRemovalInfo.
                         R = EvRevokeRemovedDevices (Inr allRemovalInfo)
                               # removalDeleteEvents test_env allRemovalInfo
                  else R = []))"
    by blast
  have M: "milestones (trace (snd (snd ?run))) = M"
    using m run by (simp add: empty_kstate_def)
  with val have "EvAddKeyGeneration None \<in> set M" by simp
  with sh fv obtain R F allRemovalInfo where
    "M = R @ [EvAddKeyGeneration None] @ F"
    "R = EvRevokeRemovedDevices (Inr allRemovalInfo) # removalDeleteEvents test_env allRemovalInfo"
    by (metis (full_types))
  with M have "\<exists>R F allRemovalInfo.
         milestones (trace (snd (snd ?run))) = R @ [EvAddKeyGeneration None] @ F
       \<and> R = EvRevokeRemovedDevices (Inr allRemovalInfo)
               # removalDeleteEvents test_env allRemovalInfo"
    by blast
  with val del fv show ?thesis by blast
qed

text \<open>
  C9: if a finalizeRekey call made by this Rekey call returned an error, Rekey reports
  mdChanged = false and no crypt key; unless that error is RekeyIncompleteError (which
  lets the deferred handle update run and possibly replace it) the error returned is
  the finalize error, and the metadata object is the one the failing finalizeRekey
  left behind: what the call did to it before is not undone.
\<close>

theorem Rekey_finalize_failure:
  assumes run: "Rekey env md promptPaper s = ((mdChanged, cryptKey, err), md', s')"
    and fin: "EvFinalizeRekey (Some finalizeErr) \<in> set (trace s')"
    and new: "EvFinalizeRekey (Some finalizeErr) \<notin> set (trace s)"
  shows "\<not> mdChanged \<and> cryptKey = None
       \<and> (finalizeErr \<noteq> RekeyIncompleteError \<longrightarrow>
             err = Some finalizeErr
           \<and> (\<exists>mdBody. finalizeRekey (mdm env) mdBody = (Some finalizeErr, md')))"
proof -
  from Rekey_milestones[OF run] obtain M where
    m: "milestones (trace s') = milestones (trace s) @ M"
    and f: "\<forall>fe. EvFinalizeRekey (Some fe) \<in> set M \<longrightarrow>
           \<not> mdChanged \<and> cryptKey = None
         \<and> (fe \<noteq> RekeyIncompleteError \<longrightarrow>
               err = Some fe
             \<and> (\<exists>mdBody. finalizeRekey (mdm env) mdBody = (Some fe, md')))"
    by blast
  from fin have "EvFinalizeRekey (Some finalizeErr) \<in> set (milestones (trace s'))"
    by (simp add: set_milestones)
  with m new have "EvFinalizeRekey (Some finalizeErr) \<in> set M"
    by (auto simp: set_milestones)
  with f show ?thesis by blast
qed

theorem Rekey_finalize_failure_witness:
  "fst (Rekey test_env_finalize_fails test_md_promote False empty_kstate)
     = (False, None, Some (ServiceError 7))
   \<and> EvFinalizeRekey (Some (ServiceError 7))
       \<in> set (trace (snd (snd (Rekey test_env_finalize_fails test_md_promote False
                                  empty_kstate))))
   \<and> EvAddKeyGeneration None
       \<in> set (trace (snd (snd (Rekey test_env_finalize_fails test_md_promote False
                                  empty_kstate))))
   \<and> rmd_latest test_md_promote = 2
   \<and> rmd_latest (fst (snd (Rekey test_env_finalize_fails test_md_promote False
                              empty_kstate))) = 3"
proof -
  let ?run = "Rekey test_env_finalize_fails test_md_promote False empty_kstate"
  have fin: "EvFinalizeRekey (Some (ServiceError 7)) \<in> set (trace (snd (snd ?run)))"
    unfolding test_env_finalize_fails_def test_md_promote_def by code_simp
  have add: "EvAddKeyGeneration None \<in> set (trace (snd (snd ?run)))"
    unfolding test_env_finalize_fails_def test_md_promote_def by code_simp
  have gen: "rmd_latest (fst (snd ?run)) = 3"
    unfolding test_env_finalize_fails_def test_md_promote_def by code_simp
  have old: "rmd_latest test_md_promote = 2"
    by (simp add: test_md_promote_def test_defs)
  obtain c ck e md' s' where run: "?run = ((c, ck, e), md', s')" by (metis prod_cases3)
  have new: "EvFinalizeRekey (Some (ServiceError 7)) \<notin> set (trace empty_kstate)"
    by (simp add: empty_kstate_def)
  from fin run have fin': "EvFinalizeRekey (Some (ServiceError 7)) \<in> set (trace s')" by simp
  from Rekey_finalize_failure[OF run fin' new]
  have "\<not> c \<and> ck = None \<and> e = Some (ServiceError 7)" by simp
  with run have "fst ?run = (False, None, Some (ServiceError 7))" by simp
  with fin add gen old show ?thesis by blast
qed

text \<open>
  C1 (as the code has it): take a Rekey call on a private folder that already has a valid
  key generation, and let wKeys and rKeys be the device keys it fetched for the writers
  and readers of the resolved handle and wDkim and rDkim the device key infos of the
  latest key bundle. Whatever the call returns, it attempts AddKeyGeneration, or returns
  a crypt key, only if the caller is a writer and some user has a removed device. If the
  call returns without error, it returns a new crypt key, and has appended a key
  generation, exactly when some user has a removed device. "Some user has a removed
  device" is what \<open>usersWithRemovedDevices\<close> computes for the two bundles: a user of
  the bundle who is absent from the expected keys, or who has a device in the bundle
  whose KID is not among the user's expected keys. A user of the reader bundle who is no
  longer among the expected readers (as a reader promoted to writer is) counts as
  removed, so a promotion alone makes a writer's call add a generation.
\<close>

theorem Rekey_new_generation_iff_removed_devices:
  assumes run: "Rekey env md promptPaper s = ((mdChanged, cryptKey, err), md', s')"
    and priv: "\<not> IsPublic (TlfID_of (mdm env) md)"
    and valid: "FirstValidKeyGen env \<le> LatestKeyGeneration (mdm env) md"
    and user: "KBPKI_GetCurrentUserInfo env s = (Inr (username, uid), s1)"
    and handle: "resolveHandle env (TlfID_of (mdm env) md) (GetTlfHandle (mdm env) md) uid s1
                   = (Inr (isWriter, handleChanged, resolvedHandle), s2)"
    and wk: "generateKeyMapForUsers env (ResolvedWriters (handles env) resolvedHandle) s2
               = (Inr wKeys, s3)"
    and rk: "generateKeyMapForUsers env (ResolvedReaders (handles env) resolvedHandle) s3
               = (Inr rKeys, s4)"
    and dkim: "getUserDeviceKeyInfoMaps (mdm env) md (LatestKeyGeneration (mdm env) md)
                 = Inr (rDkim, wDkim)"
  shows "(\<exists>M. milestones (trace s') = milestones (trace s) @ M
           \<and> ((\<exists>x. EvAddKeyGeneration x \<in> set M) \<or> cryptKey \<noteq> None
                \<longrightarrow> isWriter
                  \<and> (usersWithRemovedDevices env wDkim wKeys \<noteq> []
                     \<or> usersWithRemovedDevices env rDkim rKeys \<noteq> []))
           \<and> (err = None
                \<longrightarrow> ((cryptKey \<noteq> None)
                       = (usersWithRemovedDevices env wDkim wKeys \<noteq> []
                          \<or> usersWithRemovedDevices env rDkim rKeys \<noteq> []))
                  \<and> ((EvAddKeyGeneration None \<in> set M)
                       = (usersWithRemovedDevices env wDkim wKeys \<noteq> []
                          \<or> usersWithRemovedDevices env rDkim rKeys \<noteq> []))))
       \<and> ((usersWithRemovedDevices env wDkim wKeys \<noteq> []
            \<or> usersWithRemovedDevices env rDkim rKeys \<noteq> [])
          = (\<exists>u keyInfos.
               ((u, keyInfos) \<in> set wDkim
                 \<and> (map_of wKeys u = None
                    \<or> (\<exists>keys key info. map_of wKeys u = Some keys
                          \<and> (key, info) \<in> set keyInfos
                          \<and> KID_of env key \<notin> KID_of env ` set keys)))
             \<or> ((u, keyInfos) \<in> set rDkim
                 \<and> (map_of rKeys u = None
                    \<or> (\<exists>keys key info. map_of rKeys u = Some keys
                          \<and> (key, info) \<in> set keyInfos
                          \<and> KID_of env key \<notin> KID_of env ` set keys)))))"
proof -
  let ?cur = "LatestKeyGeneration (mdm env) md"
  let ?removed = "usersWithRemovedDevices env wDkim wKeys \<noteq> []
               \<or> usersWithRemovedDevices env rDkim rKeys \<noteq> []"
  have main: "\<exists>M. milestones (trace s') = milestones (trace s) @ M
           \<and> ((\<exists>x. EvAddKeyGeneration x \<in> set M) \<or> cryptKey \<noteq> None
                \<longrightarrow> isWriter \<and> ?removed)
           \<and> (err = None
                \<longrightarrow> ((cryptKey \<noteq> None) = ?removed)
                  \<and> ((EvAddKeyGeneration None \<in> set M) = ?removed))"
  proof (cases "?cur = PublicKeyGen env")
    case True
    with run priv have "s' = s" "cryptKey = None" "err \<noteq> None"
      by (auto simp: Rekey_def Let_def)
    then show ?thesis by (intro exI[of _ "[]"]) auto
  next
    case False
    with priv have pre: "\<not> (IsPublic (TlfID_of (mdm env) md) \<noteq> (?cur = PublicKeyGen env))"
      by simp
    from run priv pre user handle
    have rp: "rekeyPrivate env promptPaper ?cur username uid isWriter handleChanged
                resolvedHandle md s2 = ((mdChanged, cryptKey, err), md', s')"
      by (auto simp: Rekey_def Let_def)
    have q: "milestones (trace s2) = milestones (trace s)"
      using KBPKI_GetCurrentUserInfo_quiet[OF user] resolveHandle_quiet[OF handle] by simp
    have notfirst: "\<not> ?cur < FirstValidKeyGen env" using valid by simp
    show ?thesis
      using rekeyPrivate_cases[OF rp]
    proof (elim disjE exE conjE)
      fix wKeys' sa rKeys' sb delta sc wK1 rK1 nru eP ePr md3 s7
      assume gw: "generateKeyMapForUsers env (ResolvedWriters (handles env) resolvedHandle) s2
                    = (Inr wKeys', sa)"
        and gr: "generateKeyMapForUsers env (ResolvedReaders (handles env) resolvedHandle) sa
                    = (Inr rKeys', sb)"
        and cd: "(if ?cur < FirstValidKeyGen env then (Inr firstKeyGenDelta, sb)
                  else computeKeyDelta env md ?cur uid wKeys' rKeys' sb) = (Inr delta, sc)"
        and q7: "milestones (trace s7) = milestones (trace s2)"
        and rd: "runDeferred env resolvedHandle
                   (rekeyFinish env promptPaper ?cur isWriter delta nru wK1 rK1 eP ePr md3 s7)
                  = ((mdChanged, cryptKey, err), md', s')"
      from gw wk have w: "wKeys' = wKeys" "sa = s3" by simp_all
      with gr rk have r: "rKeys' = rKeys" "sb = s4" by simp_all
      from cd notfirst w r
      have "computeKeyDelta env md ?cur uid wKeys rKeys s4 = (Inr delta, sc)" by simp
      from computeKeyDelta_incKeyGen[OF this dkim]
      have inc: "incKeyGen delta = ?removed" .
      obtain c0 ck0 e0 md0 s0 where
        rf: "rekeyFinish env promptPaper ?cur isWriter delta nru wK1 rK1 eP ePr md3 s7
               = ((c0, ck0, e0), md0, s0)"
        by (metis surj_pair)
      from rekeyFinish_milestones[OF rf] obtain M0 where
        m0: "milestones (trace s0) = milestones (trace s7) @ M0"
        and some: "\<forall>k. ck0 = Some k \<longrightarrow> c0 \<and> e0 = None \<and> EvAddKeyGeneration None \<in> set M0"
        and ok: "e0 = None \<longrightarrow> c0 \<and> ((ck0 \<noteq> None) = incKeyGen delta)
                        \<and> (EvAddKeyGeneration None \<in> set M0 \<longrightarrow> ck0 \<noteq> None)"
        by blast
      from rekeyFinish_add_needs_writer[OF rf m0]
      have wr: "ck0 \<noteq> None \<or> M0 \<noteq> [] \<longrightarrow> isWriter \<and> incKeyGen delta" .
      from runDeferred_milestones[OF rd[unfolded rf]] obtain F where
        f: "milestones (trace s') = milestones (trace s0) @ F"
        and fshape: "F = [] \<or> (\<exists>y. F = [EvFinalizeRekey y] \<and> c0 \<and> isNilOrRekeyIncomplete e0)"
        and same: "err = None \<longrightarrow> e0 = None \<and> mdChanged = c0 \<and> cryptKey = ck0"
        and key: "cryptKey \<noteq> None \<longrightarrow> cryptKey = ck0"
        by auto
      have addF: "\<And>x. (EvAddKeyGeneration x \<in> set (M0 @ F)) = (EvAddKeyGeneration x \<in> set M0)"
        using fshape by auto
      have a: "milestones (trace s') = milestones (trace s) @ (M0 @ F)"
        using q q7 m0 f by simp
      have b: "(\<exists>x. EvAddKeyGeneration x \<in> set (M0 @ F)) \<or> cryptKey \<noteq> None
                 \<longrightarrow> isWriter \<and> ?removed"
      proof
        assume "(\<exists>x. EvAddKeyGeneration x \<in> set (M0 @ F)) \<or> cryptKey \<noteq> None"
        then have "ck0 \<noteq> None \<or> M0 \<noteq> []" using addF key by auto
        with wr inc show "isWriter \<and> ?removed" by blast
      qed
      have c: "err = None \<longrightarrow> ((cryptKey \<noteq> None) = ?removed)
                  \<and> ((EvAddKeyGeneration None \<in> set (M0 @ F)) = ?removed)"
      proof
        assume e: "err = None"
        with same have s0: "e0 = None" "cryptKey = ck0" by simp_all
        have "(cryptKey \<noteq> None) = ?removed" using s0 ok inc by simp
        moreover have "(EvAddKeyGeneration None \<in> set (M0 @ F)) = ?removed"
          using addF s0 ok some inc by auto
        ultimately show "((cryptKey \<noteq> None) = ?removed)
                  \<and> ((EvAddKeyGeneration None \<in> set (M0 @ F)) = ?removed)" by simp
      qed
      from a b c show ?thesis by blast
    next
      assume q': "milestones (trace s') = milestones (trace s2)"
        and ck: "cryptKey = None"
        and noop: "err = None \<longrightarrow> \<not> mdChanged
                 \<and> (\<exists>wKeys s1 rKeys s2' delta s3'.
                      generateKeyMapForUsers env (ResolvedWriters (handles env) resolvedHandle) s2
                        = (Inr wKeys, s1)
                    \<and> generateKeyMapForUsers env (ResolvedReaders (handles env) resolvedHandle) s1
                        = (Inr rKeys, s2')
                    \<and> (if ?cur < FirstValidKeyGen env then (Inr firstKeyGenDelta, s2')
                        else computeKeyDelta env md ?cur uid wKeys rKeys s2') = (Inr delta, s3')
                    \<and> \<not> incKeyGen delta \<and> md' = md \<and> s' = s3')"
      have nr: "err = None \<longrightarrow> \<not> ?removed"
      proof
        assume "err = None"
        with noop obtain wKeys' sa rKeys' sb delta sc where
          gw: "generateKeyMapForUsers env (ResolvedWriters (handles env) resolvedHandle) s2
                      = (Inr wKeys', sa)"
          and gr: "generateKeyMapForUsers env (ResolvedReaders (handles env) resolvedHandle) sa
                      = (Inr rKeys', sb)"
          and cd: "(if ?cur < FirstValidKeyGen env then (Inr firstKeyGenDelta, sb)
                    else computeKeyDelta env md ?cur uid wKeys' rKeys' sb) = (Inr delta, sc)"
          and ninc: "\<not> incKeyGen delta"
          by blast
        from gw wk have w: "wKeys' = wKeys" "sa = s3" by simp_all
        with gr rk have r: "rKeys' = rKeys" "sb = s4" by simp_all
        from cd notfirst w r
        have "computeKeyDelta env md ?cur uid wKeys rKeys s4 = (Inr delta, sc)" by simp
        from computeKeyDelta_incKeyGen[OF this dkim] ninc
        show "\<not> ?removed" by simp
      qed
      have "milestones (trace s') = milestones (trace s) @ []" using q q' by simp
      with nr ck show ?thesis by (intro exI[of _ "[]"]) simp
    qed
  qed
  have dev: "?removed
          = (\<exists>u keyInfos.
               ((u, keyInfos) \<in> set wDkim
                 \<and> (map_of wKeys u = None
                    \<or> (\<exists>keys key info. map_of wKeys u = Some keys
                          \<and> (key, info) \<in> set keyInfos
                          \<and> KID_of env key \<notin> KID_of env ` set keys)))
             \<or> ((u, keyInfos) \<in> set rDkim
                 \<and> (map_of rKeys u = None
                    \<or> (\<exists>keys key info. map_of rKeys u = Some keys
                          \<and> (key, info) \<in> set keyInfos
                          \<and> KID_of env key \<notin> KID_of env ` set keys))))"
    unfolding usersWithRemovedDevices_nonempty by blast
  from main dev show ?thesis by (rule conjI)
qed

theorem Rekey_new_generation_iff_removed_devices_witness:
  "usersWithRemovedDevices test_env [(2, [(21, 4)]), (3, [(31, 5), (32, 8)])]
       [(2, [21]), (3, [31])] = [3]
   \<and> fst (Rekey test_env test_md_revoked False empty_kstate) = (True, Some 4242, None)
   \<and> EvAddKeyGeneration None
        \<in> set (milestones (trace (snd (snd (Rekey test_env test_md_revoked False
                                                empty_kstate)))))
   \<and> usersWithRemovedDevices test_env [(2, [(21, 4)]), (3, [(31, 5)])] [(3, [31])] = [2]
   \<and> usersWithRemovedDevices test_env [(1, [(11, 3)])] [(1, [11]), (2, [21])] = []
   \<and> fst (Rekey test_env test_md_promote False empty_kstate) = (True, Some 4242, None)
   \<and> EvAddKeyGeneration None
        \<in> set (milestones (trace (snd (snd (Rekey test_env test_md_promote False
                                                empty_kstate)))))"
proof -
  have m0: "milestones (trace empty_kstate) = []" by (simp add: empty_kstate_def milestones_def)
  have user: "KBPKI_GetCurrentUserInfo test_env empty_kstate
                = (Inr (''alice'', 1), snd (KBPKI_GetCurrentUserInfo test_env empty_kstate))"
    by (simp add: KBPKI_GetCurrentUserInfo_def test_defs)
  let ?s1 = "snd (KBPKI_GetCurrentUserInfo test_env empty_kstate)"
  have revoked: "fst (Rekey test_env test_md_revoked False empty_kstate) = (True, Some 4242, None)
     \<and> EvAddKeyGeneration None
        \<in> set (milestones (trace (snd (snd (Rekey test_env test_md_revoked False
                                                empty_kstate)))))"
  proof -
    let ?md = test_md_revoked
    let ?tlf = "TlfID_of (mdm test_env) ?md"
    let ?h = "GetTlfHandle (mdm test_env) ?md"
    let ?s2 = "snd (resolveHandle test_env ?tlf ?h 1 ?s1)"
    let ?s3 = "snd (generateKeyMapForUsers test_env
                      (ResolvedWriters (handles test_env) 0) ?s2)"
    let ?s4 = "snd (generateKeyMapForUsers test_env
                      (ResolvedReaders (handles test_env) 0) ?s3)"
    have priv: "\<not> IsPublic ?tlf" by (simp add: test_defs test_md_revoked_def)
    have valid: "FirstValidKeyGen test_env \<le> LatestKeyGeneration (mdm test_env) ?md"
      by (simp add: test_defs test_md_revoked_def)
    have "fst (resolveHandle test_env ?tlf ?h 1 ?s1) = Inr (True, False, 0)"
      unfolding test_md_revoked_def by code_simp
    then have handle: "resolveHandle test_env ?tlf ?h 1 ?s1 = (Inr (True, False, 0), ?s2)"
      by (simp add: prod_eq_iff)
    have "fst (generateKeyMapForUsers test_env (ResolvedWriters (handles test_env) 0) ?s2)
            = Inr [(1, [11])]"
      unfolding test_md_revoked_def by code_simp
    then have wk: "generateKeyMapForUsers test_env (ResolvedWriters (handles test_env) 0) ?s2
                     = (Inr [(1, [11])], ?s3)"
      by (simp add: prod_eq_iff)
    have "fst (generateKeyMapForUsers test_env (ResolvedReaders (handles test_env) 0) ?s3)
            = Inr [(2, [21]), (3, [31])]"
      unfolding test_md_revoked_def by code_simp
    then have rk: "generateKeyMapForUsers test_env (ResolvedReaders (handles test_env) 0) ?s3
                     = (Inr [(2, [21]), (3, [31])], ?s4)"
      by (simp add: prod_eq_iff)
    have dkim: "getUserDeviceKeyInfoMaps (mdm test_env) ?md
                  (LatestKeyGeneration (mdm test_env) ?md)
                  = Inr ([(2, [(21, 4)]), (3, [(31, 5), (32, 8)])], [(1, [(11, 3)])])"
      by (simp add: test_defs test_md_revoked_def)
    have val: "fst (Rekey test_env ?md False empty_kstate) = (True, Some 4242, None)"
      unfolding test_md_revoked_def by code_simp
    then obtain md' s' where
      run: "Rekey test_env ?md False empty_kstate = ((True, Some 4242, None), md', s')"
      by (cases "Rekey test_env ?md False empty_kstate") auto
    have dev: "(3, [(31, 5), (32, 8)]) \<in> set [(2::nat, [(21::nat, 4::nat)]), (3, [(31, 5), (32, 8)])]
        \<and> map_of [(2::nat, [21::nat]), (3, [31])] 3 = Some [31]
        \<and> (32, 8) \<in> set [(31::nat, 5::nat), (32, 8)]
        \<and> KID_of test_env 32 \<notin> KID_of test_env ` set [31]"
      by (simp add: test_defs)
    then have gone: "\<exists>u keyInfos.
               ((u, keyInfos) \<in> set [(1::nat, [(11::nat, 3::nat)])]
                 \<and> (map_of [(1::nat, [11::nat])] u = None
                    \<or> (\<exists>keys key info. map_of [(1::nat, [11::nat])] u = Some keys
                          \<and> (key, info) \<in> set keyInfos
                          \<and> KID_of test_env key \<notin> KID_of test_env ` set keys)))
             \<or> ((u, keyInfos) \<in> set [(2::nat, [(21::nat, 4::nat)]), (3, [(31, 5), (32, 8)])]
                 \<and> (map_of [(2::nat, [21::nat]), (3, [31])] u = None
                    \<or> (\<exists>keys key info. map_of [(2::nat, [21::nat]), (3, [31])] u = Some keys
                          \<and> (key, info) \<in> set keyInfos
                          \<and> KID_of test_env key \<notin> KID_of test_env ` set keys)))"
      by blast
    from Rekey_new_generation_iff_removed_devices[OF run priv valid user handle wk rk dkim] gone
    obtain M where "milestones (trace s') = milestones (trace empty_kstate) @ M"
      and "EvAddKeyGeneration None \<in> set M"
      by blast
    with m0 have "EvAddKeyGeneration None \<in> set (milestones (trace s'))" by simp
    with run val show ?thesis by simp
  qed
  have promote: "fst (Rekey test_env test_md_promote False empty_kstate) = (True, Some 4242, None)
     \<and> EvAddKeyGeneration None
        \<in> set (milestones (trace (snd (snd (Rekey test_env test_md_promote False
                                                empty_kstate)))))"
  proof -
    let ?md = test_md_promote
    let ?tlf = "TlfID_of (mdm test_env) ?md"
    let ?h = "GetTlfHandle (mdm test_env) ?md"
    let ?s2 = "snd (resolveHandle test_env ?tlf ?h 1 ?s1)"
    let ?s3 = "snd (generateKeyMapForUsers test_env
                      (ResolvedWriters (handles test_env) 1) ?s2)"
    let ?s4 = "snd (generateKeyMapForUsers test_env
                      (ResolvedReaders (handles test_env) 1) ?s3)"
    have priv: "\<not> IsPublic ?tlf" by (simp add: test_defs test_md_promote_def)
    have valid: "FirstValidKeyGen test_env \<le> LatestKeyGeneration (mdm test_env) ?md"
      by (simp add: test_defs test_md_promote_def)
    have "fst (resolveHandle test_env ?tlf ?h 1 ?s1) = Inr (True, False, 1)"
      unfolding test_md_promote_def by code_simp
    then have handle: "resolveHandle test_env ?tlf ?h 1 ?s1 = (Inr (True, False, 1), ?s2)"
      by (simp add: prod_eq_iff)
    have "fst (generateKeyMapForUsers test_env (ResolvedWriters (handles test_env) 1) ?s2)
            = Inr [(1, [11]), (2, [21])]"
      unfolding test_md_promote_def by code_simp
    then have wk: "generateKeyMapForUsers test_env (ResolvedWriters (handles test_env) 1) ?s2
                     = (Inr [(1, [11]), (2, [21])], ?s3)"
      by (simp add: prod_eq_iff)
    have "fst (generateKeyMapForUsers test_env (ResolvedReaders (handles test_env) 1) ?s3)
            = Inr [(3, [31])]"
      unfolding test_md_promote_def by code_simp
    then have rk: "generateKeyMapForUsers test_env (ResolvedReaders (handles test_env) 1) ?s3
                     = (Inr [(3, [31])], ?s4)"
      by (simp add: prod_eq_iff)
    have dkim: "getUserDeviceKeyInfoMaps (mdm test_env) ?md
                  (LatestKeyGeneration (mdm test_env) ?md)
                  = Inr ([(2, [(21, 4)]), (3, [(31, 5)])], [(1, [(11, 3)])])"
      by (simp add: test_defs test_md_promote_def)
    have val: "fst (Rekey test_env ?md False empty_kstate) = (True, Some 4242, None)"
      unfolding test_md_promote_def by code_simp
    then obtain md' s' where
      run: "Rekey test_env ?md False empty_kstate = ((True, Some 4242, None), md', s')"
      by (cases "Rekey test_env ?md False empty_kstate") auto
    have r1: "usersWithRemovedDevices test_env [(2, [(21, 4)]), (3, [(31, 5)])] [(3, [31])] = [2]"
      by (simp add: test_defs Let_def)
    from Rekey_new_generation_iff_removed_devices[OF run priv valid user handle wk rk dkim] r1
    obtain M where "milestones (trace s') = milestones (trace empty_kstate) @ M"
      and "EvAddKeyGeneration None \<in> set M"
      by auto
    with m0 have "EvAddKeyGeneration None \<in> set (milestones (trace s'))" by simp
    with run val show ?thesis by simp
  qed
  have r0: "usersWithRemovedDevices test_env [(2, [(21, 4)]), (3, [(31, 5), (32, 8)])]
       [(2, [21]), (3, [31])] = [3]"
    by (simp add: test_defs Let_def)
  have r1: "usersWithRemovedDevices test_env [(2, [(21, 4)]), (3, [(31, 5)])] [(3, [31])] = [2]"
    by (simp add: test_defs Let_def)
  have r2: "usersWithRemovedDevices test_env [(1, [(11, 3)])] [(1, [11]), (2, [21])] = []"
    by (simp add: test_defs Let_def)
  from revoked promote r0 r1 r2 show ?thesis by blast
qed

text \<open>
  C1, as stated, fails for a caller who is not a writer and for a call that fails. Dave
  (UID 4) is in the reader bundle and no longer in the handle, so the set of users with
  removed devices is \<open>[4]\<close> and \<open>incKeyGen\<close> is set. When charlie, a reader, calls Rekey,
  the call stops at the reader's scope check with RekeyIncompleteError: the metadata is
  returned as it was and AddKeyGeneration is never called. When alice, a writer, calls
  Rekey and the key server refuses to delete dave's server half, the call returns the
  key server's error before AddKeyGeneration and the folder stays at generation 2.
\<close>

theorem Rekey_removed_reader_without_new_generation:
  "\<not> IsPublic (TlfID_of (mdm test_env_charlie) test_md_dave)
   \<and> FirstValidKeyGen test_env_charlie \<le> LatestKeyGeneration (mdm test_env_charlie) test_md_dave
   \<and> getUserDeviceKeyInfoMaps (mdm test_env_charlie) test_md_dave 2
       = Inr ([(2, [(21, 4)]), (3, [(31, 5)]), (4, [(41, 6)])], [(1, [(11, 3)])])
   \<and> usersWithRemovedDevices test_env_charlie
        [(2, [(21, 4)]), (3, [(31, 5)]), (4, [(41, 6)])] [(2, [21]), (3, [31])] = [4]
   \<and> fst (computeKeyDelta test_env_charlie test_md_dave 2 3
             [(1, [11])] [(2, [21]), (3, [31])] empty_kstate)
       = Inr \<lparr>addNewReaderDevice = False, addNewWriterDevice = False,
              newReaderUsers = [4], newWriterUsers = [], promotedReaders = [],
              addNewReaderDeviceForSelf = False, incKeyGen = True\<rparr>
   \<and> Rekey test_env_charlie test_md_dave False empty_kstate
       = ((False, None, Some RekeyIncompleteError), test_md_dave,
          snd (snd (Rekey test_env_charlie test_md_dave False empty_kstate)))
   \<and> trace (snd (snd (Rekey test_env_charlie test_md_dave False empty_kstate)))
       = [EvGetCurrentUserInfo, EvResolveAgain, EvFlushUser 1, EvGetCryptPublicKeys 1,
          EvFlushUser 2, EvGetCryptPublicKeys 2, EvFlushUser 3, EvGetCryptPublicKeys 3,
          EvIdentify [4]]
   \<and> EvAddKeyGeneration None
        \<notin> set (trace (snd (snd (Rekey test_env_charlie test_md_dave False empty_kstate))))
   \<and> fst (Rekey test_env_delete_fails test_md_dave False empty_kstate)
       = (False, None, Some (ServiceError 5))
   \<and> LatestKeyGeneration (mdm test_env_delete_fails)
        (fst (snd (Rekey test_env_delete_fails test_md_dave False empty_kstate))) = 2
   \<and> trace (snd (snd (Rekey test_env_delete_fails test_md_dave False empty_kstate)))
       = [EvGetCurrentUserInfo, EvResolveAgain, EvFlushUser 1, EvGetCryptPublicKeys 1,
          EvFlushUser 2, EvGetCryptPublicKeys 2, EvFlushUser 3, EvGetCryptPublicKeys 3,
          EvIdentify [4], EvMakeRandomTLFEphemeralKeys, EvNotify,
          EvRevokeRemovedDevices
            (Inr [(4, \<lparr>userRemoved = True, deviceServerHalfIDs = [(41, [6])]\<rparr>)]),
          EvDeleteServerHalf 4 41 6 (Some (ServiceError 5))]"
proof -
  have a: "\<not> IsPublic (TlfID_of (mdm test_env_charlie) test_md_dave)"
    by (simp add: test_defs test_md_dave_def)
  have b: "FirstValidKeyGen test_env_charlie
             \<le> LatestKeyGeneration (mdm test_env_charlie) test_md_dave"
    by (simp add: test_defs test_md_dave_def)
  have c: "getUserDeviceKeyInfoMaps (mdm test_env_charlie) test_md_dave 2
       = Inr ([(2, [(21, 4)]), (3, [(31, 5)]), (4, [(41, 6)])], [(1, [(11, 3)])])"
    by (simp add: test_defs test_md_dave_def)
  have d: "usersWithRemovedDevices test_env_charlie
        [(2, [(21, 4)]), (3, [(31, 5)]), (4, [(41, 6)])] [(2, [21]), (3, [31])] = [4]"
    by (simp add: test_defs Let_def)
  have e: "fst (computeKeyDelta test_env_charlie test_md_dave 2 3
             [(1, [11])] [(2, [21]), (3, [31])] empty_kstate)
       = Inr \<lparr>addNewReaderDevice = False, addNewWriterDevice = False,
              newReaderUsers = [4], newWriterUsers = [], promotedReaders = [],
              addNewReaderDeviceForSelf = False, incKeyGen = True\<rparr>"
    unfolding test_md_dave_def by code_simp
  have f1: "fst (Rekey test_env_charlie test_md_dave False empty_kstate)
              = (False, None, Some RekeyIncompleteError)"
    unfolding test_md_dave_def by code_simp
  have f2: "fst (snd (Rekey test_env_charlie test_md_dave False empty_kstate)) = test_md_dave"
    unfolding test_md_dave_def by code_simp
  have f: "Rekey test_env_charlie test_md_dave False empty_kstate
       = ((False, None, Some RekeyIncompleteError), test_md_dave,
          snd (snd (Rekey test_env_charlie test_md_dave False empty_kstate)))"
    using f1 f2 by (simp add: prod_eq_iff)
  have g: "trace (snd (snd (Rekey test_env_charlie test_md_dave False empty_kstate)))
       = [EvGetCurrentUserInfo, EvResolveAgain, EvFlushUser 1, EvGetCryptPublicKeys 1,
          EvFlushUser 2, EvGetCryptPublicKeys 2, EvFlushUser 3, EvGetCryptPublicKeys 3,
          EvIdentify [4]]"
    unfolding test_md_dave_def by code_simp
  have h: "EvAddKeyGeneration None
        \<notin> set (trace (snd (snd (Rekey test_env_charlie test_md_dave False empty_kstate))))"
    unfolding g by simp
  have i: "fst (Rekey test_env_delete_fails test_md_dave False empty_kstate)
       = (False, None, Some (ServiceError 5))"
    unfolding test_md_dave_def test_env_delete_fails_def by code_simp
  have j: "LatestKeyGeneration (mdm test_env_delete_fails)
        (fst (snd (Rekey test_env_delete_fails test_md_dave False empty_kstate))) = 2"
    unfolding test_md_dave_def test_env_delete_fails_def by code_simp
  have k: "trace (snd (snd (Rekey test_env_delete_fails test_md_dave False empty_kstate)))
       = [EvGetCurrentUserInfo, EvResolveAgain, EvFlushUser 1, EvGetCryptPublicKeys 1,
          EvFlushUser 2, EvGetCryptPublicKeys 2, EvFlushUser 3, EvGetCryptPublicKeys 3,
          EvIdentify [4], EvMakeRandomTLFEphemeralKeys, EvNotify,
          EvRevokeRemovedDevices
            (Inr [(4, \<lparr>userRemoved = True, deviceServerHalfIDs = [(41, [6])]\<rparr>)]),
          EvDeleteServerHalf 4 41 6 (Some (ServiceError 5))]"
    unfolding test_md_dave_def test_env_delete_fails_def by code_simp
  from a b c d e f g h i j k show ?thesis by blast
qed

text \<open>
  C8: on a private folder without any valid key generation (and whose latest generation
  is not the public marker, as Rekey requires of a private folder), when the handle
  resolution succeeds and the caller is not a writer of the re-resolved handle, Rekey
  returns (false, nil) with a ReadAccessError for the caller and the metadata object it
  was given; only the user lookup and the handle resolution have been logged.
\<close>

theorem Rekey_first_generation_needs_writer:
  assumes priv: "\<not> IsPublic (TlfID_of (mdm env) md)"
    and nogen: "LatestKeyGeneration (mdm env) md < FirstValidKeyGen env"
    and pre: "LatestKeyGeneration (mdm env) md \<noteq> PublicKeyGen env"
    and user: "KBPKI_GetCurrentUserInfo env s = (Inr (username, uid), s1)"
    and again: "Handle_ResolveAgain env (GetTlfHandle (mdm env) md) s1 = (Inr reresolved, s1')"
    and nw: "\<not> IsWriter (handles env) reresolved uid"
    and handle: "resolveHandle env (TlfID_of (mdm env) md) (GetTlfHandle (mdm env) md) uid s1
                   = (Inr (isWriter, handleChanged, resolvedHandle), s2)"
  shows "Rekey env md promptPaper s
           = ((False, None, Some (ReadAccessError username)), md, s2)"
proof -
  have "\<not> isWriter" using resolveHandle_isWriter[OF handle again] nw by simp
  then show ?thesis
    using priv nogen pre user handle
    by (simp add: Rekey_def Let_def rekeyPrivate_def)
qed

theorem Rekey_first_generation_needs_writer_witness:
  "\<not> IsPublic (TlfID_of (mdm test_env_charlie) test_md_new)
   \<and> LatestKeyGeneration (mdm test_env_charlie) test_md_new < FirstValidKeyGen test_env_charlie
   \<and> LatestKeyGeneration (mdm test_env_charlie) test_md_new \<noteq> PublicKeyGen test_env_charlie
   \<and> \<not> IsWriter (handles test_env_charlie) 0 3
   \<and> fst (Rekey test_env_charlie test_md_new False empty_kstate)
       = (False, None, Some (ReadAccessError ''charlie''))
   \<and> fst (snd (Rekey test_env_charlie test_md_new False empty_kstate)) = test_md_new
   \<and> trace (snd (snd (Rekey test_env_charlie test_md_new False empty_kstate)))
       = [EvGetCurrentUserInfo, EvResolveAgain]"
proof -
  let ?tlf = "TlfID_of (mdm test_env_charlie) test_md_new"
  let ?h = "GetTlfHandle (mdm test_env_charlie) test_md_new"
  let ?s1 = "snd (KBPKI_GetCurrentUserInfo test_env_charlie empty_kstate)"
  let ?s1' = "snd (Handle_ResolveAgain test_env_charlie ?h ?s1)"
  let ?s2 = "snd (resolveHandle test_env_charlie ?tlf ?h 3 ?s1)"
  have priv: "\<not> IsPublic ?tlf" by (simp add: test_defs)
  have nogen: "LatestKeyGeneration (mdm test_env_charlie) test_md_new
                 < FirstValidKeyGen test_env_charlie"
    by (simp add: test_defs)
  have pre: "LatestKeyGeneration (mdm test_env_charlie) test_md_new
               \<noteq> PublicKeyGen test_env_charlie"
    by (simp add: test_defs)
  have user: "KBPKI_GetCurrentUserInfo test_env_charlie empty_kstate
                = (Inr (''charlie'', 3), ?s1)"
    by (simp add: KBPKI_GetCurrentUserInfo_def test_defs)
  have again: "Handle_ResolveAgain test_env_charlie ?h ?s1 = (Inr 0, ?s1')"
    by (simp add: Handle_ResolveAgain_def test_defs)
  have nw: "\<not> IsWriter (handles test_env_charlie) 0 3" by (simp add: test_defs)
  have "fst (resolveHandle test_env_charlie ?tlf ?h 3 ?s1) = Inr (False, False, 0)"
    by code_simp
  then have handle: "resolveHandle test_env_charlie ?tlf ?h 3 ?s1
                       = (Inr (False, False, 0), ?s2)"
    by (simp add: prod_eq_iff)
  have tr: "trace ?s2 = [EvGetCurrentUserInfo, EvResolveAgain]" by code_simp
  from Rekey_first_generation_needs_writer[OF priv nogen pre user again nw handle, of False]
  have "Rekey test_env_charlie test_md_new False empty_kstate
          = ((False, None, Some (ReadAccessError ''charlie'')), test_md_new, ?s2)" .
  with tr priv nogen pre nw show ?thesis by simp
qed

text \<open>
  C2: a run of a reader who has no new device but a revoked one. Charlie (UID 3, on
  device 31) calls Rekey; his revoked device 32 is still in the reader bundle and bob
  has added a device. Charlie is not among the users with new devices
  (\<open>addNewReaderDeviceForSelf\<close> is false), yet he is in \<open>newReaderUsers\<close> once the
  removed readers are merged into it, so the reader's scope check does not stop him: the
  scope is cut down to his own entry and Rekey goes on to re-wrap. With the key server
  down the call ends with the key server's error, not with RekeyIncompleteError. Without
  the revoked device the same call stops at the scope check with RekeyIncompleteError.
\<close>

theorem Rekey_reader_with_revoked_device_passes_scope_check:
  "fst (computeKeyDelta test_env_charlie_bob22 test_md_revoked 2 3
          [(1, [11])] [(2, [21, 22]), (3, [31])] empty_kstate)
     = Inr \<lparr>addNewReaderDevice = True, addNewWriterDevice = False,
            newReaderUsers = [3, 2], newWriterUsers = [], promotedReaders = [],
            addNewReaderDeviceForSelf = False, incKeyGen = True\<rparr>
   \<and> readerScope False 3
        \<lparr>addNewReaderDevice = True, addNewWriterDevice = False,
         newReaderUsers = [3, 2], newWriterUsers = [], promotedReaders = [],
         addNewReaderDeviceForSelf = False, incKeyGen = True\<rparr>
        [(1, [11])] [(2, [21, 22]), (3, [31])]
       = Inr ([], [(3, [31])], [2])
   \<and> fst (Rekey test_env_charlie_bob22_down test_md_revoked False empty_kstate)
       = (False, None, Some (ServiceError 5))
   \<and> trace (snd (snd (Rekey test_env_charlie_bob22_down test_md_revoked False empty_kstate)))
       = [EvGetCurrentUserInfo, EvResolveAgain, EvFlushUser 1, EvGetCryptPublicKeys 1,
          EvFlushUser 2, EvGetCryptPublicKeys 2, EvFlushUser 3, EvGetCryptPublicKeys 3,
          EvIdentify [3, 2], EvMakeRandomTLFEphemeralKeys, EvKeyCacheGet (TlfID 1 False) 1,
          EvGetCurrentUserInfo, EvGetCryptPublicKeys 3, EvDecryptClientHalfAny,
          EvGetServerHalf 5 31]
   \<and> Rekey test_env_charlie_bob22_down test_md False empty_kstate
       = ((False, None, Some RekeyIncompleteError), test_md,
          snd (snd (Rekey test_env_charlie_bob22_down test_md False empty_kstate)))
   \<and> trace (snd (snd (Rekey test_env_charlie_bob22_down test_md False empty_kstate)))
       = [EvGetCurrentUserInfo, EvResolveAgain, EvFlushUser 1, EvGetCryptPublicKeys 1,
          EvFlushUser 2, EvGetCryptPublicKeys 2, EvFlushUser 3, EvGetCryptPublicKeys 3,
          EvIdentify [2]]"
proof -
  have a: "fst (computeKeyDelta test_env_charlie_bob22 test_md_revoked 2 3
          [(1, [11])] [(2, [21, 22]), (3, [31])] empty_kstate)
     = Inr \<lparr>addNewReaderDevice = True, addNewWriterDevice = False,
            newReaderUsers = [3, 2], newWriterUsers = [], promotedReaders = [],
            addNewReaderDeviceForSelf = False, incKeyGen = True\<rparr>"
    by code_simp
  have b: "readerScope False 3
        \<lparr>addNewReaderDevice = True, addNewWriterDevice = False,
         newReaderUsers = [3, 2], newWriterUsers = [], promotedReaders = [],
         addNewReaderDeviceForSelf = False, incKeyGen = True\<rparr>
        [(1, [11])] [(2, [21, 22]), (3, [31])]
       = Inr ([], [(3, [31])], [2])"
    by code_simp
  have c: "fst (Rekey test_env_charlie_bob22_down test_md_revoked False empty_kstate)
       = (False, None, Some (ServiceError 5))"
    by code_simp
  have d: "trace (snd (snd (Rekey test_env_charlie_bob22_down test_md_revoked False
                              empty_kstate)))
       = [EvGetCurrentUserInfo, EvResolveAgain, EvFlushUser 1, EvGetCryptPublicKeys 1,
          EvFlushUser 2, EvGetCryptPublicKeys 2, EvFlushUser 3, EvGetCryptPublicKeys 3,
          EvIdentify [3, 2], EvMakeRandomTLFEphemeralKeys, EvKeyCacheGet (TlfID 1 False) 1,
          EvGetCurrentUserInfo, EvGetCryptPublicKeys 3, EvDecryptClientHalfAny,
          EvGetServerHalf 5 31]"
    by code_simp
  have e1: "fst (Rekey test_env_charlie_bob22_down test_md False empty_kstate)
       = (False, None, Some RekeyIncompleteError)"
    by code_simp
  have e2: "fst (snd (Rekey test_env_charlie_bob22_down test_md False empty_kstate)) = test_md"
    by code_simp
  have e: "Rekey test_env_charlie_bob22_down test_md False empty_kstate
       = ((False, None, Some RekeyIncompleteError), test_md,
          snd (snd (Rekey test_env_charlie_bob22_down test_md False empty_kstate)))"
    using e1 e2 by (simp add: prod_eq_iff)
  have f: "trace (snd (snd (Rekey test_env_charlie_bob22_down test_md False empty_kstate)))
       = [EvGetCurrentUserInfo, EvResolveAgain, EvFlushUser 1, EvGetCryptPublicKeys 1,
          EvFlushUser 2, EvGetCryptPublicKeys 2, EvFlushUser 3, EvGetCryptPublicKeys 3,
          EvIdentify [2]]"
    by code_simp
  from a b c d e f show ?thesis by blast
qed

theorem Rekey_reader_with_revoked_device_passes_scope_check_witness:
  "fst (Rekey test_env_charlie_bob22_down test_md_revoked False empty_kstate)
     \<noteq> (False, None, Some RekeyIncompleteError)
   \<and> fst (Rekey test_env_charlie_bob22_down test_md False empty_kstate)
       = (False, None, Some RekeyIncompleteError)"
proof -
  from Rekey_reader_with_revoked_device_passes_scope_check
  have a: "fst (Rekey test_env_charlie_bob22_down test_md_revoked False empty_kstate)
             = (False, None, Some (ServiceError 5))"
    and b: "Rekey test_env_charlie_bob22_down test_md False empty_kstate
       = ((False, None, Some RekeyIncompleteError), test_md,
          snd (snd (Rekey test_env_charlie_bob22_down test_md False empty_kstate)))"
    by blast+
  from b have "fst (Rekey test_env_charlie_bob22_down test_md False empty_kstate)
       = (False, None, Some RekeyIncompleteError)"
    by (metis fst_conv)
  with a show ?thesis by simp
qed

text \<open>
  C3: a run in which the call promotes a reader and re-wraps, and reports the metadata
  as unchanged. Charlie (UID 3, a reader, on device 31) calls Rekey on the folder whose
  handle has made bob a writer; charlie's revoked device 32 is still in the reader
  bundle and he has no new device (\<open>addNewReaderDeviceForSelf\<close> is false). As in the run
  of C2, the removed readers merged into \<open>newReaderUsers\<close> let him through the reader's
  scope check. The call then promotes bob on the metadata object, re-wraps generations 1
  and 2 and updates the handle, and returns (false, nil) with RekeyIncompleteError:
  bob's key infos have moved from the reader bundle to the writer bundle, and
  finalizeRekey was not called. When charlie has a new device of his own instead of the
  revoked one, the same mutations are followed by finalizeRekey and the call returns
  (true, nil) with RekeyIncompleteError; when he has neither, the call stops at the
  scope check, has called no mutating method and returns the metadata as it got it.
\<close>

theorem Rekey_reader_with_revoked_device_promotes_and_reports_unchanged:
  "fst (computeKeyDelta test_env_charlie test_md_promote_revoked 2 3
          [(1, [11]), (2, [21])] [(3, [31])] empty_kstate)
     = Inr \<lparr>addNewReaderDevice = False, addNewWriterDevice = True,
            newReaderUsers = [3, 2], newWriterUsers = [2], promotedReaders = [2],
            addNewReaderDeviceForSelf = False, incKeyGen = True\<rparr>
   \<and> readerScope False 3
        \<lparr>addNewReaderDevice = False, addNewWriterDevice = True,
         newReaderUsers = [3, 2], newWriterUsers = [2], promotedReaders = [2],
         addNewReaderDeviceForSelf = False, incKeyGen = True\<rparr>
        [(1, [11]), (2, [21])] [(3, [31])]
       = Inr ([], [(3, [31])], [2])
   \<and> fst (Rekey test_env_charlie test_md_promote_revoked False empty_kstate)
       = (False, None, Some RekeyIncompleteError)
   \<and> fst (snd (Rekey test_env_charlie test_md_promote_revoked False empty_kstate))
       = test_md_promote_revoked
           \<lparr>rmd_writers := [(1, [(11, 3)]), (2, [(21, 4)])],
            rmd_readers := [(3, [(31, 5), (32, 8)])]\<rparr>
   \<and> rmd_writers test_md_promote_revoked = [(1, [(11, 3)])]
   \<and> rmd_readers test_md_promote_revoked = [(2, [(21, 4)]), (3, [(31, 5), (32, 8)])]
   \<and> md_mutations (trace (snd (snd (Rekey test_env_charlie test_md_promote_revoked False
                                         empty_kstate))))
       = [EvPromoteReader 2 None, EvUpdateKeyGeneration 1 None, EvUpdateKeyGeneration 2 None,
          EvUpdateFromTlfHandle 1 None]
   \<and> fst (Rekey test_env_charlie_33 test_md_promote False empty_kstate)
       = (True, None, Some RekeyIncompleteError)
   \<and> md_mutations (trace (snd (snd (Rekey test_env_charlie_33 test_md_promote False
                                         empty_kstate))))
       = [EvPromoteReader 2 None, EvUpdateKeyGeneration 1 None, EvUpdateKeyGeneration 2 None,
          EvFinalizeRekey None, EvUpdateFromTlfHandle 1 None]
   \<and> Rekey test_env_charlie test_md_promote False empty_kstate
       = ((False, None, Some RekeyIncompleteError), test_md_promote,
          snd (snd (Rekey test_env_charlie test_md_promote False empty_kstate)))
   \<and> md_mutations (trace (snd (snd (Rekey test_env_charlie test_md_promote False
                                         empty_kstate))))
       = []"
proof -
  have a: "fst (computeKeyDelta test_env_charlie test_md_promote_revoked 2 3
          [(1, [11]), (2, [21])] [(3, [31])] empty_kstate)
     = Inr \<lparr>addNewReaderDevice = False, addNewWriterDevice = True,
            newReaderUsers = [3, 2], newWriterUsers = [2], promotedReaders = [2],
            addNewReaderDeviceForSelf = False, incKeyGen = True\<rparr>"
    by code_simp
  have b: "readerScope False 3
        \<lparr>addNewReaderDevice = False, addNewWriterDevice = True,
         newReaderUsers = [3, 2], newWriterUsers = [2], promotedReaders = [2],
         addNewReaderDeviceForSelf = False, incKeyGen = True\<rparr>
        [(1, [11]), (2, [21])] [(3, [31])]
       = Inr ([], [(3, [31])], [2])"
    by code_simp
  have c: "fst (Rekey test_env_charlie test_md_promote_revoked False empty_kstate)
       = (False, None, Some RekeyIncompleteError)"
    by code_simp
  have d: "fst (snd (Rekey test_env_charlie test_md_promote_revoked False empty_kstate))
       = test_md_promote_revoked
           \<lparr>rmd_writers := [(1, [(11, 3)]), (2, [(21, 4)])],
            rmd_readers := [(3, [(31, 5), (32, 8)])]\<rparr>"
    by code_simp
  have e: "rmd_writers test_md_promote_revoked = [(1, [(11, 3)])]"
    by (simp add: test_md_promote_revoked_def test_md_revoked_def test_md_def)
  have f: "rmd_readers test_md_promote_revoked = [(2, [(21, 4)]), (3, [(31, 5), (32, 8)])]"
    by (simp add: test_md_promote_revoked_def test_md_revoked_def test_md_def)
  have g: "md_mutations (trace (snd (snd (Rekey test_env_charlie test_md_promote_revoked False
                                         empty_kstate))))
       = [EvPromoteReader 2 None, EvUpdateKeyGeneration 1 None, EvUpdateKeyGeneration 2 None,
          EvUpdateFromTlfHandle 1 None]"
    by code_simp
  have h: "fst (Rekey test_env_charlie_33 test_md_promote False empty_kstate)
       = (True, None, Some RekeyIncompleteError)"
    by code_simp
  have i: "md_mutations (trace (snd (snd (Rekey test_env_charlie_33 test_md_promote False
                                         empty_kstate))))
       = [EvPromoteReader 2 None, EvUpdateKeyGeneration 1 None, EvUpdateKeyGeneration 2 None,
          EvFinalizeRekey None, EvUpdateFromTlfHandle 1 None]"
    by code_simp
  have j1: "fst (Rekey test_env_charlie test_md_promote False empty_kstate)
       = (False, None, Some RekeyIncompleteError)"
    by code_simp
  have j2: "fst (snd (Rekey test_env_charlie test_md_promote False empty_kstate))
              = test_md_promote"
    by code_simp
  have j: "Rekey test_env_charlie test_md_promote False empty_kstate
       = ((False, None, Some RekeyIncompleteError), test_md_promote,
          snd (snd (Rekey test_env_charlie test_md_promote False empty_kstate)))"
    using j1 j2 by (simp add: prod_eq_iff)
  have k: "md_mutations (trace (snd (snd (Rekey test_env_charlie test_md_promote False
                                         empty_kstate))))
       = []"
    by code_simp
  from a b c d e f g h i j k show ?thesis by blast
qed

theorem Rekey_reader_with_revoked_device_promotes_and_reports_unchanged_witness:
  "fst (fst (Rekey test_env_charlie test_md_promote_revoked False empty_kstate)) = False
   \<and> rmd_writers (fst (snd (Rekey test_env_charlie test_md_promote_revoked False empty_kstate)))
       \<noteq> rmd_writers test_md_promote_revoked
   \<and> EvPromoteReader 2 None
        \<in> set (md_mutations (trace (snd (snd (Rekey test_env_charlie test_md_promote_revoked
                                                  False empty_kstate)))))
   \<and> fst (fst (Rekey test_env_charlie_33 test_md_promote False empty_kstate)) = True"
proof -
  from Rekey_reader_with_revoked_device_promotes_and_reports_unchanged
  have c: "fst (Rekey test_env_charlie test_md_promote_revoked False empty_kstate)
       = (False, None, Some RekeyIncompleteError)"
    and d: "fst (snd (Rekey test_env_charlie test_md_promote_revoked False empty_kstate))
       = test_md_promote_revoked
           \<lparr>rmd_writers := [(1, [(11, 3)]), (2, [(21, 4)])],
            rmd_readers := [(3, [(31, 5), (32, 8)])]\<rparr>"
    and e: "rmd_writers test_md_promote_revoked = [(1, [(11, 3)])]"
    and g: "md_mutations (trace (snd (snd (Rekey test_env_charlie test_md_promote_revoked False
                                         empty_kstate))))
       = [EvPromoteReader 2 None, EvUpdateKeyGeneration 1 None, EvUpdateKeyGeneration 2 None,
          EvUpdateFromTlfHandle 1 None]"
    and h: "fst (Rekey test_env_charlie_33 test_md_promote False empty_kstate)
       = (True, None, Some RekeyIncompleteError)"
    by blast+
  show ?thesis unfolding c d e g h by simp
qed

text \<open>
  What holds of the three results on every path. Take a Rekey call that returns without
  error or with RekeyIncompleteError, in a world where the metadata methods and the key
  server do not themselves return RekeyIncompleteError. It returns a crypt key exactly
  when it has appended a key generation; the key is then the one drawn by
  MakeRandomTLFKeys, mdChanged is true and the error is nil. mdChanged is true only when
  the call has finalized the metadata (finalizeRekey returned nil) or, for a public
  folder, has just updated the handle. A call that returns (false, nil) without error has
  called no mutating method of the metadata and returns the object as it got it.
\<close>

theorem Rekey_result_and_new_generation:
  assumes run: "Rekey env md promptPaper s = ((mdChanged, cryptKey, err), md', s')"
    and dom: "err = None \<or> err = Some RekeyIncompleteError"
    and hyp: "RekeyIncomplete_not_from_metadata env"
  shows "\<exists>M. milestones (trace s') = milestones (trace s) @ M
     \<and> ((cryptKey \<noteq> None) = (EvAddKeyGeneration None \<in> set M))
     \<and> (\<forall>k. cryptKey = Some k \<longrightarrow>
           mdChanged \<and> err = None
         \<and> (\<exists>h pubKey privKey. MakeRandomTLFKeys (crypto env) h = Inr (pubKey, privKey, k)))
     \<and> (mdChanged \<longrightarrow>
           EvFinalizeRekey None \<in> set M
         \<or> (IsPublic (TlfID_of (mdm env) md)
             \<and> (\<exists>h tr. trace s' = tr @ [EvUpdateFromTlfHandle h None])))
     \<and> (err = None \<and> \<not> mdChanged \<longrightarrow>
           md' = md \<and> md_mutations (trace s') = md_mutations (trace s))"
proof -
  let ?cur = "LatestKeyGeneration (mdm env) md"
  let ?tlf = "TlfID_of (mdm env) md"
  have dom': "isNilOrRekeyIncomplete err" using dom by (simp add: isNilOrRekeyIncomplete_def)
  have early: ?thesis
    if "milestones (trace s') = milestones (trace s)" "cryptKey = None" "\<not> mdChanged"
       "err = None \<longrightarrow> md' = md \<and> md_mutations (trace s') = md_mutations (trace s)"
    using that by (intro exI[of _ "[]"]) simp
  show ?thesis
  proof (cases "IsPublic ?tlf \<noteq> (?cur = PublicKeyGen env) \<or> (promptPaper \<and> IsPublic ?tlf)")
    case True
    with run dom show ?thesis by (auto simp: Rekey_def Let_def split: if_splits)
  next
    case pre: False
    obtain ru s1 where u: "KBPKI_GetCurrentUserInfo env s = (ru, s1)" by (metis surj_pair)
    note q1 = KBPKI_GetCurrentUserInfo_quiet[OF u]
    note n1 = KBPKI_GetCurrentUserInfo_no_mutation[OF u]
    show ?thesis
    proof (cases ru)
      case (Inl e)
      with run pre u have "s' = s1" "cryptKey = None" "\<not> mdChanged" "err = Some e"
        by (auto simp: Rekey_def Let_def)
      with q1 show ?thesis by (intro early) simp_all
    next
      case usr: (Inr nu)
      obtain username uid where nu: "nu = (username, uid)" by (cases nu) auto
      obtain rh0 s2 where h:
        "resolveHandle env ?tlf (GetTlfHandle (mdm env) md) uid s1 = (rh0, s2)"
        by (metis surj_pair)
      note q2 = resolveHandle_quiet[OF h]
      note n2 = resolveHandle_no_mutation[OF h]
      show ?thesis
      proof (cases rh0)
        case (Inl e)
        with run pre u usr nu h have "s' = s2" "cryptKey = None" "\<not> mdChanged" "err = Some e"
          by (auto simp: Rekey_def Let_def)
        with q1 q2 show ?thesis by (intro early) simp_all
      next
        case hd: (Inr t)
        obtain isWriter hc rh where t: "t = (isWriter, hc, rh)" by (cases t) auto
        show ?thesis
        proof (cases "IsPublic ?tlf")
          case pub: True
          with run pre u usr nu h hd t
          have "rekeyPublic env hc rh md s2 = ((mdChanged, cryptKey, err), md', s')"
            by (auto simp: Rekey_def Let_def)
          from rekeyPublic_result[OF this] have
            ck: "cryptKey = None" and ms: "milestones (trace s') = milestones (trace s2)"
            and nc: "\<not> mdChanged \<longrightarrow> err = None \<and> md' = md \<and> s' = s2"
            and ch: "mdChanged \<longrightarrow> trace s' = trace s2 @ [EvUpdateFromTlfHandle rh err]"
            by blast+
          have errNone: "mdChanged \<longrightarrow> err = None"
          proof
            assume c: mdChanged
            with run pre u usr nu h hd t pub
            have "err = fst (updateFromTlfHandle (mdm env) md rh)"
              by (auto simp: Rekey_def Let_def rekeyPublic_def md_updateFromTlfHandle_def
                  split: if_splits prod.splits)
            moreover from hyp have "fst (updateFromTlfHandle (mdm env) md rh)
                                      \<noteq> Some RekeyIncompleteError"
              unfolding RekeyIncomplete_not_from_metadata_def by blast
            ultimately show "err = None" using dom by auto
          qed
          show ?thesis
            using ck ms nc ch errNone q1 q2 n1 n2 pub
            by (intro exI[of _ "[]"]) auto
        next
          case priv: False
          with run pre u usr nu h hd t
          have rp: "rekeyPrivate env promptPaper ?cur username uid isWriter hc rh md s2
                      = ((mdChanged, cryptKey, err), md', s')"
            by (auto simp: Rekey_def Let_def)
          from rekeyPrivate_cases[OF rp] show ?thesis
          proof (elim disjE exE conjE)
            assume ms: "milestones (trace s') = milestones (trace s2)"
              and ck: "cryptKey = None" and nc: "\<not> mdChanged"
              and noop: "err = None \<longrightarrow> \<not> mdChanged
                 \<and> (\<exists>wKeys s1 rKeys s2' delta s3.
                      generateKeyMapForUsers env (ResolvedWriters (handles env) rh) s2
                        = (Inr wKeys, s1)
                    \<and> generateKeyMapForUsers env (ResolvedReaders (handles env) rh) s1
                        = (Inr rKeys, s2')
                    \<and> (if ?cur < FirstValidKeyGen env then (Inr firstKeyGenDelta, s2')
                        else computeKeyDelta env md ?cur uid wKeys rKeys s2') = (Inr delta, s3)
                    \<and> \<not> incKeyGen delta \<and> md' = md \<and> s' = s3)"
            have "err = None \<longrightarrow> md' = md \<and> md_mutations (trace s') = md_mutations (trace s)"
            proof
              assume "err = None"
              with noop obtain wKeys sa rKeys sb delta where
                gw: "generateKeyMapForUsers env (ResolvedWriters (handles env) rh) s2
                        = (Inr wKeys, sa)"
                and gr: "generateKeyMapForUsers env (ResolvedReaders (handles env) rh) sa
                        = (Inr rKeys, sb)"
                and cd: "(if ?cur < FirstValidKeyGen env then (Inr firstKeyGenDelta, sb)
                        else computeKeyDelta env md ?cur uid wKeys rKeys sb) = (Inr delta, s')"
                and md: "md' = md"
                by blast
              have "md_mutations (trace s') = md_mutations (trace sb)"
              proof (cases "?cur < FirstValidKeyGen env")
                case True
                with cd show ?thesis by simp
              next
                case False
                with cd have "computeKeyDelta env md ?cur uid wKeys rKeys sb = (Inr delta, s')"
                  by (simp only: if_False)
                then show ?thesis by (rule computeKeyDelta_no_mutation)
              qed
              with generateKeyMapForUsers_no_mutation[OF gw]
                generateKeyMapForUsers_no_mutation[OF gr] n1 n2 md
              show "md' = md \<and> md_mutations (trace s') = md_mutations (trace s)" by simp
            qed
            with ms ck nc q1 q2 show ?thesis by (intro early) simp_all
          next
            fix wKeys sa rKeys sb delta sc wK1 rK1 nru eP ePr md3 s7
            assume q7: "milestones (trace s7) = milestones (trace s2)"
              and rd: "runDeferred env rh
                 (rekeyFinish env promptPaper ?cur isWriter delta nru wK1 rK1 eP ePr md3 s7)
                = ((mdChanged, cryptKey, err), md', s')"
            obtain c0 ck0 e0 md0 s0 where
              rf: "rekeyFinish env promptPaper ?cur isWriter delta nru wK1 rK1 eP ePr md3 s7
                     = ((c0, ck0, e0), md0, s0)"
              by (metis surj_pair)
            from rekeyFinish_milestones[OF rf] obtain M0 where
              m0: "milestones (trace s0) = milestones (trace s7) @ M0"
              and some: "\<forall>k. ck0 = Some k \<longrightarrow> c0 \<and> e0 = None
                            \<and> EvAddKeyGeneration None \<in> set M0"
              and ok: "e0 = None \<longrightarrow> c0 \<and> ((ck0 \<noteq> None) = incKeyGen delta)
                      \<and> (EvAddKeyGeneration None \<in> set M0 \<longrightarrow> ck0 \<noteq> None)"
              by blast
            from runDeferred_milestones[OF rd[unfolded rf]] obtain F where
              f: "milestones (trace s') = milestones (trace s0) @ F"
              and fshape: "F = [] \<or> (\<exists>y. F = [EvFinalizeRekey y] \<and> c0
                              \<and> isNilOrRekeyIncomplete e0)"
              by blast
            from runDeferred_in_domain[OF rd[unfolded rf] dom'] hyp
            have same: "mdChanged = c0" "cryptKey = ck0" "err = e0"
              and fin: "mdChanged \<longrightarrow> milestones (trace s') = milestones (trace s0)
                                         @ [EvFinalizeRekey None]"
              by simp_all
            from rekeyFinish_in_domain[OF rf hyp dom'[unfolded same] m0]
            have iff0: "(ck0 \<noteq> None) = (EvAddKeyGeneration None \<in> set M0)"
              and prov: "\<forall>k. ck0 = Some k \<longrightarrow>
                 (\<exists>h pubKey privKey. MakeRandomTLFKeys (crypto env) h
                                       = Inr (pubKey, privKey, k))"
              by blast+
            have tot: "milestones (trace s') = milestones (trace s) @ (M0 @ F)"
              using q1 q2 q7 m0 f by simp
            have addF: "(EvAddKeyGeneration None \<in> set (M0 @ F))
                          = (EvAddKeyGeneration None \<in> set M0)"
              using fshape by auto
            have finF: "mdChanged \<longrightarrow> EvFinalizeRekey None \<in> set (M0 @ F)"
              using fin f by auto
            have noop: "\<not> (err = None \<and> \<not> mdChanged)"
              using same ok by auto
            show ?thesis
              using tot addF finF noop same iff0 prov some
              by (intro exI[of _ "M0 @ F"]) auto
          qed
        qed
      qed
    qed
  qed
qed

theorem Rekey_result_and_new_generation_witness:
  "RekeyIncomplete_not_from_metadata test_env
   \<and> fst (Rekey test_env test_md_promote False empty_kstate) = (True, Some 4242, None)
   \<and> (\<exists>M. milestones (trace (snd (snd (Rekey test_env test_md_promote False empty_kstate))))
             = milestones (trace empty_kstate) @ M
         \<and> EvAddKeyGeneration None \<in> set M \<and> EvFinalizeRekey None \<in> set M)
   \<and> (\<exists>h pubKey privKey. MakeRandomTLFKeys (crypto test_env) h = Inr (pubKey, privKey, 4242))
   \<and> fst (Rekey test_env test_md False empty_kstate) = (False, None, None)
   \<and> fst (snd (Rekey test_env test_md False empty_kstate)) = test_md
   \<and> md_mutations (trace (snd (snd (Rekey test_env test_md False empty_kstate)))) = []"
proof -
  have hyp: "RekeyIncomplete_not_from_metadata test_env"
    by (simp add: RekeyIncomplete_not_from_metadata_def test_defs test_md_promote_def)
  have val: "fst (Rekey test_env test_md_promote False empty_kstate) = (True, Some 4242, None)"
    unfolding test_md_promote_def by code_simp
  then obtain md' s' where
    run: "Rekey test_env test_md_promote False empty_kstate = ((True, Some 4242, None), md', s')"
    by (cases "Rekey test_env test_md_promote False empty_kstate") auto
  from Rekey_result_and_new_generation[OF run _ hyp] obtain M where
    m: "milestones (trace s') = milestones (trace empty_kstate) @ M"
    and a: "(Some (4242::nat) \<noteq> None) = (EvAddKeyGeneration None \<in> set M)"
    and p: "\<forall>k. Some (4242::nat) = Some k \<longrightarrow> True \<and> None = (None::error option)
         \<and> (\<exists>h pubKey privKey. MakeRandomTLFKeys (crypto test_env) h
                                 = Inr (pubKey, privKey, k))"
    and f: "True \<longrightarrow> EvFinalizeRekey None \<in> set M
         \<or> (IsPublic (TlfID_of (mdm test_env) test_md_promote)
             \<and> (\<exists>h tr. trace s' = tr @ [EvUpdateFromTlfHandle h None]))"
    by auto
  have "\<not> IsPublic (TlfID_of (mdm test_env) test_md_promote)" by (simp add: test_defs test_md_promote_def)
  with f have f': "EvFinalizeRekey None \<in> set M" by simp
  from a have a': "EvAddKeyGeneration None \<in> set M" by simp
  from p have p': "\<exists>h pubKey privKey. MakeRandomTLFKeys (crypto test_env) h
                                 = Inr (pubKey, privKey, 4242)" by simp
  have ex: "\<exists>M. milestones (trace (snd (snd (Rekey test_env test_md_promote False
                                                 empty_kstate))))
             = milestones (trace empty_kstate) @ M
         \<and> EvAddKeyGeneration None \<in> set M \<and> EvFinalizeRekey None \<in> set M"
    using m a' f' run by auto
  have val2: "fst (Rekey test_env test_md False empty_kstate) = (False, None, None)"
    by code_simp
  then obtain md2 s2 where
    run2: "Rekey test_env test_md False empty_kstate = ((False, None, None), md2, s2)"
    by (cases "Rekey test_env test_md False empty_kstate") auto
  from Rekey_result_and_new_generation[OF run2 _ hyp]
  have "md2 = test_md \<and> md_mutations (trace s2) = md_mutations (trace empty_kstate)"
    by auto
  with run2 have noop: "fst (snd (Rekey test_env test_md False empty_kstate)) = test_md"
    "md_mutations (trace (snd (snd (Rekey test_env test_md False empty_kstate)))) = []"
    by (simp_all add: empty_kstate_def)
  from hyp val ex p' val2 noop show ?thesis by blast
qed

text \<open>
  The flag returned with RekeyIncompleteError. On a private folder with a valid key
  generation, a call that returns mdChanged = true together with RekeyIncompleteError
  was made by a non-writer who is among the users with new reader devices, as computed
  before the removed readers are merged in (\<open>addNewReaderDeviceForSelf\<close>), and the call
  has finalized the metadata.
\<close>

theorem Rekey_incomplete_changed_only_for_own_new_device:
  assumes run: "Rekey env md promptPaper s
                  = ((True, cryptKey, Some RekeyIncompleteError), md', s')"
    and hyp: "RekeyIncomplete_not_from_metadata env"
    and priv: "\<not> IsPublic (TlfID_of (mdm env) md)"
    and valid: "FirstValidKeyGen env \<le> LatestKeyGeneration (mdm env) md"
    and user: "KBPKI_GetCurrentUserInfo env s = (Inr (username, uid), s1)"
    and handle: "resolveHandle env (TlfID_of (mdm env) md) (GetTlfHandle (mdm env) md) uid s1
                   = (Inr (isWriter, handleChanged, resolvedHandle), s2)"
    and wk: "generateKeyMapForUsers env (ResolvedWriters (handles env) resolvedHandle) s2
               = (Inr wKeys, s3)"
    and rk: "generateKeyMapForUsers env (ResolvedReaders (handles env) resolvedHandle) s3
               = (Inr rKeys, s4)"
    and dkim: "getUserDeviceKeyInfoMaps (mdm env) md (LatestKeyGeneration (mdm env) md)
                 = Inr (rDkim, wDkim)"
  shows "\<not> isWriter \<and> uid \<in> set (usersWithNewDevices rDkim rKeys)
       \<and> (\<exists>M. milestones (trace s') = milestones (trace s) @ M
              \<and> EvFinalizeRekey None \<in> set M)"
proof -
  let ?cur = "LatestKeyGeneration (mdm env) md"
  have dom: "isNilOrRekeyIncomplete (Some RekeyIncompleteError)"
    by (simp add: isNilOrRekeyIncomplete_def)
  have pre: "\<not> (IsPublic (TlfID_of (mdm env) md) \<noteq> (?cur = PublicKeyGen env))"
    using run priv by (auto simp: Rekey_def Let_def split: if_splits)
  from run priv pre user handle
  have rp: "rekeyPrivate env promptPaper ?cur username uid isWriter handleChanged
              resolvedHandle md s2 = ((True, cryptKey, Some RekeyIncompleteError), md', s')"
    by (auto simp: Rekey_def Let_def)
  have notfirst: "\<not> ?cur < FirstValidKeyGen env" using valid by simp
  from rekeyPrivate_cases[OF rp]
  obtain wKeys' sa rKeys' sb delta sc wK1 rK1 nru eP ePr md3 s7 where
    gw: "generateKeyMapForUsers env (ResolvedWriters (handles env) resolvedHandle) s2
                  = (Inr wKeys', sa)"
    and gr: "generateKeyMapForUsers env (ResolvedReaders (handles env) resolvedHandle) sa
                  = (Inr rKeys', sb)"
    and cd: "(if ?cur < FirstValidKeyGen env then (Inr firstKeyGenDelta, sb)
                else computeKeyDelta env md ?cur uid wKeys' rKeys' sb) = (Inr delta, sc)"
    and q7: "milestones (trace s7) = milestones (trace s2)"
    and rd: "runDeferred env resolvedHandle
               (rekeyFinish env promptPaper ?cur isWriter delta nru wK1 rK1 eP ePr md3 s7)
              = ((True, cryptKey, Some RekeyIncompleteError), md', s')"
    by blast
  from gw wk have w: "wKeys' = wKeys" "sa = s3" by simp_all
  with gr rk have r: "rKeys' = rKeys" "sb = s4" by simp_all
  from cd notfirst w r
  have ckd: "computeKeyDelta env md ?cur uid wKeys rKeys s4 = (Inr delta, sc)" by simp
  obtain c0 ck0 e0 md0 s0 where
    rf: "rekeyFinish env promptPaper ?cur isWriter delta nru wK1 rK1 eP ePr md3 s7
           = ((c0, ck0, e0), md0, s0)"
    by (metis surj_pair)
  from runDeferred_in_domain[OF rd[unfolded rf] dom] hyp
  have c0e0: "c0 = True" "e0 = Some RekeyIncompleteError"
    and fin: "milestones (trace s') = milestones (trace s0) @ [EvFinalizeRekey None]"
    by simp_all
  have q: "milestones (trace s2) = milestones (trace s)"
    using KBPKI_GetCurrentUserInfo_quiet[OF user] resolveHandle_quiet[OF handle] by simp
  from rekeyFinish_milestones[OF rf] obtain M0 where
    m0: "milestones (trace s0) = milestones (trace s7) @ M0"
    by blast
  have ms: "milestones (trace s') = milestones (trace s) @ (M0 @ [EvFinalizeRekey None])"
    using fin m0 q7 q by simp
  have ex: "\<exists>M. milestones (trace s') = milestones (trace s) @ M
              \<and> EvFinalizeRekey None \<in> set M"
    by (rule exI[of _ "M0 @ [EvFinalizeRekey None]"]) (simp add: ms)
  from c0e0 rf have rf': "rekeyFinish env promptPaper ?cur isWriter delta nru wK1 rK1 eP ePr md3 s7
           = ((True, ck0, Some RekeyIncompleteError), md0, s0)" by simp
  from rekeyFinish_changed_incomplete[OF rf']
  have "\<not> isWriter" "addNewReaderDeviceForSelf delta" by simp_all
  with computeKeyDelta_self[OF ckd dkim] ex
  show ?thesis by simp
qed

theorem Rekey_incomplete_changed_only_for_own_new_device_witness:
  "RekeyIncomplete_not_from_metadata test_env_charlie_33
   \<and> fst (Rekey test_env_charlie_33 test_md_promote False empty_kstate)
       = (True, None, Some RekeyIncompleteError)
   \<and> 3 \<in> set (usersWithNewDevices [(2, [(21, 4)]), (3, [(31, 5)])] [(3, [31, 33])])
   \<and> (\<exists>M. milestones (trace (snd (snd (Rekey test_env_charlie_33 test_md_promote False
                                             empty_kstate))))
             = milestones (trace empty_kstate) @ M
         \<and> EvFinalizeRekey None \<in> set M)"
proof -
  let ?env = test_env_charlie_33
  let ?md = test_md_promote
  let ?tlf = "TlfID_of (mdm ?env) ?md"
  let ?h = "GetTlfHandle (mdm ?env) ?md"
  let ?s1 = "snd (KBPKI_GetCurrentUserInfo ?env empty_kstate)"
  let ?s2 = "snd (resolveHandle ?env ?tlf ?h 3 ?s1)"
  let ?s3 = "snd (generateKeyMapForUsers ?env (ResolvedWriters (handles ?env) 1) ?s2)"
  let ?s4 = "snd (generateKeyMapForUsers ?env (ResolvedReaders (handles ?env) 1) ?s3)"
  have hyp: "RekeyIncomplete_not_from_metadata ?env"
    by (simp add: RekeyIncomplete_not_from_metadata_def test_env_charlie_33_def test_defs)
  have priv: "\<not> IsPublic ?tlf"
    by (simp add: test_env_charlie_33_def test_defs test_md_promote_def)
  have valid: "FirstValidKeyGen ?env \<le> LatestKeyGeneration (mdm ?env) ?md"
    by (simp add: test_env_charlie_33_def test_defs test_md_promote_def)
  have "fst (KBPKI_GetCurrentUserInfo ?env empty_kstate) = Inr (''charlie'', 3)"
    by code_simp
  then have user: "KBPKI_GetCurrentUserInfo ?env empty_kstate = (Inr (''charlie'', 3), ?s1)"
    by (simp add: prod_eq_iff)
  have "fst (resolveHandle ?env ?tlf ?h 3 ?s1) = Inr (False, False, 1)"
    by code_simp
  then have handle: "resolveHandle ?env ?tlf ?h 3 ?s1 = (Inr (False, False, 1), ?s2)"
    by (simp add: prod_eq_iff)
  have "fst (generateKeyMapForUsers ?env (ResolvedWriters (handles ?env) 1) ?s2)
          = Inr [(1, [11]), (2, [21])]"
    by code_simp
  then have wk: "generateKeyMapForUsers ?env (ResolvedWriters (handles ?env) 1) ?s2
                   = (Inr [(1, [11]), (2, [21])], ?s3)"
    by (simp add: prod_eq_iff)
  have "fst (generateKeyMapForUsers ?env (ResolvedReaders (handles ?env) 1) ?s3)
          = Inr [(3, [31, 33])]"
    by code_simp
  then have rk: "generateKeyMapForUsers ?env (ResolvedReaders (handles ?env) 1) ?s3
                   = (Inr [(3, [31, 33])], ?s4)"
    by (simp add: prod_eq_iff)
  have dkim: "getUserDeviceKeyInfoMaps (mdm ?env) ?md (LatestKeyGeneration (mdm ?env) ?md)
                = Inr ([(2, [(21, 4)]), (3, [(31, 5)])], [(1, [(11, 3)])])"
    by (simp add: test_env_charlie_33_def test_defs test_md_promote_def)
  have val: "fst (Rekey ?env ?md False empty_kstate) = (True, None, Some RekeyIncompleteError)"
    by code_simp
  then obtain md' s' where
    run: "Rekey ?env ?md False empty_kstate = ((True, None, Some RekeyIncompleteError), md', s')"
    by (cases "Rekey ?env ?md False empty_kstate") auto
  from Rekey_incomplete_changed_only_for_own_new_device
         [OF run hyp priv valid user handle wk rk dkim]
  have own: "3 \<in> set (usersWithNewDevices [(2, [(21, 4)]), (3, [(31, 5)])] [(3, [31, 33])])"
    and fin: "\<exists>M. milestones (trace s') = milestones (trace empty_kstate) @ M
                \<and> EvFinalizeRekey None \<in> set M"
    by blast+
  from fin run have fin': "\<exists>M. milestones (trace (snd (snd (Rekey ?env ?md False
                                             empty_kstate))))
             = milestones (trace empty_kstate) @ M
         \<and> EvFinalizeRekey None \<in> set M"
    by simp
  from hyp val own fin' show ?thesis by blast
qed

text \<open>
  The reader's scope check on the delta that Rekey computes. A non-writer who is
  among the users with new reader devices and is not a promoted reader continues with
  the scope cut down to the own entry: no writer keys, the reader keys of the caller
  only, and the caller taken out of the new reader users. A non-writer who is not in the
  new reader users (after the removed readers were merged into them), or who is a
  promoted reader, gets RekeyIncompleteError.
\<close>

theorem readerScope_of_computed_delta:
  assumes "computeKeyDelta env md currKeyGen uid wKeys rKeys s = (Inr delta, s')"
  shows "(addNewReaderDeviceForSelf delta \<and> uid \<notin> set (promotedReaders delta)
            \<longrightarrow> readerScope False uid delta wKeys rKeys
                  = Inr ([], [(uid, case map_of rKeys uid of None \<Rightarrow> [] | Some keys \<Rightarrow> keys)],
                         removeAll uid (newReaderUsers delta)))
       \<and> (uid \<notin> set (newReaderUsers delta) \<or> uid \<in> set (promotedReaders delta)
            \<longrightarrow> readerScope False uid delta wKeys rKeys = Inl RekeyIncompleteError)"
  using assms
  unfolding computeKeyDelta_def Let_def readerScope_def
  by (auto split: sum.splits prod.splits option.splits)

theorem readerScope_of_computed_delta_witness:
  "fst (computeKeyDelta test_env_charlie_bob22 test_md 2 2
          [(1, [11])] [(2, [21, 22]), (3, [31])] empty_kstate)
     = Inr \<lparr>addNewReaderDevice = True, addNewWriterDevice = False,
            newReaderUsers = [2], newWriterUsers = [], promotedReaders = [],
            addNewReaderDeviceForSelf = True, incKeyGen = False\<rparr>
   \<and> readerScope False 2
        \<lparr>addNewReaderDevice = True, addNewWriterDevice = False,
         newReaderUsers = [2], newWriterUsers = [], promotedReaders = [],
         addNewReaderDeviceForSelf = True, incKeyGen = False\<rparr>
        [(1, [11])] [(2, [21, 22]), (3, [31])]
       = Inr ([], [(2, [21, 22])], [])"
proof -
  let ?d = "\<lparr>addNewReaderDevice = True, addNewWriterDevice = False,
            newReaderUsers = [2], newWriterUsers = [], promotedReaders = [],
            addNewReaderDeviceForSelf = True, incKeyGen = False\<rparr>"
  let ?run = "computeKeyDelta test_env_charlie_bob22 test_md 2 2
          [(1, [11])] [(2, [21, 22]), (3, [31])] empty_kstate"
  have val: "fst ?run = Inr ?d" by code_simp
  then have run: "?run = (Inr ?d, snd ?run)" by (simp add: prod_eq_iff)
  from readerScope_of_computed_delta[OF run]
  have "readerScope False 2 ?d [(1, [11])] [(2, [21, 22]), (3, [31])]
          = Inr ([], [(2, case map_of [(2, [21, 22]), (3, [31::nat])] (2::nat) of
                            None \<Rightarrow> [] | Some keys \<Rightarrow> keys)],
                 removeAll 2 (newReaderUsers ?d))"
    by simp
  then have "readerScope False 2 ?d [(1, [11])] [(2, [21, 22]), (3, [31])]
          = Inr ([], [(2, [21, 22])], [])" by simp
  with val show ?thesis by blast
qed

end
